theory Spec2Isabelle
  imports Main "HOL-Library.Sublist"
begin

section \<open>Go standard-library helpers used by the provider\<close>

text \<open>
  Go strings are byte sequences; they are modelled as \<open>string\<close> (a list of \<open>char\<close>).

  \<^verbatim>\<open>strings.Split(s, sep)\<close> for a one-byte separator: the result has one more element
  than \<open>s\<close> has separators, and the empty string gives the one-element slice holding the
  empty string. \<open>Split_from cur s\<close> is the scan with the part read so far in \<open>cur\<close>.
\<close>

fun Split_from :: "string \<Rightarrow> string \<Rightarrow> char \<Rightarrow> string list" where
  "Split_from cur [] sep = [cur]"
| "Split_from cur (x # xs) sep =
     (if x = sep then cur # Split_from [] xs sep else Split_from (cur @ [x]) xs sep)"

definition strings_Split :: "string \<Rightarrow> char \<Rightarrow> string list" where
  "strings_Split s sep = Split_from [] s sep"

section \<open>data\_source\_repository.go: splitRepoFullName\<close>

text \<open>
  Go errors built with \<^verbatim>\<open>fmt.Errorf\<close> are values of a datatype, one constructor for each
  message of the provider, holding the values formatted into the message.
\<close>

datatype split_error = UnexpectedFullNameFormat string

text \<open>
  \<^verbatim>\<open>
  func splitRepoFullName(fullName string) (string, string, error) {
      parts := strings.Split(fullName, "/")
      if len(parts) != 2 {
          return "", "", fmt.Errorf("unexpected full name format (%q), expected owner/repo_name", fullName)
      }
      return parts[0], parts[1], nil
  }
  \<close>
  The Go triple is returned as it is; \<open>None\<close> is the nil error.
\<close>

definition splitRepoFullName :: "string \<Rightarrow> string \<times> string \<times> split_error option" where
  "splitRepoFullName fullName =
     (let parts = strings_Split fullName (CHR ''/'') in
      if length parts \<noteq> 2 then ('''', '''', Some (UnexpectedFullNameFormat fullName))
      else (parts ! 0, parts ! 1, None))"

section \<open>More of the Go standard library\<close>

text \<open>
  \<^verbatim>\<open>strings.Contains(s, substr)\<close>: \<open>substr\<close> occurs in \<open>s\<close> as a contiguous run of bytes.
\<close>

fun strings_Contains :: "string \<Rightarrow> string \<Rightarrow> bool" where
  "strings_Contains [] substr = (substr = [])"
| "strings_Contains (x # xs) substr = (prefix substr (x # xs) \<or> strings_Contains xs substr)"

text \<open>
  \<^verbatim>\<open>strings.HasSuffix(s, suffix)\<close>.
\<close>

definition strings_HasSuffix :: "string \<Rightarrow> string \<Rightarrow> bool" where
  "strings_HasSuffix s suff = suffix suff s"

text \<open>
  The verb \<^verbatim>\<open>%d\<close> of \<^verbatim>\<open>fmt.Sprintf\<close> on an integer: its decimal digits, with a minus
  sign for a negative value.
\<close>

definition digit_char :: "nat \<Rightarrow> char" where
  "digit_char d = ''0123456789'' ! d"

fun format_nat :: "nat \<Rightarrow> string" where
  "format_nat n =
     (if n < 10 then [digit_char n] else format_nat (n div 10) @ [digit_char (n mod 10)])"

declare format_nat.simps [simp del]

definition format_d :: "int \<Rightarrow> string" where
  "format_d i = (if i < 0 then CHR ''-'' # format_nat (nat (- i)) else format_nat (nat i))"

section \<open>terraform-plugin-framework values and diagnostics\<close>

text \<open>
  A framework value (\<^verbatim>\<open>types.String\<close>, \<^verbatim>\<open>types.Bool\<close>, \<^verbatim>\<open>types.Int64\<close>) is null, unknown
  or known. \<^verbatim>\<open>ValueString()\<close> and \<^verbatim>\<open>ValueBool()\<close> give the zero value of the Go type
  for a null or unknown value.
\<close>

datatype 'a tf_value = Null | Unknown | Known 'a

fun IsNull :: "'a tf_value \<Rightarrow> bool" where
  "IsNull Null = True"
| "IsNull _ = False"

fun IsUnknown :: "'a tf_value \<Rightarrow> bool" where
  "IsUnknown Unknown = True"
| "IsUnknown _ = False"

fun ValueString :: "string tf_value \<Rightarrow> string" where
  "ValueString (Known s) = s"
| "ValueString _ = []"

fun ValueBool :: "bool tf_value \<Rightarrow> bool" where
  "ValueBool (Known b) = b"
| "ValueBool _ = False"

fun ValueInt64 :: "int tf_value \<Rightarrow> int" where
  "ValueInt64 (Known i) = i"
| "ValueInt64 _ = 0"

text \<open>
  \<^verbatim>\<open>diag.Diagnostics\<close> is a list of diagnostics, each an error or a warning with a
  summary and a detail. \<^verbatim>\<open>AddError\<close> and \<^verbatim>\<open>AddWarning\<close> go through \<^verbatim>\<open>Append\<close>, which
  skips a diagnostic that the list already holds.
\<close>

datatype Diagnostic = ErrorDiagnostic string string | WarningDiagnostic string string

type_synonym Diagnostics = "Diagnostic list"

fun is_error :: "Diagnostic \<Rightarrow> bool" where
  "is_error (ErrorDiagnostic _ _) = True"
| "is_error (WarningDiagnostic _ _) = False"

fun Summary :: "Diagnostic \<Rightarrow> string" where
  "Summary (ErrorDiagnostic s _) = s"
| "Summary (WarningDiagnostic s _) = s"

fun Append :: "Diagnostics \<Rightarrow> Diagnostics \<Rightarrow> Diagnostics" where
  "Append ds [] = ds"
| "Append ds (d # rest) = Append (if d \<in> set ds then ds else ds @ [d]) rest"

definition AddError :: "Diagnostics \<Rightarrow> string \<Rightarrow> string \<Rightarrow> Diagnostics" where
  "AddError ds summary detail = Append ds [ErrorDiagnostic summary detail]"

definition AddWarning :: "Diagnostics \<Rightarrow> string \<Rightarrow> string \<Rightarrow> Diagnostics" where
  "AddWarning ds summary detail = Append ds [WarningDiagnostic summary detail]"

definition HasError :: "Diagnostics \<Rightarrow> bool" where
  "HasError ds = list_ex is_error ds"

section \<open>go-github: errors, values and the client\<close>

text \<open>
  An error returned by a go-github call is either a \<^verbatim>\<open>*github.ErrorResponse\<close> (the only
  kind \<^verbatim>\<open>errors.As(err, &ghErr)\<close> accepts in the provider), with its \<^verbatim>\<open>Response\<close> nil or
  carrying the HTTP status code, or any other error. Both carry the text \<^verbatim>\<open>err.Error()\<close>.
\<close>

datatype api_error = ErrorResponse "int option" string | OtherError string

fun Error :: "api_error \<Rightarrow> string" where
  "Error (ErrorResponse _ msg) = msg"
| "Error (OtherError msg) = msg"

text \<open>
  \<open>StatusCode_is err code\<close> is the test
  \<^verbatim>\<open>errors.As(err, &ghErr) && ghErr.Response != nil && ghErr.Response.StatusCode == code\<close>.
\<close>

fun StatusCode_is :: "api_error \<Rightarrow> int \<Rightarrow> bool" where
  "StatusCode_is (ErrorResponse (Some c) _) code = (c = code)"
| "StatusCode_is _ code = False"

definition StatusNotFound :: int where "StatusNotFound = 404"

definition StatusMethodNotAllowed :: int where "StatusMethodNotAllowed = 405"

definition StatusConflict :: int where "StatusConflict = 409"

definition StatusUnprocessableEntity :: int where "StatusUnprocessableEntity = 422"

definition StatusTooManyRequests :: int where "StatusTooManyRequests = 429"

text \<open>
  The go-github structs, with the fields the provider reads or writes. A pointer field is
  an \<open>option\<close>; the getter \<^verbatim>\<open>GetX()\<close> gives the zero value for a nil pointer.
\<close>

definition GetString :: "string option \<Rightarrow> string" where
  "GetString p = (case p of None \<Rightarrow> [] | Some s \<Rightarrow> s)"

definition GetBool :: "bool option \<Rightarrow> bool" where
  "GetBool p = (case p of None \<Rightarrow> False | Some b \<Rightarrow> b)"

definition GetInt :: "int option \<Rightarrow> int" where
  "GetInt p = (case p of None \<Rightarrow> 0 | Some i \<Rightarrow> i)"

record User =
  Login :: "string option"

record GitObject =
  obj_SHA :: "string option"

record Reference =
  ref_Ref :: "string option"
  ref_Object :: "GitObject option"

record RepositoryContentGetOptions =
  get_Ref :: string

record CommitAuthor =
  author_Name :: "string option"
  author_Email :: "string option"

record RepositoryContentFileOptions =
  opt_Message :: "string option"
  opt_Content :: string
  opt_SHA :: "string option"
  opt_Branch :: "string option"
  opt_Author :: "CommitAuthor option"
  opt_Committer :: "CommitAuthor option"

text \<open>
  \<open>content_GetContent\<close> is the result of \<^verbatim>\<open>fc.GetContent()\<close>: the text of the decoding
  error (\<open>Inl\<close>) or the decoded content.
\<close>

record RepositoryContent =
  content_SHA :: "string option"
  content_URL :: "string option"
  content_GetContent :: "string + string"

record RepositoryContentResponse =
  response_SHA :: "string option"

record Commit =
  commit_Message :: "string option"
  commit_Committer :: "CommitAuthor option"

record RepositoryCommit =
  rcommit_SHA :: "string option"
  rcommit_Commit :: "Commit option"

record CommitsListOptions =
  list_Path :: string
  list_SHA :: string
  list_PerPage :: int

record Timestamp =
  IsZero :: bool
  Format_RFC3339 :: string

record PullRequestBranch =
  branch_Ref :: "string option"
  branch_SHA :: "string option"

record PullRequest =
  pr_Number :: "int option"
  pr_State :: "string option"
  pr_Title :: "string option"
  pr_Body :: "string option"
  pr_Merged :: "bool option"
  pr_Mergeable :: "bool option"
  pr_MaintainerCanModify :: "bool option"
  pr_MergedAt :: "Timestamp option"
  pr_MergeCommitSHA :: "string option"
  pr_Head :: "PullRequestBranch option"
  pr_Base :: "PullRequestBranch option"

record NewPullRequest =
  new_Title :: "string option"
  new_Head :: "string option"
  new_Base :: "string option"
  new_Body :: "string option"
  new_MaintainerCanModify :: "bool option"

record PullRequestListOptions =
  prlist_State :: string
  prlist_Head :: string
  prlist_Base :: string
  prlist_PerPage :: int

record PullRequestReviewRequest =
  review_Event :: "string option"
  review_Body :: "string option"

record PullRequestOptions =
  MergeMethod :: string

record Repository =
  AllowSquashMerge :: "bool option"
  AllowMergeCommit :: "bool option"
  AllowRebaseMerge :: "bool option"

record RepoStatus =
  status_State :: "string option"
  status_Context :: "string option"

record InstallationToken =
  Token :: "string option"

text \<open>
  A request to the remote API, and what came back. The arguments are those of the
  go-github method, without the context.
\<close>

datatype call =
    Call_Users_Get string
  | Call_Git_GetRef string string string
  | Call_Git_CreateRef string string Reference
  | Call_Git_DeleteRef string string string
  | Call_Repositories_Get string string
  | Call_Repositories_GetContents string string string RepositoryContentGetOptions
  | Call_Repositories_CreateFile string string string RepositoryContentFileOptions
  | Call_Repositories_DeleteFile string string string RepositoryContentFileOptions
  | Call_Repositories_GetCommit string string string
  | Call_Repositories_ListCommits string string CommitsListOptions
  | Call_Repositories_ListStatuses string string string
  | Call_PullRequests_Get string string int
  | Call_PullRequests_List string string PullRequestListOptions
  | Call_PullRequests_Edit string string int PullRequest
  | Call_PullRequests_Create string string NewPullRequest
  | Call_PullRequests_CreateReview string string int PullRequestReviewRequest
  | Call_PullRequests_Merge string string int string PullRequestOptions
  | Call_Apps_CreateInstallationToken int

datatype reply =
    Reply_error api_error
  | Reply_done
  | Reply_User User
  | Reply_Reference Reference
  | Reply_Repository Repository
  | Reply_Contents "RepositoryContent option"
  | Reply_ContentResponse RepositoryContentResponse
  | Reply_Commit RepositoryCommit
  | Reply_Commits "RepositoryCommit list"
  | Reply_Statuses "RepoStatus list"
  | Reply_PullRequest PullRequest
  | Reply_PullRequests "PullRequest list"
  | Reply_InstallationToken InstallationToken

text \<open>
  The remote service is a state \<open>'w\<close> that every call may read and change:
  \<^verbatim>\<open>*github.Client\<close> is the record of its methods, each taking the arguments and the state
  of the remote and giving the outcome (\<open>Inl\<close> the error) and the next state. Nothing is
  assumed of the remote: a theorem for every client and every \<open>'w\<close> holds however the
  service answers. go-github gives a non-nil value whenever the error is nil, so a
  successful outcome is the value itself; \<^verbatim>\<open>GetContents\<close> alone gives a nil file without
  an error, when the path is a directory.
\<close>

record 'w Client =
  Users_Get :: "string \<Rightarrow> 'w \<Rightarrow> (api_error + User) \<times> 'w"
  Git_GetRef :: "string \<Rightarrow> string \<Rightarrow> string \<Rightarrow> 'w \<Rightarrow> (api_error + Reference) \<times> 'w"
  Git_CreateRef :: "string \<Rightarrow> string \<Rightarrow> Reference \<Rightarrow> 'w \<Rightarrow> (api_error + Reference) \<times> 'w"
  Git_DeleteRef :: "string \<Rightarrow> string \<Rightarrow> string \<Rightarrow> 'w \<Rightarrow> (api_error + unit) \<times> 'w"
  Repositories_Get :: "string \<Rightarrow> string \<Rightarrow> 'w \<Rightarrow> (api_error + Repository) \<times> 'w"
  Repositories_GetContents ::
    "string \<Rightarrow> string \<Rightarrow> string \<Rightarrow> RepositoryContentGetOptions \<Rightarrow> 'w
      \<Rightarrow> (api_error + RepositoryContent option) \<times> 'w"
  Repositories_CreateFile ::
    "string \<Rightarrow> string \<Rightarrow> string \<Rightarrow> RepositoryContentFileOptions \<Rightarrow> 'w
      \<Rightarrow> (api_error + RepositoryContentResponse) \<times> 'w"
  Repositories_DeleteFile ::
    "string \<Rightarrow> string \<Rightarrow> string \<Rightarrow> RepositoryContentFileOptions \<Rightarrow> 'w
      \<Rightarrow> (api_error + RepositoryContentResponse) \<times> 'w"
  Repositories_GetCommit ::
    "string \<Rightarrow> string \<Rightarrow> string \<Rightarrow> 'w \<Rightarrow> (api_error + RepositoryCommit) \<times> 'w"
  Repositories_ListCommits ::
    "string \<Rightarrow> string \<Rightarrow> CommitsListOptions \<Rightarrow> 'w \<Rightarrow> (api_error + RepositoryCommit list) \<times> 'w"
  Repositories_ListStatuses ::
    "string \<Rightarrow> string \<Rightarrow> string \<Rightarrow> 'w \<Rightarrow> (api_error + RepoStatus list) \<times> 'w"
  PullRequests_Get :: "string \<Rightarrow> string \<Rightarrow> int \<Rightarrow> 'w \<Rightarrow> (api_error + PullRequest) \<times> 'w"
  PullRequests_List ::
    "string \<Rightarrow> string \<Rightarrow> PullRequestListOptions \<Rightarrow> 'w \<Rightarrow> (api_error + PullRequest list) \<times> 'w"
  PullRequests_Edit ::
    "string \<Rightarrow> string \<Rightarrow> int \<Rightarrow> PullRequest \<Rightarrow> 'w \<Rightarrow> (api_error + PullRequest) \<times> 'w"
  PullRequests_Create ::
    "string \<Rightarrow> string \<Rightarrow> NewPullRequest \<Rightarrow> 'w \<Rightarrow> (api_error + PullRequest) \<times> 'w"
  PullRequests_CreateReview ::
    "string \<Rightarrow> string \<Rightarrow> int \<Rightarrow> PullRequestReviewRequest \<Rightarrow> 'w \<Rightarrow> (api_error + unit) \<times> 'w"
  PullRequests_Merge ::
    "string \<Rightarrow> string \<Rightarrow> int \<Rightarrow> string \<Rightarrow> PullRequestOptions \<Rightarrow> 'w \<Rightarrow> (api_error + unit) \<times> 'w"
  Apps_CreateInstallationToken :: "int \<Rightarrow> 'w \<Rightarrow> (api_error + InstallationToken) \<times> 'w"

text \<open>
  A run of the provider threads the state of the remote and keeps the transcript of what
  it did: every request with its reply, and every \<^verbatim>\<open>time.Sleep\<close> with its seconds, in
  order. \<open>invoke\<close> performs one request; \<open>wrap\<close> is how its successful outcome is written
  into the transcript.
\<close>

datatype event = Called call reply | Slept nat

record 'w run =
  world :: 'w
  transcript :: "event list"

definition invoke ::
  "call \<Rightarrow> ('r \<Rightarrow> reply) \<Rightarrow> ('w \<Rightarrow> (api_error + 'r) \<times> 'w) \<Rightarrow> 'w run \<Rightarrow> (api_error + 'r) \<times> 'w run" where
  "invoke c wrap method s =
     (case method (world s) of
        (outcome, w') \<Rightarrow>
          (outcome,
           \<lparr>world = w',
            transcript = transcript s
              @ [Called c (case outcome of Inl e \<Rightarrow> Reply_error e | Inr v \<Rightarrow> wrap v)]\<rparr>))"

definition time_Sleep :: "nat \<Rightarrow> 'w run \<Rightarrow> 'w run" where
  "time_Sleep seconds s = s\<lparr>transcript := transcript s @ [Slept seconds]\<rparr>"

section \<open>provider.go: the data handed to resources and data sources\<close>

text \<open>
  \<^verbatim>\<open>githubxClientData\<close> holds the client pointer (possibly nil) and the owner.
  \<^verbatim>\<open>req.ProviderData\<close> has the Go type \<^verbatim>\<open>any\<close>: it is nil, a \<^verbatim>\<open>githubxClientData\<close>, or a value
  of another type, of which only the name printed by \<^verbatim>\<open>%T\<close> is used.
\<close>

record 'w githubxClientData =
  data_Client :: "'w Client option"
  data_Owner :: string

datatype 'w ProviderData = NilData | ClientData "'w githubxClientData" | OtherData string

record 'w ConfigureRequest =
  ProviderData :: "'w ProviderData"

record ConfigureResponse =
  Diagnostics :: Diagnostics

text \<open>
  The structs of the resources and data sources: \<^verbatim>\<open>userDataSource\<close> has the client only;
  \<^verbatim>\<open>repositoryDataSource\<close>, \<^verbatim>\<open>repositoryBranchDataSource\<close>, \<^verbatim>\<open>repositoryFileDataSource\<close>,
  \<^verbatim>\<open>repositoryBranchResource\<close>, \<^verbatim>\<open>repositoryFileResource\<close> and
  \<^verbatim>\<open>repositoryPullRequestResource\<close> have the client and the owner;
  \<^verbatim>\<open>repositoryResource\<close> has the authenticated user as well.
\<close>

record 'w userDataSource =
  r_client :: "'w Client option"

record 'w owned = "'w userDataSource" +
  r_owner :: string

record 'w repositoryResource = "'w owned" +
  r_authenticatedUser :: string

type_synonym 'w repositoryDataSource = "'w owned"

type_synonym 'w repositoryBranchDataSource = "'w owned"

type_synonym 'w repositoryFileDataSource = "'w owned"

type_synonym 'w repositoryBranchResource = "'w owned"

type_synonym 'w repositoryFileResource = "'w owned"

type_synonym 'w repositoryPullRequestResource = "'w owned"

definition unexpected_type_detail :: "string \<Rightarrow> string" where
  "unexpected_type_detail type_name =
     ''Expected githubxClientData, got: '' @ type_name
       @ ''. Please report this issue to the provider developers.''"

section \<open>Configure of every resource and data source\<close>

text \<open>
  \<^verbatim>\<open>
  func (d *userDataSource) Configure(ctx, req, resp) {
      if req.ProviderData == nil { return }
      clientData, ok := req.ProviderData.(githubxClientData)
      if !ok {
          resp.Diagnostics.AddError("Unexpected Data Source Configure Type",
              fmt.Sprintf("Expected githubxClientData, got: %T. Please report ...", req.ProviderData))
          return
      }
      d.client = clientData.Client
  }
  \<close>
  The receiver and the response are returned as the call leaves them.
\<close>

definition userDataSource_Configure ::
  "'w userDataSource \<Rightarrow> 'w ConfigureRequest \<Rightarrow> ConfigureResponse
    \<Rightarrow> 'w userDataSource \<times> ConfigureResponse" where
  "userDataSource_Configure d req resp =
     (case ProviderData req of
        NilData \<Rightarrow> (d, resp)
      | OtherData type_name \<Rightarrow>
          (d, resp\<lparr>Diagnostics := AddError (Diagnostics resp)
                 ''Unexpected Data Source Configure Type'' (unexpected_type_detail type_name)\<rparr>)
      | ClientData clientData \<Rightarrow> (d\<lparr>r_client := data_Client clientData\<rparr>, resp))"

text \<open>
  The Configure methods of \<^verbatim>\<open>repositoryDataSource\<close>, \<^verbatim>\<open>repositoryBranchDataSource\<close> and
  \<^verbatim>\<open>repositoryFileDataSource\<close> have one and the same body, which also sets
  \<^verbatim>\<open>d.owner = clientData.Owner\<close>.
\<close>

definition repositoryDataSource_Configure ::
  "'w repositoryDataSource \<Rightarrow> 'w ConfigureRequest \<Rightarrow> ConfigureResponse
    \<Rightarrow> 'w repositoryDataSource \<times> ConfigureResponse" where
  "repositoryDataSource_Configure d req resp =
     (case ProviderData req of
        NilData \<Rightarrow> (d, resp)
      | OtherData type_name \<Rightarrow>
          (d, resp\<lparr>Diagnostics := AddError (Diagnostics resp)
                 ''Unexpected Data Source Configure Type'' (unexpected_type_detail type_name)\<rparr>)
      | ClientData clientData \<Rightarrow>
          (d\<lparr>r_client := data_Client clientData, r_owner := data_Owner clientData\<rparr>, resp))"

definition repositoryBranchDataSource_Configure ::
  "'w repositoryBranchDataSource \<Rightarrow> 'w ConfigureRequest \<Rightarrow> ConfigureResponse
    \<Rightarrow> 'w repositoryBranchDataSource \<times> ConfigureResponse" where
  "repositoryBranchDataSource_Configure d req resp =
     (case ProviderData req of
        NilData \<Rightarrow> (d, resp)
      | OtherData type_name \<Rightarrow>
          (d, resp\<lparr>Diagnostics := AddError (Diagnostics resp)
                 ''Unexpected Data Source Configure Type'' (unexpected_type_detail type_name)\<rparr>)
      | ClientData clientData \<Rightarrow>
          (d\<lparr>r_client := data_Client clientData, r_owner := data_Owner clientData\<rparr>, resp))"

definition repositoryFileDataSource_Configure ::
  "'w repositoryFileDataSource \<Rightarrow> 'w ConfigureRequest \<Rightarrow> ConfigureResponse
    \<Rightarrow> 'w repositoryFileDataSource \<times> ConfigureResponse" where
  "repositoryFileDataSource_Configure d req resp =
     (case ProviderData req of
        NilData \<Rightarrow> (d, resp)
      | OtherData type_name \<Rightarrow>
          (d, resp\<lparr>Diagnostics := AddError (Diagnostics resp)
                 ''Unexpected Data Source Configure Type'' (unexpected_type_detail type_name)\<rparr>)
      | ClientData clientData \<Rightarrow>
          (d\<lparr>r_client := data_Client clientData, r_owner := data_Owner clientData\<rparr>, resp))"

text \<open>
  The Configure methods of \<^verbatim>\<open>repositoryBranchResource\<close>, \<^verbatim>\<open>repositoryFileResource\<close> and
  \<^verbatim>\<open>repositoryPullRequestResource\<close>: the same body with the summary
  "Unexpected Resource Configure Type".
\<close>

definition repositoryBranchResource_Configure ::
  "'w repositoryBranchResource \<Rightarrow> 'w ConfigureRequest \<Rightarrow> ConfigureResponse
    \<Rightarrow> 'w repositoryBranchResource \<times> ConfigureResponse" where
  "repositoryBranchResource_Configure r req resp =
     (case ProviderData req of
        NilData \<Rightarrow> (r, resp)
      | OtherData type_name \<Rightarrow>
          (r, resp\<lparr>Diagnostics := AddError (Diagnostics resp)
                 ''Unexpected Resource Configure Type'' (unexpected_type_detail type_name)\<rparr>)
      | ClientData clientData \<Rightarrow>
          (r\<lparr>r_client := data_Client clientData, r_owner := data_Owner clientData\<rparr>, resp))"

definition repositoryFileResource_Configure ::
  "'w repositoryFileResource \<Rightarrow> 'w ConfigureRequest \<Rightarrow> ConfigureResponse
    \<Rightarrow> 'w repositoryFileResource \<times> ConfigureResponse" where
  "repositoryFileResource_Configure r req resp =
     (case ProviderData req of
        NilData \<Rightarrow> (r, resp)
      | OtherData type_name \<Rightarrow>
          (r, resp\<lparr>Diagnostics := AddError (Diagnostics resp)
                 ''Unexpected Resource Configure Type'' (unexpected_type_detail type_name)\<rparr>)
      | ClientData clientData \<Rightarrow>
          (r\<lparr>r_client := data_Client clientData, r_owner := data_Owner clientData\<rparr>, resp))"

definition repositoryPullRequestResource_Configure ::
  "'w repositoryPullRequestResource \<Rightarrow> 'w ConfigureRequest \<Rightarrow> ConfigureResponse
    \<Rightarrow> 'w repositoryPullRequestResource \<times> ConfigureResponse" where
  "repositoryPullRequestResource_Configure r req resp =
     (case ProviderData req of
        NilData \<Rightarrow> (r, resp)
      | OtherData type_name \<Rightarrow>
          (r, resp\<lparr>Diagnostics := AddError (Diagnostics resp)
                 ''Unexpected Resource Configure Type'' (unexpected_type_detail type_name)\<rparr>)
      | ClientData clientData \<Rightarrow>
          (r\<lparr>r_client := data_Client clientData, r_owner := data_Owner clientData\<rparr>, resp))"

text \<open>
  \<^verbatim>\<open>repositoryResource.Configure\<close> goes on, once client and owner are set:
  \<^verbatim>\<open>
      if r.client != nil {
          user, _, err := r.client.Users.Get(ctx, "")
          if err == nil && user != nil && user.Login != nil {
              r.authenticatedUser = user.GetLogin()
          }
      }
  \<close>
  so it makes a request, and takes and returns the run.
\<close>

definition repositoryResource_Configure ::
  "'w repositoryResource \<Rightarrow> 'w ConfigureRequest \<Rightarrow> ConfigureResponse \<Rightarrow> 'w run
    \<Rightarrow> ('w repositoryResource \<times> ConfigureResponse) \<times> 'w run" where
  "repositoryResource_Configure r req resp s =
     (case ProviderData req of
        NilData \<Rightarrow> ((r, resp), s)
      | OtherData type_name \<Rightarrow>
          ((r, resp\<lparr>Diagnostics := AddError (Diagnostics resp)
                 ''Unexpected Resource Configure Type'' (unexpected_type_detail type_name)\<rparr>), s)
      | ClientData clientData \<Rightarrow>
          (let r1 = r\<lparr>r_client := data_Client clientData, r_owner := data_Owner clientData\<rparr> in
           case r_client r1 of
             None \<Rightarrow> ((r1, resp), s)
           | Some c \<Rightarrow>
               (case invoke (Call_Users_Get []) Reply_User (Users_Get c []) s of
                  (Inr user, s1) \<Rightarrow>
                    (case Login user of
                       Some login \<Rightarrow> ((r1\<lparr>r_authenticatedUser := login\<rparr>, resp), s1)
                     | None \<Rightarrow> ((r1, resp), s1))
                | (Inl err, s1) \<Rightarrow> ((r1, resp), s1))))"

text \<open>
  The constructors \<^verbatim>\<open>NewUserDataSource\<close>, \<^verbatim>\<open>NewRepositoryFileResource\<close>, ... return the
  zero value of the struct, and the framework passes a fresh response to every call.
\<close>

definition new_userDataSource :: "'w userDataSource" where
  "new_userDataSource = \<lparr>r_client = None\<rparr>"

definition new_owned :: "'w owned" where
  "new_owned = \<lparr>r_client = None, r_owner = []\<rparr>"

definition new_repositoryResource :: "'w repositoryResource" where
  "new_repositoryResource = \<lparr>r_client = None, r_owner = [], r_authenticatedUser = []\<rparr>"

definition new_ConfigureResponse :: ConfigureResponse where
  "new_ConfigureResponse = \<lparr>Diagnostics = []\<rparr>"

section \<open>provider.go: Configure of the provider\<close>

text \<open>
  The provider configuration (\<^verbatim>\<open>githubxProviderModel\<close>), with \<^verbatim>\<open>AppAuth\<close> a pointer that
  is nil when the \<^verbatim>\<open>app_auth\<close> block is absent.
\<close>

record appAuthModel =
  app_ID :: "int tf_value"
  app_InstallationID :: "int tf_value"
  app_PEMFile :: "string tf_value"

record githubxProviderModel =
  cfg_Token :: "string tf_value"
  cfg_OAuthToken :: "string tf_value"
  cfg_AppAuth :: "appAuthModel option"
  cfg_BaseURL :: "string tf_value"
  cfg_Owner :: "string tf_value"
  cfg_Insecure :: "bool tf_value"

text \<open>
  \<^verbatim>\<open>*url.URL\<close>: the path, which Configure may extend, and the rest of the URL.
  \<^verbatim>\<open>*http.Client\<close>: its transport is the default one (nil), the OAuth2 transport that
  sends the access token, or the transport that skips TLS verification.
  \<^verbatim>\<open>*rsa.PrivateKey\<close> and the key that \<^verbatim>\<open>x509.ParsePKCS8PrivateKey\<close> returns (an RSA key or
  a key of another kind) are kept abstract.
\<close>

record URL =
  url_Path :: string
  url_RawQuery :: string
  url_rest :: string

datatype Transport = DefaultTransport | OAuth2Transport string | InsecureSkipVerifyTransport

record http_Client =
  http_Transport :: Transport

datatype PrivateKey = PrivateKey string

datatype pkcs8_key = RSAKey PrivateKey | OtherKey

text \<open>
  What Configure takes from the process and from libraries, as parameters:
  the environment variables, the outcome of running \<^verbatim>\<open>gh auth token\<close> (\<open>None\<close> when
  \<^verbatim>\<open>cmd.Output()\<close> returns an error), \<^verbatim>\<open>strings.TrimSpace\<close>, \<^verbatim>\<open>url.Parse\<close> and
  \<^verbatim>\<open>URL.String\<close>, \<^verbatim>\<open>url.ParseQuery\<close> (the values of each key of a query string),
  reading and decoding the key file, signing the JWT for an App ID at the
  current time, and \<^verbatim>\<open>github.NewClient\<close> with the base URL the client is given
  (\<open>None\<close> for the default): the methods of a client reach the remote through the HTTP
  client it was made from. An \<open>Inl\<close> holds the text of the error.
\<close>

record 'w environment =
  os_Getenv :: "string \<Rightarrow> string"
  exec_gh_auth_token :: "string option"
  strings_TrimSpace :: "string \<Rightarrow> string"
  url_Parse :: "string \<Rightarrow> string + URL"
  url_String :: "URL \<Rightarrow> string"
  url_ParseQuery :: "string \<Rightarrow> string + (string \<Rightarrow> string list option)"
  os_ReadFile :: "string \<Rightarrow> string + string"
  pem_Decode :: "string \<Rightarrow> string option"
  x509_ParsePKCS1PrivateKey :: "string \<Rightarrow> string + PrivateKey"
  x509_ParsePKCS8PrivateKey :: "string \<Rightarrow> string + pkcs8_key"
  jwt_SignedString :: "int \<Rightarrow> PrivateKey \<Rightarrow> string + string"
  github_NewClient :: "http_Client \<Rightarrow> URL option \<Rightarrow> 'w Client"

record provider_ConfigureRequest =
  Config_Get :: "Diagnostics \<times> githubxProviderModel"

record 'w provider_ConfigureResponse =
  provider_Diagnostics :: Diagnostics
  ResourceData :: "'w ProviderData"
  DataSourceData :: "'w ProviderData"

text \<open>
  \<^verbatim>\<open>
  func getGitHubCLIToken() string {
      cmd := exec.Command("gh", "auth", "token")
      output, err := cmd.Output()
      if err != nil { return "" }
      token := strings.TrimSpace(string(output))
      if token != "" { return token }
      return ""
  }
  \<close>
\<close>

definition getGitHubCLIToken :: "'w environment \<Rightarrow> string" where
  "getGitHubCLIToken env =
     (case exec_gh_auth_token env of
        None \<Rightarrow> []
      | Some output \<Rightarrow>
          (let token = strings_TrimSpace env output in
           if token \<noteq> [] then token else []))"

definition default_base_url :: string where
  "default_base_url = ''https://api.github.com/''"

text \<open>
  \<^verbatim>\<open>getGitHubAppToken(ctx, appAuth, baseURL)\<close> returns the installation token and its own
  response, of which only the diagnostics are used. It checks the three attributes,
  reads and parses the key (PKCS1, then PKCS8, which must hold an RSA key), signs a JWT,
  and asks the remote for an installation token through a temporary client that sends the
  JWT.
\<close>

definition getGitHubAppToken ::
  "'w environment \<Rightarrow> appAuthModel \<Rightarrow> URL \<Rightarrow> 'w run \<Rightarrow> (string \<times> Diagnostics) \<times> 'w run" where
  "getGitHubAppToken env appAuth baseURL s =
     (let appID = ValueInt64 (app_ID appAuth);
          installationID = ValueInt64 (app_InstallationID appAuth);
          pemFile = ValueString (app_PEMFile appAuth)
      in
      if appID = 0 then
        (([], AddError [] ''Invalid App ID''
                ''GitHub App ID must be provided and greater than 0.''), s)
      else if installationID = 0 then
        (([], AddError [] ''Invalid Installation ID''
                ''GitHub App Installation ID must be provided and greater than 0.''), s)
      else if pemFile = [] then
        (([], AddError [] ''Missing PEM File''
                ''GitHub App PEM file path must be provided.''), s)
      else
        case os_ReadFile env pemFile of
          Inl err \<Rightarrow>
            (([], AddError [] ''Failed to Read PEM File''
                    (''Unable to read GitHub App private key file: '' @ err)), s)
        | Inr pemData \<Rightarrow>
        case pem_Decode env pemData of
          None \<Rightarrow>
            (([], AddError [] ''Invalid PEM File''
                    ''Failed to decode PEM file. Ensure the file contains a valid RSA private key.''), s)
        | Some block \<Rightarrow>
        case (case x509_ParsePKCS1PrivateKey env block of
                Inr key \<Rightarrow> Inr key
              | Inl err1 \<Rightarrow>
                  (case x509_ParsePKCS8PrivateKey env block of
                     Inl err \<Rightarrow>
                       Inl (AddError [] ''Invalid Private Key''
                              (''Failed to parse private key: '' @ err))
                   | Inr OtherKey \<Rightarrow>
                       Inl (AddError [] ''Invalid Key Type'' ''Private key must be an RSA key.'')
                   | Inr (RSAKey key) \<Rightarrow> Inr key)) of
          Inl diags \<Rightarrow> (([], diags), s)
        | Inr privateKey \<Rightarrow>
        case jwt_SignedString env appID privateKey of
          Inl err \<Rightarrow>
            (([], AddError [] ''Failed to Sign JWT'' (''Unable to sign JWT token: '' @ err)), s)
        | Inr jwtToken \<Rightarrow>
            (let tempHTTPClient = \<lparr>http_Transport = OAuth2Transport jwtToken\<rparr>;
                 tempClient = github_NewClient env tempHTTPClient
                   (if url_String env baseURL \<noteq> default_base_url then Some baseURL else None)
             in
             case invoke (Call_Apps_CreateInstallationToken installationID)
                    Reply_InstallationToken
                    (Apps_CreateInstallationToken tempClient installationID) s of
               (Inl err, s1) \<Rightarrow>
                 (([], AddError [] ''Failed to Create Installation Token''
                         (''Unable to create installation access token: '' @ Error err)), s1)
             | (Inr installationToken, s1) \<Rightarrow>
                 ((GetString (Token installationToken), []), s1)))"

text \<open>
  The second half of \<^verbatim>\<open>Configure\<close>, from "Get insecure mode setting" to its end, as a
  function of the local variables it reads: the configuration, the parsed base URL and
  the resolved \<^verbatim>\<open>token\<close>.
  \<^verbatim>\<open>
      insecure := config.Insecure.ValueBool()
      if !insecure { if os.Getenv("GITHUB_INSECURE") == "true" { insecure = true } }
      var httpClient *http.Client
      if token != "" {
          ts := oauth2.StaticTokenSource(&oauth2.Token{AccessToken: token})
          httpClient = oauth2.NewClient(ctx, ts)
      } else {
          httpClient = &http.Client{}
      }
      if insecure {
          tr := &http.Transport{TLSClientConfig: &tls.Config{InsecureSkipVerify: true}}
          httpClient.Transport = tr
      }
      client = github.NewClient(httpClient)
      if baseURL.String() != "https://api.github.com/" { client.BaseURL = baseURL }
      owner := config.Owner.ValueString()
      if owner == "" { owner = os.Getenv("GITHUB_OWNER") }
      if owner == "" && token != "" {
          user, _, err := client.Users.Get(ctx, "")
          if err == nil && user != nil { owner = user.GetLogin() }
      }
      clientData := githubxClientData{Client: client, Owner: owner}
      resp.ResourceData = clientData
      resp.DataSourceData = clientData
  \<close>
\<close>

definition Configure_httpClient :: "'w environment \<Rightarrow> githubxProviderModel \<Rightarrow> string \<Rightarrow> http_Client" where
  "Configure_httpClient env config token =
     (let insecure = ValueBool (cfg_Insecure config);
          insecure = (if \<not> insecure then (if os_Getenv env ''GITHUB_INSECURE'' = ''true''
                                            then True else insecure)
                      else insecure);
          httpClient = (if token \<noteq> [] then \<lparr>http_Transport = OAuth2Transport token\<rparr>
                        else \<lparr>http_Transport = DefaultTransport\<rparr>)
      in if insecure then httpClient\<lparr>http_Transport := InsecureSkipVerifyTransport\<rparr>
         else httpClient)"

definition Configure_client ::
  "'w environment \<Rightarrow> githubxProviderModel \<Rightarrow> URL \<Rightarrow> string \<Rightarrow> 'w provider_ConfigureResponse
    \<Rightarrow> 'w run \<Rightarrow> 'w provider_ConfigureResponse \<times> 'w run" where
  "Configure_client env config baseURL token resp s =
     (let httpClient = Configure_httpClient env config token;
          client = github_NewClient env httpClient
                     (if url_String env baseURL \<noteq> default_base_url then Some baseURL else None);
          owner = ValueString (cfg_Owner config);
          owner = (if owner = [] then os_Getenv env ''GITHUB_OWNER'' else owner);
          (owner, s1) =
            (if owner = [] \<and> token \<noteq> [] then
               (case invoke (Call_Users_Get []) Reply_User (Users_Get client []) s of
                  (Inr user, s1) \<Rightarrow> (GetString (Login user), s1)
                | (Inl err, s1) \<Rightarrow> (owner, s1))
             else (owner, s));
          clientData = \<lparr>data_Client = Some client, data_Owner = owner\<rparr>
      in (resp\<lparr>ResourceData := ClientData clientData, DataSourceData := ClientData clientData\<rparr>,
          s1))"

text \<open>
  \<^verbatim>\<open>Configure\<close> itself: the configuration is decoded, the token is looked for in the
  token attribute, the oauth\_token attribute, GITHUB\_TOKEN and the GitHub CLI, the base
  URL is parsed, the GitHub App token is asked for, and the client is built.
  \<^verbatim>\<open>
      token = config.Token.ValueString()
      if token == "" { token = config.OAuthToken.ValueString() }
      if token == "" { token = os.Getenv("GITHUB_TOKEN") }
      if token == "" { if ghToken := getGitHubCLIToken(); ghToken != "" { token = ghToken } }
      baseURLStr := config.BaseURL.ValueString()
      if baseURLStr == "" { baseURLStr = os.Getenv("GITHUB_BASE_URL") }
      if baseURLStr == "" { baseURLStr = "https://api.github.com/" }
      baseURL, err := url.Parse(baseURLStr)
      if err != nil { resp.Diagnostics.AddError("Invalid Base URL", ...); return }
      if !strings.HasSuffix(baseURL.Path, "/") { baseURL.Path += "/" }
      if token == "" && config.AppAuth != nil {
          appToken, appResp := getGitHubAppToken(ctx, config.AppAuth, baseURL)
          if appResp != nil && appResp.Diagnostics.HasError() {
              resp.Diagnostics.Append(appResp.Diagnostics...)
              return
          }
          if appToken != "" { token = appToken }
      }
  \<close>
\<close>

definition provider_Configure ::
  "'w environment \<Rightarrow> provider_ConfigureRequest \<Rightarrow> 'w provider_ConfigureResponse \<Rightarrow> 'w run
    \<Rightarrow> 'w provider_ConfigureResponse \<times> 'w run" where
  "provider_Configure env req resp0 s =
     (let (get_diags, config) = Config_Get req;
          resp = resp0\<lparr>provider_Diagnostics := Append (provider_Diagnostics resp0) get_diags\<rparr>
      in
      if HasError (provider_Diagnostics resp) then (resp, s)
      else
        let token = ValueString (cfg_Token config);
            token = (if token = [] then ValueString (cfg_OAuthToken config) else token);
            token = (if token = [] then os_Getenv env ''GITHUB_TOKEN'' else token);
            token = (if token = [] then
                       (let ghToken = getGitHubCLIToken env in
                        if ghToken \<noteq> [] then ghToken else token)
                     else token);
            baseURLStr = ValueString (cfg_BaseURL config);
            baseURLStr = (if baseURLStr = [] then os_Getenv env ''GITHUB_BASE_URL'' else baseURLStr);
            baseURLStr = (if baseURLStr = [] then ''https://api.github.com/'' else baseURLStr)
        in
        case url_Parse env baseURLStr of
          Inl err \<Rightarrow>
            (resp\<lparr>provider_Diagnostics := AddError (provider_Diagnostics resp)
                     ''Invalid Base URL'' (''Unable to parse base_url: '' @ err)\<rparr>, s)
        | Inr parsed \<Rightarrow>
            (let baseURL = (if \<not> strings_HasSuffix (url_Path parsed) ''/''
                            then parsed\<lparr>url_Path := url_Path parsed @ ''/''\<rparr> else parsed)
             in
             case (if token = [] then cfg_AppAuth config else None) of
               Some appAuth \<Rightarrow>
                 (case getGitHubAppToken env appAuth baseURL s of
                    ((appToken, appDiags), s1) \<Rightarrow>
                      if HasError appDiags then
                        (resp\<lparr>provider_Diagnostics :=
                                 Append (provider_Diagnostics resp) appDiags\<rparr>, s1)
                      else
                        Configure_client env config baseURL
                          (if appToken \<noteq> [] then appToken else token) resp s1)
             | None \<Rightarrow> Configure_client env config baseURL token resp s))"

text \<open>
  The order of precedence as the comment in \<^verbatim>\<open>Configure\<close> and the documentation give it:
  the first non-empty value of a list of candidate tokens, the empty string when all are
  empty.
\<close>

fun first_non_empty :: "string list \<Rightarrow> string" where
  "first_non_empty [] = []"
| "first_non_empty (t # ts) = (if t \<noteq> [] then t else first_non_empty ts)"

section \<open>Loops with an attempt counter\<close>

text \<open>
  The retry and polling loops of the provider are all of one shape: a counter that starts
  at zero, a limit, and a body that ends in \<^verbatim>\<open>continue\<close> (with the counter incremented),
  in \<^verbatim>\<open>break\<close> or in \<^verbatim>\<open>return\<close>:
  \<^verbatim>\<open>for attempt := 0; attempt < maxRetries; attempt++ { ... }\<close> and
  \<^verbatim>\<open>for attempt < maxAttempts { ...; attempt++; ...; continue }\<close>.
  The body is a function of the variables the loop changes, returning how it ended;
  \<open>for_loop\<close> runs it while the counter is below the limit, and tells how the loop was
  left: by the condition (\<open>Exhausted\<close>), by \<^verbatim>\<open>break\<close> or by \<^verbatim>\<open>return\<close>.
\<close>

datatype control = Continue | Break | Return

datatype loop_end = Exhausted | Broken | Returned

function for_loop :: "nat \<Rightarrow> ('st \<Rightarrow> control \<times> 'st) \<Rightarrow> nat \<Rightarrow> 'st \<Rightarrow> loop_end \<times> 'st" where
  "for_loop limit body attempt st =
     (if attempt < limit then
        (case body st of
           (Continue, st') \<Rightarrow> for_loop limit body (attempt + 1) st'
         | (Break, st') \<Rightarrow> (Broken, st')
         | (Return, st') \<Rightarrow> (Returned, st'))
      else (Exhausted, st))"
  by pat_completeness auto

termination
  by (relation "measure (\<lambda>(limit, body, attempt, st). limit - attempt)") auto

declare for_loop.simps [simp del]

text \<open>
  \<^verbatim>\<open>strings.SplitN(s, sep, n)\<close> for a one-byte separator and \<open>n > 0\<close>: at most \<open>n\<close> parts,
  the last one holding the unsplit rest.
\<close>

fun SplitN_from :: "string \<Rightarrow> string \<Rightarrow> char \<Rightarrow> nat \<Rightarrow> string list" where
  "SplitN_from cur [] sep n = [cur]"
| "SplitN_from cur (x # xs) sep n =
     (if n \<le> 1 then [cur @ x # xs]
      else if x = sep then cur # SplitN_from [] xs sep (n - 1)
      else SplitN_from (cur @ [x]) xs sep n)"

definition strings_SplitN :: "string \<Rightarrow> char \<Rightarrow> nat \<Rightarrow> string list" where
  "strings_SplitN s sep n = (if n = 0 then [] else SplitN_from [] s sep n)"

section \<open>resource\_repository\_file.go\<close>

record repositoryFileResourceModel =
  m_Repository :: "string tf_value"
  m_File :: "string tf_value"
  m_Content :: "string tf_value"
  m_Branch :: "string tf_value"
  m_Ref :: "string tf_value"
  m_CommitSHA :: "string tf_value"
  m_CommitMessage :: "string tf_value"
  m_CommitAuthor :: "string tf_value"
  m_CommitEmail :: "string tf_value"
  m_SHA :: "string tf_value"
  m_OverwriteOnCreate :: "bool tf_value"
  m_AutocreateBranch :: "bool tf_value"
  m_AutocreateBranchSource :: "string tf_value"
  m_AutocreateBranchSourceSHA :: "string tf_value"
  m_ID :: "string tf_value"

text \<open>
  Requests and responses of the framework. \<^verbatim>\<open>req.Plan.Get(ctx, &plan)\<close> and
  \<^verbatim>\<open>req.State.Get(ctx, &state)\<close> give diagnostics and fill the model: the request holds
  both. The response holds the diagnostics and the state that \<^verbatim>\<open>resp.State.Set\<close> stored
  (\<open>None\<close> while the call has not stored one); storing a model of the schema's own type
  gives no diagnostics.
\<close>

record 'm Response = ConfigureResponse +
  State :: "'m option"

record 'm CreateRequest =
  create_Plan :: "Diagnostics \<times> 'm"

record 'm ReadRequest =
  read_State :: "Diagnostics \<times> 'm"

record 'm UpdateRequest =
  update_Plan :: "Diagnostics \<times> 'm"
  update_State :: "Diagnostics \<times> 'm"

record 'm DeleteRequest =
  delete_State :: "Diagnostics \<times> 'm"

definition maxRetries :: nat where
  "maxRetries = 5"

definition is_set :: "'a tf_value \<Rightarrow> bool" where
  "is_set v = (\<not> IsNull v \<and> \<not> IsUnknown v)"

text \<open>
  \<^verbatim>\<open>getOwner\<close>: the owner of the provider configuration, or else the login of the
  authenticated user. \<open>c\<close> is the client \<^verbatim>\<open>r.client\<close>, which the callers have found not
  to be nil. The error is the text that \<^verbatim>\<open>fmt.Errorf\<close> builds.
\<close>

definition getOwner :: "'w Client \<Rightarrow> 'w repositoryFileResource \<Rightarrow> 'w run \<Rightarrow> (string + string) \<times> 'w run" where
  "getOwner c r s =
     (if r_owner r \<noteq> [] then (Inr (r_owner r), s)
      else
        case invoke (Call_Users_Get []) Reply_User (Users_Get c []) s of
          (Inl err, s1) \<Rightarrow>
            (Inl (''unable to determine owner: provider-level `owner` is not set and unable to fetch authenticated user: ''
                  @ Error err), s1)
        | (Inr user, s1) \<Rightarrow>
            (case Login user of
               None \<Rightarrow>
                 (Inl ''unable to determine owner: provider-level `owner` is not set and authenticated user information is unavailable'',
                  s1)
             | Some login \<Rightarrow> (Inr login, s1)))"

definition missing_owner_detail :: "string \<Rightarrow> string" where
  "missing_owner_detail err =
     ''Unable to determine owner: '' @ err
       @ ''. Please set provider-level `owner` configuration or ensure authentication is working.''"

text \<open>
  \<^verbatim>\<open>
  func (r *repositoryFileResource) checkRepositoryBranchExists(ctx, owner, repo, branch string) error {
      branchRefName := "refs/heads/" + branch
      _, _, err := r.client.Git.GetRef(ctx, owner, repo, branchRefName)
      return err
  }
  \<close>
\<close>

definition checkRepositoryBranchExists ::
  "'w Client \<Rightarrow> string \<Rightarrow> string \<Rightarrow> string \<Rightarrow> 'w run \<Rightarrow> api_error option \<times> 'w run" where
  "checkRepositoryBranchExists c owner repo branch s =
     (let branchRefName = ''refs/heads/'' @ branch in
      case invoke (Call_Git_GetRef owner repo branchRefName) Reply_Reference
             (Git_GetRef c owner repo branchRefName) s of
        (Inl err, s1) \<Rightarrow> (Some err, s1)
      | (Inr ref, s1) \<Rightarrow> (None, s1))"

text \<open>
  \<^verbatim>\<open>checkAndCreateBranchIfNeeded\<close> returns whether the caller may go on, with the model and
  the diagnostics as it leaves them: when the branch of the model cannot be fetched and
  \<^verbatim>\<open>autocreate_branch\<close> is set, it creates the branch from the source SHA of the model
  or from the tip of the source branch.
\<close>

definition checkAndCreateBranchIfNeeded ::
  "'w Client \<Rightarrow> string \<Rightarrow> string \<Rightarrow> repositoryFileResourceModel \<Rightarrow> Diagnostics \<Rightarrow> 'w run
    \<Rightarrow> (bool \<times> repositoryFileResourceModel \<times> Diagnostics) \<times> 'w run" where
  "checkAndCreateBranchIfNeeded c owner repo model diags s =
     (if IsNull (m_Branch model) \<or> IsUnknown (m_Branch model) then ((True, model, diags), s)
      else
        let branchName = ValueString (m_Branch model) in
        case checkRepositoryBranchExists c owner repo branchName s of
          (None, s1) \<Rightarrow> ((True, model, diags), s1)
        | (Some err, s1) \<Rightarrow>
            if \<not> ValueBool (m_AutocreateBranch model) then
              ((False, model,
                AddError diags ''Branch Not Found''
                  (''Branch '' @ branchName @ '' not found in repository '' @ owner @ ''/'' @ repo
                    @ ''. Set 'autocreate_branch' to true to automatically create it.'')), s1)
            else
              let branchRefName = ''refs/heads/'' @ branchName;
                  sourceBranchName = ValueString (m_AutocreateBranchSource model);
                  sourceBranchName = (if sourceBranchName = [] then ''main'' else sourceBranchName);
                  sourceBranchRefName = ''refs/heads/'' @ sourceBranchName
              in
              case
                (if is_set (m_AutocreateBranchSourceSHA model)
                    \<and> ValueString (m_AutocreateBranchSourceSHA model) \<noteq> []
                 then (Inr (ValueString (m_AutocreateBranchSourceSHA model), model), s1)
                 else
                   case invoke (Call_Git_GetRef owner repo sourceBranchRefName) Reply_Reference
                          (Git_GetRef c owner repo sourceBranchRefName) s1 of
                     (Inl err, s2) \<Rightarrow>
                       (Inl (AddError diags ''Error querying source branch''
                               (''Unable to query GitHub branch reference '' @ owner @ ''/'' @ repo
                                 @ '' ('' @ sourceBranchRefName @ ''): '' @ Error err)), s2)
                   | (Inr ref, s2) \<Rightarrow>
                       (case (case ref_Object ref of None \<Rightarrow> None | Some obj \<Rightarrow> obj_SHA obj) of
                          Some sha \<Rightarrow>
                            (Inr (sha, model\<lparr>m_AutocreateBranchSourceSHA := Known sha\<rparr>), s2)
                        | None \<Rightarrow>
                            (Inl (AddError diags ''Invalid source branch''
                                    (''Source branch '' @ sourceBranchName
                                      @ '' does not have a valid SHA'')), s2)))
              of
                (Inl diags', s2) \<Rightarrow> ((False, model, diags'), s2)
              | (Inr (sourceBranchSHA, model'), s2) \<Rightarrow>
                  (let newRef = \<lparr>ref_Ref = Some branchRefName,
                                 ref_Object = Some \<lparr>obj_SHA = Some sourceBranchSHA\<rparr>\<rparr> in
                   case invoke (Call_Git_CreateRef owner repo newRef) Reply_Reference
                          (Git_CreateRef c owner repo newRef) s2 of
                     (Inl err, s3) \<Rightarrow>
                       ((False, model',
                         AddError diags ''Error creating branch''
                           (''Unable to create GitHub branch reference '' @ owner @ ''/'' @ repo
                             @ '' ('' @ branchRefName @ ''): '' @ Error err)), s3)
                   | (Inr created, s3) \<Rightarrow> ((True, model', diags), s3)))"

text \<open>
  \<^verbatim>\<open>buildFileOptions\<close> returns the options, or nil options with an error diagnostic when
  only one of commit author and commit email is set (\<open>Inl\<close>); the diagnostics it returns
  with options are empty.
\<close>

definition buildFileOptions ::
  "repositoryFileResourceModel \<Rightarrow> string \<Rightarrow> Diagnostics + RepositoryContentFileOptions" where
  "buildFileOptions model content =
     (let opts = \<lparr>opt_Message = None, opt_Content = content, opt_SHA = None, opt_Branch = None,
                  opt_Author = None, opt_Committer = None\<rparr>;
          opts = (if is_set (m_Branch model)
                  then opts\<lparr>opt_Branch := Some (ValueString (m_Branch model))\<rparr> else opts);
          opts = (if is_set (m_CommitMessage model)
                  then opts\<lparr>opt_Message := Some (ValueString (m_CommitMessage model))\<rparr> else opts);
          hasCommitAuthor = is_set (m_CommitAuthor model);
          hasCommitEmail = is_set (m_CommitEmail model)
      in
      if hasCommitAuthor \<and> \<not> hasCommitEmail then
        Inl (AddError [] ''Invalid Commit Author Configuration''
               ''Cannot set commit_author without setting commit_email'')
      else if hasCommitEmail \<and> \<not> hasCommitAuthor then
        Inl (AddError [] ''Invalid Commit Author Configuration''
               ''Cannot set commit_email without setting commit_author'')
      else if hasCommitAuthor \<and> hasCommitEmail then
        (let name = ValueString (m_CommitAuthor model);
             email = ValueString (m_CommitEmail model);
             who = \<lparr>author_Name = Some name, author_Email = Some email\<rparr>
         in Inr (opts\<lparr>opt_Author := Some who, opt_Committer := Some who\<rparr>))
      else Inr opts)"

text \<open>
  \<^verbatim>\<open>getFileCommit\<close>: the newest commit of the file on the ref, fetched by its SHA.
\<close>

definition getFileCommit ::
  "'w Client \<Rightarrow> string \<Rightarrow> string \<Rightarrow> string \<Rightarrow> string \<Rightarrow> 'w run
    \<Rightarrow> (string + RepositoryCommit) \<times> 'w run" where
  "getFileCommit c owner repo file ref s =
     (let opts = \<lparr>list_Path = file, list_SHA = ref, list_PerPage = 1\<rparr> in
      case invoke (Call_Repositories_ListCommits owner repo opts) Reply_Commits
             (Repositories_ListCommits c owner repo opts) s of
        (Inl err, s1) \<Rightarrow> (Inl (Error err), s1)
      | (Inr [], s1) \<Rightarrow>
          (Inl (''no commits found for file '' @ file @ '' in ref '' @ ref), s1)
      | (Inr (first # others), s1) \<Rightarrow>
          (let commitSHA = GetString (rcommit_SHA first) in
           case invoke (Call_Repositories_GetCommit owner repo commitSHA) Reply_Commit
                  (Repositories_GetCommit c owner repo commitSHA) s1 of
             (Inl err, s2) \<Rightarrow> (Inl (Error err), s2)
           | (Inr commit, s2) \<Rightarrow> (Inr commit, s2)))"

text \<open>
  \<^verbatim>\<open>readFile\<close> fetches the file and fills the model. On an error of \<^verbatim>\<open>GetContents\<close>:
  \<^verbatim>\<open>
      if errors.As(err, &ghErr) {
          if ghErr.Response != nil && ghErr.Response.StatusCode == http.StatusTooManyRequests {
              diags.AddError("Rate Limit Exceeded", ...); return
          }
          if ghErr.Response != nil && ghErr.Response.StatusCode == http.StatusNotFound {
              model.ID = types.StringValue(""); return
          }
      }
      diags.AddError("Error reading file", ...); return
  \<close>
  A nil file also empties the ID. Otherwise content, repository, file and SHA are set,
  the ref is read from the query of the file's URL, and the commit is fetched (by the
  commit SHA of the model when known, else the newest commit of the ref); a failure there
  is a warning.
\<close>

definition readFile_commit ::
  "'w Client \<Rightarrow> string \<Rightarrow> string \<Rightarrow> string \<Rightarrow> repositoryFileResourceModel \<Rightarrow> Diagnostics \<Rightarrow> 'w run
    \<Rightarrow> (repositoryFileResourceModel \<times> Diagnostics) \<times> 'w run" where
  "readFile_commit c owner repoName filePath model diags s =
     (let ref = ValueString (m_Ref model);
          ref = (if ref = [] \<and> is_set (m_Branch model) then ValueString (m_Branch model) else ref)
      in
      if ref \<noteq> [] then
        (case (if is_set (m_CommitSHA model) then
                 (case invoke (Call_Repositories_GetCommit owner repoName
                                 (ValueString (m_CommitSHA model))) Reply_Commit
                         (Repositories_GetCommit c owner repoName
                            (ValueString (m_CommitSHA model))) s of
                    (Inl err, s1) \<Rightarrow> (Inl (Error err), s1)
                  | (Inr commit, s1) \<Rightarrow> (Inr commit, s1))
               else getFileCommit c owner repoName filePath ref s) of
           (Inl err, s1) \<Rightarrow>
             ((model, AddWarning diags ''Error fetching commit information''
                        (''Unable to fetch commit information for file '' @ owner @ ''/''
                          @ repoName @ ''/'' @ filePath @ '': '' @ err)), s1)
         | (Inr commit, s1) \<Rightarrow>
             (let model = model\<lparr>m_CommitSHA := Known (GetString (rcommit_SHA commit))\<rparr> in
              case rcommit_Commit commit of
                None \<Rightarrow> ((model, diags), s1)
              | Some cm \<Rightarrow>
                  (let model = (if IsNull (m_CommitMessage model) \<or> IsUnknown (m_CommitMessage model)
                                then model\<lparr>m_CommitMessage := Known (GetString (commit_Message cm))\<rparr>
                                else model)
                   in
                   case commit_Committer cm of
                     None \<Rightarrow> ((model, diags), s1)
                   | Some committer \<Rightarrow>
                       (let commitAuthor = GetString (author_Name committer);
                            commitEmail = GetString (author_Email committer);
                            hasCommitAuthor = is_set (m_CommitAuthor model);
                            hasCommitEmail = is_set (m_CommitEmail model)
                        in
                        if commitAuthor \<noteq> ''GitHub'' \<and> commitEmail \<noteq> ''noreply@github.com''
                           \<and> hasCommitAuthor \<and> hasCommitEmail
                        then ((model\<lparr>m_CommitAuthor := Known commitAuthor,
                                      m_CommitEmail := Known commitEmail\<rparr>, diags), s1)
                        else ((model, diags), s1)))))
      else ((model, diags), s))"

definition readFile ::
  "'w environment \<Rightarrow> 'w Client \<Rightarrow> string \<Rightarrow> string \<Rightarrow> string \<Rightarrow> repositoryFileResourceModel
    \<Rightarrow> Diagnostics \<Rightarrow> 'w run \<Rightarrow> (repositoryFileResourceModel \<times> Diagnostics) \<times> 'w run" where
  "readFile env c owner repoName filePath model diags s =
     (let opts = \<lparr>get_Ref = (if is_set (m_Branch model) then ValueString (m_Branch model) else [])\<rparr> in
      case invoke (Call_Repositories_GetContents owner repoName filePath opts) Reply_Contents
             (Repositories_GetContents c owner repoName filePath opts) s of
        (Inl err, s1) \<Rightarrow>
          if StatusCode_is err StatusTooManyRequests then
            ((model, AddError diags ''Rate Limit Exceeded''
                       (''GitHub API rate limit exceeded: '' @ Error err)), s1)
          else if StatusCode_is err StatusNotFound then
            ((model\<lparr>m_ID := Known []\<rparr>, diags), s1)
          else
            ((model, AddError diags ''Error reading file''
                       (''Unable to read file '' @ filePath @ '' from repository '' @ owner
                         @ ''/'' @ repoName @ '': '' @ Error err)), s1)
      | (Inr None, s1) \<Rightarrow> ((model\<lparr>m_ID := Known []\<rparr>, diags), s1)
      | (Inr (Some fc), s1) \<Rightarrow>
          (case content_GetContent fc of
             Inl err \<Rightarrow>
               ((model, AddError diags ''Error reading file content''
                          (''Unable to get content from file '' @ owner @ ''/'' @ repoName
                            @ ''/'' @ filePath @ '': '' @ err)), s1)
           | Inr content \<Rightarrow>
               (let model = model\<lparr>m_Content := Known content, m_Repository := Known repoName,
                                   m_File := Known filePath,
                                   m_SHA := Known (GetString (content_SHA fc))\<rparr>;
                    (model, diags) =
                      (case url_Parse env (GetString (content_URL fc)) of
                         Inl err \<Rightarrow>
                           (model, AddWarning diags ''Error parsing file URL''
                                     (''Unable to parse file URL: '' @ err))
                       | Inr parsedURL \<Rightarrow>
                           (case url_ParseQuery env (url_RawQuery parsedURL) of
                              Inl err \<Rightarrow>
                                (model, AddWarning diags ''Error parsing query string''
                                          (''Unable to parse query string: '' @ err))
                            | Inr parsedQuery \<Rightarrow>
                                (case parsedQuery ''ref'' of
                                   Some (refValue # others) \<Rightarrow>
                                     (model\<lparr>m_Ref := Known refValue\<rparr>, diags)
                                 | _ \<Rightarrow> (model\<lparr>m_Ref := Null\<rparr>, diags))))
                in readFile_commit c owner repoName filePath model diags s1)))"

text \<open>
  The variables that the retry loops of Create, Update and Delete change: the options
  (of which the loop rewrites the SHA), \<^verbatim>\<open>create\<close> and \<^verbatim>\<open>err\<close>, the diagnostics of the
  response, and the run.
\<close>

record 'w retry_state =
  rs_opts :: RepositoryContentFileOptions
  rs_create :: "RepositoryContentResponse option"
  rs_err :: "api_error option"
  rs_Diagnostics :: Diagnostics
  rs_run :: "'w run"

definition branch_GetOptions :: "repositoryFileResourceModel \<Rightarrow> RepositoryContentGetOptions" where
  "branch_GetOptions model =
     \<lparr>get_Ref = (if is_set (m_Branch model) then ValueString (m_Branch model) else [])\<rparr>"

text \<open>
  The body of the loop of \<^verbatim>\<open>Create\<close>:
  \<^verbatim>\<open>
      create, _, err = r.client.Repositories.CreateFile(ctx, owner, repoName, filePath, opts)
      if err == nil { break }
      var ghErr *github.ErrorResponse
      if errors.As(err, &ghErr) && ghErr.Response != nil && ghErr.Response.StatusCode == http.StatusConflict {
          checkOpts := ...
          fc, _, _, readErr := r.client.Repositories.GetContents(ctx, owner, repoName, filePath, checkOpts)
          if readErr == nil && fc != nil {
              if plan.OverwriteOnCreate.ValueBool() {
                  opts.SHA = github.String(fc.GetSHA())
                  continue
              } else {
                  resp.Diagnostics.AddError("File Already Exists", ...)
                  return
              }
          }
          continue
      }
      break
  \<close>
\<close>

definition Create_attempt ::
  "'w Client \<Rightarrow> string \<Rightarrow> string \<Rightarrow> string \<Rightarrow> repositoryFileResourceModel \<Rightarrow> 'w retry_state
    \<Rightarrow> control \<times> 'w retry_state" where
  "Create_attempt c owner repoName filePath plan st =
     (case invoke (Call_Repositories_CreateFile owner repoName filePath (rs_opts st))
             Reply_ContentResponse
             (Repositories_CreateFile c owner repoName filePath (rs_opts st)) (rs_run st) of
        (Inr create, s1) \<Rightarrow> (Break, st\<lparr>rs_create := Some create, rs_err := None, rs_run := s1\<rparr>)
      | (Inl err, s1) \<Rightarrow>
          (let st1 = st\<lparr>rs_create := None, rs_err := Some err, rs_run := s1\<rparr> in
           if StatusCode_is err StatusConflict then
             (let checkOpts = branch_GetOptions plan in
              case invoke (Call_Repositories_GetContents owner repoName filePath checkOpts)
                     Reply_Contents
                     (Repositories_GetContents c owner repoName filePath checkOpts) s1 of
                (Inr (Some fc), s2) \<Rightarrow>
                  if ValueBool (m_OverwriteOnCreate plan) then
                    (Continue,
                     st1\<lparr>rs_opts := (rs_opts st)\<lparr>opt_SHA := Some (GetString (content_SHA fc))\<rparr>,
                         rs_run := s2\<rparr>)
                  else
                    (Return,
                     st1\<lparr>rs_Diagnostics := AddError (rs_Diagnostics st) ''File Already Exists''
                            (''File '' @ filePath @ '' already exists in repository '' @ owner
                              @ ''/'' @ repoName
                              @ ''. Set 'overwrite_on_create' to true to overwrite it.''),
                         rs_run := s2\<rparr>)
              | (other, s2) \<Rightarrow> (Continue, st1\<lparr>rs_run := s2\<rparr>))
           else (Break, st1)))"

text \<open>
  \<^verbatim>\<open>Create\<close>. The plan is decoded, the client and the owner are checked, the branch is
  looked up (and created), the options are built, the commit message defaults to
  "Add <file>", with \<^verbatim>\<open>overwrite_on_create\<close> the SHA of an existing file is fetched, the
  file is written in the retry loop, and the model is refreshed by \<^verbatim>\<open>readFile\<close> and
  stored.
\<close>

definition Create ::
  "'w environment \<Rightarrow> 'w repositoryFileResource \<Rightarrow> repositoryFileResourceModel CreateRequest
    \<Rightarrow> repositoryFileResourceModel Response \<Rightarrow> 'w run
    \<Rightarrow> repositoryFileResourceModel Response \<times> 'w run" where
  "Create env r req resp0 s =
     (let (plan_diags, plan) = create_Plan req;
          resp = resp0\<lparr>Diagnostics := Append (Diagnostics resp0) plan_diags\<rparr>
      in
      if HasError (Diagnostics resp) then (resp, s)
      else
        case r_client r of
          None \<Rightarrow>
            (resp\<lparr>Diagnostics := AddError (Diagnostics resp) ''Client Error''
                     ''GitHub client is not configured. Please ensure a token is provided.''\<rparr>, s)
        | Some c \<Rightarrow>
        case getOwner c r s of
          (Inl err, s1) \<Rightarrow>
            (resp\<lparr>Diagnostics := AddError (Diagnostics resp) ''Missing Owner''
                     (missing_owner_detail err)\<rparr>, s1)
        | (Inr owner, s1) \<Rightarrow>
        let repoName = ValueString (m_Repository plan);
            filePath = ValueString (m_File plan);
            content = ValueString (m_Content plan)
        in
        case checkAndCreateBranchIfNeeded c owner repoName plan (Diagnostics resp) s1 of
          ((False, plan, diags), s2) \<Rightarrow> (resp\<lparr>Diagnostics := diags\<rparr>, s2)
        | ((True, plan, diags), s2) \<Rightarrow>
        let resp = resp\<lparr>Diagnostics := diags\<rparr> in
        case buildFileOptions plan content of
          Inl diags \<Rightarrow> (resp\<lparr>Diagnostics := Append (Diagnostics resp) diags\<rparr>, s2)
        | Inr opts \<Rightarrow>
        let (opts, plan) =
              (if opt_Message opts = None \<or> opt_Message opts = Some [] then
                 (let msg = ''Add '' @ filePath in
                  (opts\<lparr>opt_Message := Some msg\<rparr>, plan\<lparr>m_CommitMessage := Known msg\<rparr>))
               else (opts, plan));
            (opts, s3) =
              (if ValueBool (m_OverwriteOnCreate plan) then
                 (let checkOpts = branch_GetOptions plan in
                  case invoke (Call_Repositories_GetContents owner repoName filePath checkOpts)
                         Reply_Contents
                         (Repositories_GetContents c owner repoName filePath checkOpts) s2 of
                    (Inr (Some fc), s3) \<Rightarrow>
                      (opts\<lparr>opt_SHA := Some (GetString (content_SHA fc))\<rparr>, s3)
                  | (other, s3) \<Rightarrow> (opts, s3))
               else (opts, s2))
        in
        case for_loop maxRetries (Create_attempt c owner repoName filePath plan) 0
               \<lparr>rs_opts = opts, rs_create = None, rs_err = None,
                rs_Diagnostics = Diagnostics resp, rs_run = s3\<rparr> of
          (Returned, st) \<Rightarrow> (resp\<lparr>Diagnostics := rs_Diagnostics st\<rparr>, rs_run st)
        | (left, st) \<Rightarrow>
        let resp = resp\<lparr>Diagnostics := rs_Diagnostics st\<rparr> in
        case rs_err st of
          Some err \<Rightarrow>
            (resp\<lparr>Diagnostics := AddError (Diagnostics resp) ''Error creating file''
                     (''Unable to create file '' @ filePath @ '' in repository '' @ owner @ ''/''
                       @ repoName @ '' after '' @ format_d (int maxRetries) @ '' attempts: ''
                       @ Error err)\<rparr>, rs_run st)
        | None \<Rightarrow>
        let plan = plan\<lparr>m_ID := Known (repoName @ '':'' @ filePath)\<rparr>;
            plan = (case rs_create st of
                      Some create \<Rightarrow> plan\<lparr>m_CommitSHA := Known (GetString (response_SHA create))\<rparr>
                    | None \<Rightarrow> plan)
        in
        case readFile env c owner repoName filePath plan (Diagnostics resp) (rs_run st) of
          ((plan, diags), s4) \<Rightarrow>
        let resp = resp\<lparr>Diagnostics := diags\<rparr> in
        if HasError (Diagnostics resp) then (resp, s4)
        else
          let plan = (if \<not> ValueBool (m_AutocreateBranch plan)
                      then plan\<lparr>m_AutocreateBranchSourceSHA := Null\<rparr>
                      else if IsNull (m_AutocreateBranchSourceSHA plan)
                              \<or> IsUnknown (m_AutocreateBranchSourceSHA plan)
                      then plan\<lparr>m_AutocreateBranchSourceSHA := Null\<rparr>
                      else plan)
          in (resp\<lparr>State := Some plan\<rparr>, s4))"

text \<open>
  \<^verbatim>\<open>Read\<close>: an empty ID, or a branch that cannot be fetched when
  \<^verbatim>\<open>autocreate_branch\<close> is off, stores the state with the empty ID; otherwise the state is
  refreshed by \<^verbatim>\<open>readFile\<close> and stored.
\<close>

definition invalid_id_detail :: "string \<Rightarrow> string" where
  "invalid_id_detail bad_id = ''Invalid ID format: '' @ bad_id @ ''. Expected 'repository:file'.''"

definition Read ::
  "'w environment \<Rightarrow> 'w repositoryFileResource \<Rightarrow> repositoryFileResourceModel ReadRequest
    \<Rightarrow> repositoryFileResourceModel Response \<Rightarrow> 'w run
    \<Rightarrow> repositoryFileResourceModel Response \<times> 'w run" where
  "Read env r req resp0 s =
     (let (state_diags, state) = read_State req;
          resp = resp0\<lparr>Diagnostics := Append (Diagnostics resp0) state_diags\<rparr>
      in
      if HasError (Diagnostics resp) then (resp, s)
      else
        case r_client r of
          None \<Rightarrow>
            (resp\<lparr>Diagnostics := AddError (Diagnostics resp) ''Client Error''
                     ''GitHub client is not configured. Please ensure a token is provided.''\<rparr>, s)
        | Some c \<Rightarrow>
        case getOwner c r s of
          (Inl err, s1) \<Rightarrow>
            (resp\<lparr>Diagnostics := AddError (Diagnostics resp) ''Missing Owner''
                     (missing_owner_detail err)\<rparr>, s1)
        | (Inr owner, s1) \<Rightarrow>
        let id = ValueString (m_ID state) in
        if id = [] then (resp\<lparr>State := Some (state\<lparr>m_ID := Known []\<rparr>)\<rparr>, s1)
        else
        case strings_SplitN id (CHR '':'') 2 of
          [repoName, filePath] \<Rightarrow>
            (case (if is_set (m_Branch state) then
                     (case checkRepositoryBranchExists c owner repoName
                             (ValueString (m_Branch state)) s1 of
                        (None, s2) \<Rightarrow> (Inr state, s2)
                      | (Some err, s2) \<Rightarrow>
                          if ValueBool (m_AutocreateBranch state)
                          then (Inr (state\<lparr>m_Branch := m_AutocreateBranchSource state\<rparr>), s2)
                          else (Inl (state\<lparr>m_ID := Known []\<rparr>), s2))
                   else (Inr state, s1)) of
               (Inl state, s2) \<Rightarrow> (resp\<lparr>State := Some state\<rparr>, s2)
             | (Inr state, s2) \<Rightarrow>
                 (case readFile env c owner repoName filePath state (Diagnostics resp) s2 of
                    ((state, diags), s3) \<Rightarrow>
                      let resp = resp\<lparr>Diagnostics := diags\<rparr> in
                      if HasError (Diagnostics resp) then (resp, s3)
                      else
                        let state = (if \<not> ValueBool (m_AutocreateBranch state)
                                     then state\<lparr>m_AutocreateBranchSourceSHA := Null\<rparr>
                                     else state)
                        in (resp\<lparr>State := Some state\<rparr>, s3)))
        | parts \<Rightarrow>
            (resp\<lparr>Diagnostics := AddError (Diagnostics resp) ''Invalid ID''
                     (invalid_id_detail id)\<rparr>, s1))"

text \<open>
  The body of the loop of \<^verbatim>\<open>Update\<close>:
  \<^verbatim>\<open>
      create, _, err = r.client.Repositories.CreateFile(ctx, owner, repoName, filePath, opts)
      if err == nil { break }
      var ghErr *github.ErrorResponse
      if errors.As(err, &ghErr) && ghErr.Response != nil && ghErr.Response.StatusCode == http.StatusConflict {
          updateOpts := ...
          fc, _, _, retryErr := r.client.Repositories.GetContents(ctx, owner, repoName, filePath, updateOpts)
          if retryErr == nil && fc != nil {
              opts.SHA = github.String(fc.GetSHA())
              continue
          }
      }
      break
  \<close>
\<close>

definition Update_attempt ::
  "'w Client \<Rightarrow> string \<Rightarrow> string \<Rightarrow> string \<Rightarrow> repositoryFileResourceModel \<Rightarrow> 'w retry_state
    \<Rightarrow> control \<times> 'w retry_state" where
  "Update_attempt c owner repoName filePath plan st =
     (case invoke (Call_Repositories_CreateFile owner repoName filePath (rs_opts st))
             Reply_ContentResponse
             (Repositories_CreateFile c owner repoName filePath (rs_opts st)) (rs_run st) of
        (Inr create, s1) \<Rightarrow> (Break, st\<lparr>rs_create := Some create, rs_err := None, rs_run := s1\<rparr>)
      | (Inl err, s1) \<Rightarrow>
          (let st1 = st\<lparr>rs_create := None, rs_err := Some err, rs_run := s1\<rparr> in
           if StatusCode_is err StatusConflict then
             (let updateOpts = branch_GetOptions plan in
              case invoke (Call_Repositories_GetContents owner repoName filePath updateOpts)
                     Reply_Contents
                     (Repositories_GetContents c owner repoName filePath updateOpts) s1 of
                (Inr (Some fc), s2) \<Rightarrow>
                  (Continue,
                   st1\<lparr>rs_opts := (rs_opts st)\<lparr>opt_SHA := Some (GetString (content_SHA fc))\<rparr>,
                       rs_run := s2\<rparr>)
              | (other, s2) \<Rightarrow> (Break, st1\<lparr>rs_run := s2\<rparr>))
           else (Break, st1)))"

text \<open>
  A Go call returns or panics. \<^verbatim>\<open>Update\<close> evaluates \<^verbatim>\<open>create.GetSHA()\<close> after its loop
  without testing \<^verbatim>\<open>create\<close>, which panics on a nil pointer; \<^verbatim>\<open>ImportState\<close> uses the
  client without testing it.
\<close>

datatype 'a outcome = Returns 'a | Panics

text \<open>
  \<^verbatim>\<open>Update\<close>. After the options are built:
  \<^verbatim>\<open>
      if !state.SHA.IsNull() && !state.SHA.IsUnknown() {
          opts.SHA = github.String(state.SHA.ValueString())
      }
  \<close>
  the commit message defaults to "Update <file>", the file is written in the retry
  loop, and the plan, with the ID of the state and the new commit SHA, is refreshed by
  \<^verbatim>\<open>readFile\<close> and stored.
\<close>

definition Update ::
  "'w environment \<Rightarrow> 'w repositoryFileResource \<Rightarrow> repositoryFileResourceModel UpdateRequest
    \<Rightarrow> repositoryFileResourceModel Response \<Rightarrow> 'w run
    \<Rightarrow> (repositoryFileResourceModel Response \<times> 'w run) outcome" where
  "Update env r req resp0 s =
     (let (plan_diags, plan) = update_Plan req;
          (state_diags, state) = update_State req;
          resp = resp0\<lparr>Diagnostics := Append (Append (Diagnostics resp0) plan_diags) state_diags\<rparr>
      in
      if HasError (Diagnostics resp) then Returns (resp, s)
      else
        case r_client r of
          None \<Rightarrow>
            Returns (resp\<lparr>Diagnostics := AddError (Diagnostics resp) ''Client Error''
                     ''GitHub client is not configured. Please ensure a token is provided.''\<rparr>, s)
        | Some c \<Rightarrow>
        case getOwner c r s of
          (Inl err, s1) \<Rightarrow>
            Returns (resp\<lparr>Diagnostics := AddError (Diagnostics resp) ''Missing Owner''
                     (missing_owner_detail err)\<rparr>, s1)
        | (Inr owner, s1) \<Rightarrow>
        let id = ValueString (m_ID state) in
        if id = [] then Returns (resp\<lparr>State := Some (state\<lparr>m_ID := Known []\<rparr>)\<rparr>, s1)
        else
        case strings_SplitN id (CHR '':'') 2 of
          [repoName, filePath] \<Rightarrow>
            (let content = ValueString (m_Content plan) in
             case checkAndCreateBranchIfNeeded c owner repoName plan (Diagnostics resp) s1 of
               ((False, plan, diags), s2) \<Rightarrow> Returns (resp\<lparr>Diagnostics := diags\<rparr>, s2)
             | ((True, plan, diags), s2) \<Rightarrow>
             let resp = resp\<lparr>Diagnostics := diags\<rparr> in
             case buildFileOptions plan content of
               Inl diags \<Rightarrow> Returns (resp\<lparr>Diagnostics := Append (Diagnostics resp) diags\<rparr>, s2)
             | Inr opts \<Rightarrow>
             let opts = (if is_set (m_SHA state)
                         then opts\<lparr>opt_SHA := Some (ValueString (m_SHA state))\<rparr> else opts);
                 (opts, plan) =
                   (if opt_Message opts = None \<or> opt_Message opts = Some []
                       \<or> opt_Message opts = Some (''Add '' @ filePath) then
                      (let msg = ''Update '' @ filePath in
                       (opts\<lparr>opt_Message := Some msg\<rparr>, plan\<lparr>m_CommitMessage := Known msg\<rparr>))
                    else (opts, plan))
             in
             case for_loop maxRetries (Update_attempt c owner repoName filePath plan) 0
                    \<lparr>rs_opts = opts, rs_create = None, rs_err = None,
                     rs_Diagnostics = Diagnostics resp, rs_run = s2\<rparr> of
               (left, st) \<Rightarrow>
             case rs_err st of
               Some err \<Rightarrow>
                 Returns
                   (resp\<lparr>Diagnostics := AddError (Diagnostics resp) ''Error updating file''
                          (''Unable to update file '' @ filePath @ '' in repository '' @ owner
                            @ ''/'' @ repoName @ '' after '' @ format_d (int maxRetries)
                            @ '' attempts: '' @ Error err)\<rparr>, rs_run st)
             | None \<Rightarrow>
             case rs_create st of
               None \<Rightarrow> Panics
             | Some create \<Rightarrow>
             let plan = plan\<lparr>m_ID := m_ID state,
                             m_CommitSHA := Known (GetString (response_SHA create))\<rparr>
             in
             case readFile env c owner repoName filePath plan (Diagnostics resp) (rs_run st) of
               ((plan, diags), s3) \<Rightarrow>
                 let resp = resp\<lparr>Diagnostics := diags\<rparr> in
                 if HasError (Diagnostics resp) then Returns (resp, s3)
                 else Returns (resp\<lparr>State := Some plan\<rparr>, s3))
        | parts \<Rightarrow>
            Returns (resp\<lparr>Diagnostics := AddError (Diagnostics resp) ''Invalid ID''
                     (invalid_id_detail id)\<rparr>, s1))"

text \<open>
  The body of the loop of \<^verbatim>\<open>Delete\<close>:
  \<^verbatim>\<open>
      _, _, err = r.client.Repositories.DeleteFile(ctx, owner, repoName, filePath, opts)
      if err == nil { return }
      var ghErr *github.ErrorResponse
      if errors.As(err, &ghErr) && ghErr.Response != nil {
          if ghErr.Response.StatusCode == http.StatusNotFound {
              return
          } else if ghErr.Response.StatusCode == http.StatusConflict {
              getOpts := ...
              fc, _, _, readErr := r.client.Repositories.GetContents(ctx, owner, repoName, filePath, getOpts)
              if readErr != nil {
                  var readGhErr *github.ErrorResponse
                  if errors.As(readErr, &readGhErr) && readGhErr.Response != nil
                     && readGhErr.Response.StatusCode == http.StatusNotFound { return }
              }
              if fc != nil {
                  opts.SHA = github.String(fc.GetSHA())
                  continue
              }
          }
      }
      break
  \<close>
\<close>

definition Delete_attempt ::
  "'w Client \<Rightarrow> string \<Rightarrow> string \<Rightarrow> string \<Rightarrow> repositoryFileResourceModel \<Rightarrow> 'w retry_state
    \<Rightarrow> control \<times> 'w retry_state" where
  "Delete_attempt c owner repoName filePath state st =
     (case invoke (Call_Repositories_DeleteFile owner repoName filePath (rs_opts st))
             Reply_ContentResponse
             (Repositories_DeleteFile c owner repoName filePath (rs_opts st)) (rs_run st) of
        (Inr deleted, s1) \<Rightarrow> (Return, st\<lparr>rs_err := None, rs_run := s1\<rparr>)
      | (Inl err, s1) \<Rightarrow>
          (let st1 = st\<lparr>rs_err := Some err, rs_run := s1\<rparr> in
           if StatusCode_is err StatusNotFound then (Return, st1)
           else if StatusCode_is err StatusConflict then
             (let getOpts = branch_GetOptions state in
              case invoke (Call_Repositories_GetContents owner repoName filePath getOpts)
                     Reply_Contents
                     (Repositories_GetContents c owner repoName filePath getOpts) s1 of
                (Inl readErr, s2) \<Rightarrow>
                  if StatusCode_is readErr StatusNotFound then (Return, st1\<lparr>rs_run := s2\<rparr>)
                  else (Break, st1\<lparr>rs_run := s2\<rparr>)
              | (Inr None, s2) \<Rightarrow> (Break, st1\<lparr>rs_run := s2\<rparr>)
              | (Inr (Some fc), s2) \<Rightarrow>
                  (Continue,
                   st1\<lparr>rs_opts := (rs_opts st)\<lparr>opt_SHA := Some (GetString (content_SHA fc))\<rparr>,
                       rs_run := s2\<rparr>))
           else (Break, st1)))"

text \<open>
  \<^verbatim>\<open>Delete\<close>. After the options are built and the commit message defaults to
  "Delete <file>":
  \<^verbatim>\<open>
      if !state.SHA.IsNull() && !state.SHA.IsUnknown() {
          opts.SHA = github.String(state.SHA.ValueString())
      }
  \<close>
  and the file is deleted in the retry loop. A response without an error diagnostic is
  a successful delete.
\<close>

definition Delete ::
  "'w repositoryFileResource \<Rightarrow> repositoryFileResourceModel DeleteRequest
    \<Rightarrow> repositoryFileResourceModel Response \<Rightarrow> 'w run
    \<Rightarrow> repositoryFileResourceModel Response \<times> 'w run" where
  "Delete r req resp0 s =
     (let (state_diags, state) = delete_State req;
          resp = resp0\<lparr>Diagnostics := Append (Diagnostics resp0) state_diags\<rparr>
      in
      if HasError (Diagnostics resp) then (resp, s)
      else
        case r_client r of
          None \<Rightarrow>
            (resp\<lparr>Diagnostics := AddError (Diagnostics resp) ''Client Error''
                     ''GitHub client is not configured. Please ensure a token is provided.''\<rparr>, s)
        | Some c \<Rightarrow>
        case getOwner c r s of
          (Inl err, s1) \<Rightarrow>
            (resp\<lparr>Diagnostics := AddError (Diagnostics resp) ''Missing Owner''
                     (missing_owner_detail err)\<rparr>, s1)
        | (Inr owner, s1) \<Rightarrow>
        let id = ValueString (m_ID state) in
        if id = [] then (resp, s1)
        else
        case strings_SplitN id (CHR '':'') 2 of
          [repoName, filePath] \<Rightarrow>
            (case checkAndCreateBranchIfNeeded c owner repoName state (Diagnostics resp) s1 of
               ((False, state, diags), s2) \<Rightarrow> (resp\<lparr>Diagnostics := diags\<rparr>, s2)
             | ((True, state, diags), s2) \<Rightarrow>
             let resp = resp\<lparr>Diagnostics := diags\<rparr> in
             case buildFileOptions state [] of
               Inl diags \<Rightarrow> (resp\<lparr>Diagnostics := Append (Diagnostics resp) diags\<rparr>, s2)
             | Inr opts \<Rightarrow>
             let opts = (if opt_Message opts = None \<or> opt_Message opts = Some []
                            \<or> opt_Message opts = Some (''Add '' @ filePath)
                         then opts\<lparr>opt_Message := Some (''Delete '' @ filePath)\<rparr> else opts);
                 opts = (if is_set (m_SHA state)
                         then opts\<lparr>opt_SHA := Some (ValueString (m_SHA state))\<rparr> else opts)
             in
             case for_loop maxRetries (Delete_attempt c owner repoName filePath state) 0
                    \<lparr>rs_opts = opts, rs_create = None, rs_err = None,
                     rs_Diagnostics = Diagnostics resp, rs_run = s2\<rparr> of
               (Returned, st) \<Rightarrow> (resp, rs_run st)
             | (left, st) \<Rightarrow>
                 (case rs_err st of
                    Some err \<Rightarrow>
                      (resp\<lparr>Diagnostics := AddError (Diagnostics resp) ''Error deleting file''
                               (''Unable to delete file '' @ filePath @ '' from repository '' @ owner
                                 @ ''/'' @ repoName @ '' after '' @ format_d (int maxRetries)
                                 @ '' attempts: '' @ Error err)\<rparr>, rs_run st)
                  | None \<Rightarrow> (resp, rs_run st)))
        | parts \<Rightarrow>
            (resp\<lparr>Diagnostics := AddError (Diagnostics resp) ''Invalid ID''
                     (invalid_id_detail id)\<rparr>, s1))"





section \<open>resource\_repository\_pull\_request.go\<close>

record repositoryPullRequestResourceModel =
  pm_Repository :: "string tf_value"
  pm_BaseRef :: "string tf_value"
  pm_HeadRef :: "string tf_value"
  pm_Title :: "string tf_value"
  pm_Body :: "string tf_value"
  pm_MergeWhenReady :: "bool tf_value"
  pm_MergeMethod :: "string tf_value"
  pm_WaitForChecks :: "bool tf_value"
  pm_AutoDeleteBranch :: "bool tf_value"
  pm_MaintainerCanModify :: "bool tf_value"
  pm_BaseSHA :: "string tf_value"
  pm_HeadSHA :: "string tf_value"
  pm_Number :: "int tf_value"
  pm_State :: "string tf_value"
  pm_Merged :: "bool tf_value"
  pm_MergedAt :: "string tf_value"
  pm_MergeCommitSHA :: "string tf_value"
  pm_ID :: "string tf_value"

text \<open>
  The getters of a pull request that go through a pointer to a struct:
  \<^verbatim>\<open>pr.GetHead().GetRef()\<close>, \<^verbatim>\<open>pr.GetHead().GetSHA()\<close>, \<^verbatim>\<open>pr.GetBase().GetRef()\<close> and
  \<^verbatim>\<open>pr.GetMergedAt()\<close>, which is the zero time for a nil pointer.
\<close>

definition GetRef_of :: "PullRequestBranch option \<Rightarrow> string" where
  "GetRef_of b = (case b of None \<Rightarrow> [] | Some branch \<Rightarrow> GetString (branch_Ref branch))"

definition GetSHA_of :: "PullRequestBranch option \<Rightarrow> string" where
  "GetSHA_of b = (case b of None \<Rightarrow> [] | Some branch \<Rightarrow> GetString (branch_SHA branch))"

definition GetMergedAt :: "PullRequest \<Rightarrow> Timestamp" where
  "GetMergedAt pr =
     (case pr_MergedAt pr of None \<Rightarrow> \<lparr>IsZero = True, Format_RFC3339 = []\<rparr> | Some t \<Rightarrow> t)"

text \<open>
  \<^verbatim>\<open>getOwner\<close> of the pull-request resource: the owner of the provider configuration, or
  else the login of the authenticated user.
\<close>

definition repositoryPullRequestResource_getOwner ::
  "'w Client \<Rightarrow> 'w repositoryPullRequestResource \<Rightarrow> 'w run \<Rightarrow> (string + string) \<times> 'w run" where
  "repositoryPullRequestResource_getOwner c r s =
     (if r_owner r \<noteq> [] then (Inr (r_owner r), s)
      else
        case invoke (Call_Users_Get []) Reply_User (Users_Get c []) s of
          (Inl err, s1) \<Rightarrow> (Inl (''unable to get authenticated user: '' @ Error err), s1)
        | (Inr user, s1) \<Rightarrow> (Inr (GetString (Login user)), s1))"

text \<open>
  \<^verbatim>\<open>readPullRequest\<close> fetches the pull request and fills the model:
  \<^verbatim>\<open>
      pr, _, err := r.client.PullRequests.Get(ctx, owner, repoName, number)
      if err != nil {
          var ghErr *github.ErrorResponse
          if errors.As(err, &ghErr) && ghErr.Response != nil && ghErr.Response.StatusCode == http.StatusNotFound {
              model.ID = types.StringValue("")
              return
          }
          diags.AddError("Error reading pull request", ...)
          return
      }
  \<close>
\<close>

definition readPullRequest ::
  "'w Client \<Rightarrow> string \<Rightarrow> string \<Rightarrow> int \<Rightarrow> repositoryPullRequestResourceModel \<Rightarrow> Diagnostics
    \<Rightarrow> 'w run \<Rightarrow> (repositoryPullRequestResourceModel \<times> Diagnostics) \<times> 'w run" where
  "readPullRequest c owner repoName number model diags s =
     (case invoke (Call_PullRequests_Get owner repoName number) Reply_PullRequest
             (PullRequests_Get c owner repoName number) s of
        (Inl err, s1) \<Rightarrow>
          if StatusCode_is err StatusNotFound then ((model\<lparr>pm_ID := Known []\<rparr>, diags), s1)
          else
            ((model, AddError diags ''Error reading pull request''
                       (''Unable to read pull request #'' @ format_d number @ '' from repository ''
                         @ owner @ ''/'' @ repoName @ '': '' @ Error err)), s1)
      | (Inr pr, s1) \<Rightarrow>
          (let model = model\<lparr>pm_Repository := Known repoName,
                              pm_Number := Known (GetInt (pr_Number pr)),
                              pm_Title := Known (GetString (pr_Title pr)),
                              pm_Body := Known (GetString (pr_Body pr)),
                              pm_State := Known (GetString (pr_State pr)),
                              pm_Merged := Known (GetBool (pr_Merged pr)),
                              pm_MaintainerCanModify := Known (GetBool (pr_MaintainerCanModify pr))\<rparr>;
               mergedAt = GetMergedAt pr;
               model = (if \<not> IsZero mergedAt \<and> GetBool (pr_Merged pr)
                        then model\<lparr>pm_MergedAt := Known (Format_RFC3339 mergedAt)\<rparr>
                        else model\<lparr>pm_MergedAt := Null\<rparr>);
               mergeCommitSHA = GetString (pr_MergeCommitSHA pr);
               model = (if mergeCommitSHA \<noteq> [] \<and> GetBool (pr_Merged pr)
                        then model\<lparr>pm_MergeCommitSHA := Known mergeCommitSHA\<rparr>
                        else model\<lparr>pm_MergeCommitSHA := Null\<rparr>);
               model = (case pr_Head pr of
                          None \<Rightarrow> model
                        | Some head \<Rightarrow>
                            model\<lparr>pm_HeadRef := Known (GetString (branch_Ref head)),
                                  pm_HeadSHA := Known (GetString (branch_SHA head))\<rparr>);
               model = (case pr_Base pr of
                          None \<Rightarrow> model
                        | Some base \<Rightarrow>
                            model\<lparr>pm_BaseRef := Known (GetString (branch_Ref base)),
                                  pm_BaseSHA := Known (GetString (branch_SHA base))\<rparr>)
           in ((model, diags), s1)))"

text \<open>
  The result of a polling loop: the error it returns (\<open>None\<close> for nil), and the run.
\<close>

record 'w poll_state =
  poll_err :: "string option"
  poll_run :: "'w run"

text \<open>
  The loop over the statuses in \<^verbatim>\<open>waitForChecks\<close>:
  \<^verbatim>\<open>
      allPassed := true
      for _, status := range statuses {
          state := status.GetState()
          if state == "pending" { allPassed = false; break }
          if state == "error" || state == "failure" {
              return fmt.Errorf("status check %s failed", status.GetContext())
          }
      }
  \<close>
  It gives \<open>allPassed\<close>, or the error returned.
\<close>

fun check_statuses :: "RepoStatus list \<Rightarrow> string + bool" where
  "check_statuses [] = Inr True"
| "check_statuses (status # statuses) =
     (let state = GetString (status_State status) in
      if state = ''pending'' then Inr False
      else if state = ''error'' \<or> state = ''failure'' then
        Inl (''status check '' @ GetString (status_Context status) @ '' failed'')
      else check_statuses statuses)"

text \<open>
  One pass of the loop of \<^verbatim>\<open>waitForChecks\<close>, which ends with
  \<^verbatim>\<open>attempt++; time.Sleep(5 * time.Second)\<close>.
\<close>

definition waitForChecks_attempt ::
  "'w Client \<Rightarrow> string \<Rightarrow> string \<Rightarrow> int \<Rightarrow> 'w poll_state \<Rightarrow> control \<times> 'w poll_state" where
  "waitForChecks_attempt c owner repoName number st =
     (case invoke (Call_PullRequests_Get owner repoName number) Reply_PullRequest
             (PullRequests_Get c owner repoName number) (poll_run st) of
        (Inl err, s1) \<Rightarrow>
          (Return, \<lparr>poll_err = Some (''unable to get pull request: '' @ Error err), poll_run = s1\<rparr>)
      | (Inr pr, s1) \<Rightarrow>
          (let headSHA = GetSHA_of (pr_Head pr) in
           case invoke (Call_Repositories_ListStatuses owner repoName headSHA) Reply_Statuses
                  (Repositories_ListStatuses c owner repoName headSHA) s1 of
             (Inl err, s2) \<Rightarrow>
               (Return, \<lparr>poll_err = Some (''unable to get status checks: '' @ Error err),
                         poll_run = s2\<rparr>)
           | (Inr statuses, s2) \<Rightarrow>
               (case check_statuses statuses of
                  Inl failed \<Rightarrow> (Return, \<lparr>poll_err = Some failed, poll_run = s2\<rparr>)
                | Inr allPassed \<Rightarrow>
                    if allPassed \<and> length statuses > 0 then
                      (Return, \<lparr>poll_err = None, poll_run = s2\<rparr>)
                    else if length statuses = 0 then
                      (Return, \<lparr>poll_err = None, poll_run = s2\<rparr>)
                    else (Continue, \<lparr>poll_err = None, poll_run = time_Sleep 5 s2\<rparr>))))"

text \<open>
  \<^verbatim>\<open>
  maxAttempts := 60
  attempt := 0
  for attempt < maxAttempts { ... }
  return fmt.Errorf("status checks did not complete after %d attempts", maxAttempts)
  \<close>
\<close>

definition waitForChecks ::
  "'w Client \<Rightarrow> string \<Rightarrow> string \<Rightarrow> int \<Rightarrow> 'w run \<Rightarrow> string option \<times> 'w run" where
  "waitForChecks c owner repoName number s =
     (let maxAttempts = 60 in
      case for_loop maxAttempts (waitForChecks_attempt c owner repoName number) 0
             \<lparr>poll_err = None, poll_run = s\<rparr> of
        (Exhausted, st) \<Rightarrow>
          (Some (''status checks did not complete after '' @ format_d (int maxAttempts)
                  @ '' attempts''), poll_run st)
      | (left, st) \<Rightarrow> (poll_err st, poll_run st))"

text \<open>
  The merge method that \<^verbatim>\<open>mergeWhenReady\<close> settles on from the settings of the
  repository (the \<^verbatim>\<open>switch mergeMethod\<close>), or the error it returns.
\<close>

definition allowed_method :: "Repository \<Rightarrow> string \<Rightarrow> string + string" where
  "allowed_method repo mergeMethod =
     (if mergeMethod = ''squash'' then
        (if \<not> GetBool (AllowSquashMerge repo) then
           (if GetBool (AllowMergeCommit repo) then Inr ''merge''
            else if GetBool (AllowRebaseMerge repo) then Inr ''rebase''
            else Inl ''squash merge is not allowed on this repository and no alternative merge methods are enabled'')
         else Inr mergeMethod)
      else if mergeMethod = ''rebase'' then
        (if \<not> GetBool (AllowRebaseMerge repo) then
           (if GetBool (AllowMergeCommit repo) then Inr ''merge''
            else if GetBool (AllowSquashMerge repo) then Inr ''squash''
            else Inl ''rebase merge is not allowed on this repository and no alternative merge methods are enabled'')
         else Inr mergeMethod)
      else if mergeMethod = ''merge'' then
        (if \<not> GetBool (AllowMergeCommit repo) then
           (if GetBool (AllowSquashMerge repo) then Inr ''squash''
            else if GetBool (AllowRebaseMerge repo) then Inr ''rebase''
            else Inl ''merge commit is not allowed on this repository and no alternative merge methods are enabled'')
         else Inr mergeMethod)
      else Inr mergeMethod)"

text \<open>
  The merge itself, with the second try after HTTP 405: it gives the error that is left
  (\<open>None\<close> for nil).
\<close>

definition merge_with_fallback ::
  "'w Client \<Rightarrow> string \<Rightarrow> string \<Rightarrow> int \<Rightarrow> Repository option \<Rightarrow> string \<Rightarrow> 'w run
    \<Rightarrow> api_error option \<times> 'w run" where
  "merge_with_fallback c owner repoName number repo mergeMethod s =
     (let merge = (\<lambda>method s.
            case invoke (Call_PullRequests_Merge owner repoName number [] \<lparr>MergeMethod = method\<rparr>)
                   (\<lambda>_. Reply_done)
                   (PullRequests_Merge c owner repoName number [] \<lparr>MergeMethod = method\<rparr>) s of
              (Inl err, s1) \<Rightarrow> (Some err, s1)
            | (Inr done, s1) \<Rightarrow> (None, s1))
      in
      case merge mergeMethod s of
        (None, s1) \<Rightarrow> (None, s1)
      | (Some err, s1) \<Rightarrow>
          if StatusCode_is err StatusMethodNotAllowed then
            (case repo of
               None \<Rightarrow> (Some err, s1)
             | Some repo \<Rightarrow>
                 if mergeMethod \<noteq> ''merge'' \<and> GetBool (AllowMergeCommit repo) then merge ''merge'' s1
                 else if mergeMethod \<noteq> ''squash'' \<and> GetBool (AllowSquashMerge repo)
                 then merge ''squash'' s1
                 else if mergeMethod \<noteq> ''rebase'' \<and> GetBool (AllowRebaseMerge repo)
                 then merge ''rebase'' s1
                 else (Some err, s1))
          else (Some err, s1))"

text \<open>
  The end of a pass of the loop of \<^verbatim>\<open>mergeWhenReady\<close>, once the pull request is
  mergeable and its checks have passed: the pull request is approved (a failure is only
  logged), the merge method is settled, the pull request is merged, and the head branch is
  deleted if the plan asks for it (a failure is only logged). It gives the error that
  \<^verbatim>\<open>mergeWhenReady\<close> returns (\<open>None\<close> for nil).
\<close>

definition approve_and_merge ::
  "'w Client \<Rightarrow> string \<Rightarrow> string \<Rightarrow> int \<Rightarrow> repositoryPullRequestResourceModel \<Rightarrow> 'w run
    \<Rightarrow> string option \<times> 'w run" where
  "approve_and_merge c owner repoName number plan s =
     (let review = \<lparr>review_Event = Some ''APPROVE'',
                    review_Body = Some ''Auto-approved by Terraform''\<rparr>;
          s1 = snd (invoke (Call_PullRequests_CreateReview owner repoName number review)
                      (\<lambda>_. Reply_done)
                      (PullRequests_CreateReview c owner repoName number review) s);
          mergeMethod = ValueString (pm_MergeMethod plan);
          mergeMethod = (if mergeMethod = [] then ''merge'' else mergeMethod)
      in
      case invoke (Call_Repositories_Get owner repoName) Reply_Repository
             (Repositories_Get c owner repoName) s1 of
        (got, s2) \<Rightarrow>
          (let repo = (case got of Inl err \<Rightarrow> None | Inr repo \<Rightarrow> Some repo) in
           case (case repo of
                   None \<Rightarrow> Inr mergeMethod
                 | Some repo \<Rightarrow> allowed_method repo mergeMethod) of
             Inl refused \<Rightarrow> (Some refused, s2)
           | Inr mergeMethod \<Rightarrow>
               (case merge_with_fallback c owner repoName number repo mergeMethod s2 of
                  (Some err, s3) \<Rightarrow> (Some (''unable to merge pull request: '' @ Error err), s3)
                | (None, s3) \<Rightarrow>
                    (if ValueBool (pm_AutoDeleteBranch plan) then
                       (let headRef = ValueString (pm_HeadRef plan);
                            ref = ''refs/heads/'' @ headRef;
                            s4 = snd (invoke (Call_Git_DeleteRef owner repoName ref)
                                        (\<lambda>_. Reply_done)
                                        (Git_DeleteRef c owner repoName ref) s3)
                        in (None, s4))
                     else (None, s3)))))"

text \<open>
  One pass of the loop of \<^verbatim>\<open>mergeWhenReady\<close>. The three branches that wait end with
  \<^verbatim>\<open>attempt++; time.Sleep(5 * time.Second); continue\<close>; every other path returns.
\<close>

definition mergeWhenReady_attempt ::
  "'w Client \<Rightarrow> string \<Rightarrow> string \<Rightarrow> int \<Rightarrow> repositoryPullRequestResourceModel \<Rightarrow> 'w poll_state
    \<Rightarrow> control \<times> 'w poll_state" where
  "mergeWhenReady_attempt c owner repoName number plan st =
     (case invoke (Call_PullRequests_Get owner repoName number) Reply_PullRequest
             (PullRequests_Get c owner repoName number) (poll_run st) of
        (Inl err, s1) \<Rightarrow>
          (Return, \<lparr>poll_err = Some (''unable to get pull request: '' @ Error err), poll_run = s1\<rparr>)
      | (Inr pr, s1) \<Rightarrow>
          if GetString (pr_State pr) \<noteq> ''open'' then
            (if GetBool (pr_Merged pr) then (Return, \<lparr>poll_err = None, poll_run = s1\<rparr>)
             else (Return, \<lparr>poll_err = Some ''pull request is not open'', poll_run = s1\<rparr>))
          else
            case pr_Mergeable pr of
              None \<Rightarrow> (Continue, \<lparr>poll_err = None, poll_run = time_Sleep 5 s1\<rparr>)
            | Some False \<Rightarrow> (Continue, \<lparr>poll_err = None, poll_run = time_Sleep 5 s1\<rparr>)
            | Some True \<Rightarrow>
                (case (if ValueBool (pm_WaitForChecks plan)
                       then waitForChecks c owner repoName number s1 else (None, s1)) of
                   (Some err, s2) \<Rightarrow> (Continue, \<lparr>poll_err = None, poll_run = time_Sleep 5 s2\<rparr>)
                 | (None, s2) \<Rightarrow>
                     (case approve_and_merge c owner repoName number plan s2 of
                        (err, s3) \<Rightarrow> (Return, \<lparr>poll_err = err, poll_run = s3\<rparr>))))"

text \<open>
  \<^verbatim>\<open>
  maxAttempts := 30
  attempt := 0
  for attempt < maxAttempts { ... }
  return fmt.Errorf("pull request not ready to merge after %d attempts", maxAttempts)
  \<close>
\<close>

definition mergeWhenReady ::
  "'w Client \<Rightarrow> string \<Rightarrow> string \<Rightarrow> int \<Rightarrow> repositoryPullRequestResourceModel \<Rightarrow> 'w run
    \<Rightarrow> string option \<times> 'w run" where
  "mergeWhenReady c owner repoName number plan s =
     (let maxAttempts = 30 in
      case for_loop maxAttempts (mergeWhenReady_attempt c owner repoName number plan) 0
             \<lparr>poll_err = None, poll_run = s\<rparr> of
        (Exhausted, st) \<Rightarrow>
          (Some (''pull request not ready to merge after '' @ format_d (int maxAttempts)
                  @ '' attempts''), poll_run st)
      | (left, st) \<Rightarrow> (poll_err st, poll_run st))"

definition handleAutoMerge ::
  "'w Client \<Rightarrow> string \<Rightarrow> string \<Rightarrow> int \<Rightarrow> repositoryPullRequestResourceModel \<Rightarrow> 'w run
    \<Rightarrow> string option \<times> 'w run" where
  "handleAutoMerge c owner repoName number plan s =
     (if ValueBool (pm_MergeWhenReady plan) then mergeWhenReady c owner repoName number plan s
      else (None, s))"

text \<open>
  \<^verbatim>\<open>findExistingPR\<close> lists the pull requests of the head and base branch (the first page
  of 100) and returns the first whose base and head refs are the given ones.
\<close>

definition findExistingPR ::
  "'w Client \<Rightarrow> string \<Rightarrow> string \<Rightarrow> string \<Rightarrow> string \<Rightarrow> 'w run
    \<Rightarrow> (api_error + PullRequest option) \<times> 'w run" where
  "findExistingPR c owner repoName baseRef headRef s =
     (let opts = \<lparr>prlist_State = ''all'', prlist_Head = owner @ '':'' @ headRef,
                  prlist_Base = baseRef, prlist_PerPage = 100\<rparr> in
      case invoke (Call_PullRequests_List owner repoName opts) Reply_PullRequests
             (PullRequests_List c owner repoName opts) s of
        (Inl err, s1) \<Rightarrow> (Inl err, s1)
      | (Inr prs, s1) \<Rightarrow>
          (Inr (find (\<lambda>pr. GetRef_of (pr_Base pr) = baseRef \<and> GetRef_of (pr_Head pr) = headRef) prs),
           s1))"

definition getBranchSHAs ::
  "'w Client \<Rightarrow> string \<Rightarrow> string \<Rightarrow> string \<Rightarrow> string \<Rightarrow> 'w run
    \<Rightarrow> (string + string \<times> string) \<times> 'w run" where
  "getBranchSHAs c owner repoName baseRef headRef s =
     (let baseRefFull = ''refs/heads/'' @ baseRef;
          headRefFull = ''refs/heads/'' @ headRef
      in
      case invoke (Call_Git_GetRef owner repoName baseRefFull) Reply_Reference
             (Git_GetRef c owner repoName baseRefFull) s of
        (Inl err, s1) \<Rightarrow> (Inl (''unable to get base branch '' @ baseRef @ '': '' @ Error err), s1)
      | (Inr baseRefObj, s1) \<Rightarrow>
          (case invoke (Call_Git_GetRef owner repoName headRefFull) Reply_Reference
                  (Git_GetRef c owner repoName headRefFull) s1 of
             (Inl err, s2) \<Rightarrow>
               (Inl (''unable to get head branch '' @ headRef @ '': '' @ Error err), s2)
           | (Inr headRefObj, s2) \<Rightarrow>
               (let sha_of = (\<lambda>ref. case ref_Object ref of None \<Rightarrow> []
                                     | Some obj \<Rightarrow> GetString (obj_SHA obj))
                in (Inr (sha_of baseRefObj, sha_of headRefObj), s2))))"

text \<open>
  \<^verbatim>\<open>'%s'\<close> in a format string: the text between two single quotes.
\<close>

definition quoted :: "string \<Rightarrow> string" where
  "quoted s = CHR 0x27 # s @ [CHR 0x27]"

text \<open>
  \<^verbatim>\<open>Create\<close> of the pull-request resource. An existing pull request of the two branches
  is reopened when it is closed and not merged, and adopted otherwise; only when there is
  none a new one is created. Then the pull request is merged if the plan asks for it,
  read back, and stored.
\<close>

definition repositoryPullRequestResource_Create ::
  "'w repositoryPullRequestResource \<Rightarrow> repositoryPullRequestResourceModel CreateRequest
    \<Rightarrow> repositoryPullRequestResourceModel Response \<Rightarrow> 'w run
    \<Rightarrow> repositoryPullRequestResourceModel Response \<times> 'w run" where
  "repositoryPullRequestResource_Create r req resp0 s =
     (let (plan_diags, plan) = create_Plan req;
          resp = resp0\<lparr>Diagnostics := Append (Diagnostics resp0) plan_diags\<rparr>
      in
      if HasError (Diagnostics resp) then (resp, s)
      else
        case r_client r of
          None \<Rightarrow>
            (resp\<lparr>Diagnostics := AddError (Diagnostics resp) ''Client Error''
                     ''GitHub client is not configured. Please ensure a token is provided.''\<rparr>, s)
        | Some c \<Rightarrow>
        case repositoryPullRequestResource_getOwner c r s of
          (Inl err, s1) \<Rightarrow>
            (resp\<lparr>Diagnostics := AddError (Diagnostics resp) ''Missing Owner''
                     (missing_owner_detail err)\<rparr>, s1)
        | (Inr owner, s1) \<Rightarrow>
        let repoName = ValueString (pm_Repository plan);
            baseRef = ValueString (pm_BaseRef plan);
            headRef = ValueString (pm_HeadRef plan);
            title = ValueString (pm_Title plan)
        in
        if baseRef = headRef then
          (resp\<lparr>Diagnostics := AddError (Diagnostics resp) ''Invalid Configuration''
                   (''Base branch '' @ quoted baseRef @ '' and head branch '' @ quoted headRef
                     @ '' cannot be the same. There must be a difference to create a pull request.'')\<rparr>,
           s1)
        else
        case findExistingPR c owner repoName baseRef headRef s1 of
          (Inl err, s2) \<Rightarrow>
            (resp\<lparr>Diagnostics := AddError (Diagnostics resp)
                     ''Error checking for existing pull request''
                     (''Unable to check for existing pull request in repository '' @ owner @ ''/''
                       @ repoName @ '': '' @ Error err)\<rparr>, s2)
        | (Inr existingPR, s2) \<Rightarrow>
        case
          (case existingPR of
             Some existingPR \<Rightarrow>
               (case
                  (if GetString (pr_State existingPR) = ''closed'' \<and> \<not> GetBool (pr_Merged existingPR)
                   then
                     (let update = \<lparr>pr_Number = None, pr_State = Some ''open'', pr_Title = None,
                                     pr_Body = None, pr_Merged = None, pr_Mergeable = None,
                                     pr_MaintainerCanModify = None, pr_MergedAt = None,
                                     pr_MergeCommitSHA = None, pr_Head = None, pr_Base = None\<rparr>
                      in
                      case invoke (Call_PullRequests_Edit owner repoName
                                     (GetInt (pr_Number existingPR)) update) Reply_PullRequest
                             (PullRequests_Edit c owner repoName (GetInt (pr_Number existingPR))
                                update) s2 of
                        (Inl err, s3) \<Rightarrow>
                          (Inl (AddError (Diagnostics resp) ''Error reopening pull request''
                                  (''Unable to reopen pull request #''
                                    @ format_d (GetInt (pr_Number existingPR)) @ '' in repository ''
                                    @ owner @ ''/'' @ repoName @ '': '' @ Error err)), s3)
                      | (Inr reopenedPR, s3) \<Rightarrow> (Inr reopenedPR, s3))
                   else (Inr existingPR, s2)) of
                  (Inl diags, s3) \<Rightarrow> (Inl diags, s3)
                | (Inr pr, s3) \<Rightarrow>
                    (Inr (pr, plan\<lparr>pm_ID := Known (repoName @ '':'' @ format_d (GetInt (pr_Number pr))),
                                    pm_Number := Known (GetInt (pr_Number pr))\<rparr>), s3))
           | None \<Rightarrow>
               (case getBranchSHAs c owner repoName baseRef headRef s2 of
                  (Inl err, s3) \<Rightarrow>
                    (Inl (AddError (Diagnostics resp) ''Error checking branch differences''
                            (''Unable to get branch information: '' @ err)), s3)
                | (Inr (baseSHA, headSHA), s3) \<Rightarrow>
                    if baseSHA = headSHA then
                      (Inl (AddError (Diagnostics resp) ''No Differences''
                              (''Branches '' @ quoted headRef @ '' and '' @ quoted baseRef
                                @ '' are at the same commit (SHA: '' @ headSHA
                                @ ''). There are no changes to create a pull request.'')), s3)
                    else
                      (let newPR = \<lparr>new_Title = Some title, new_Head = Some headRef,
                                      new_Base = Some baseRef, new_Body = None,
                                      new_MaintainerCanModify =
                                        Some (ValueBool (pm_MaintainerCanModify plan))\<rparr>;
                           newPR = (if \<not> IsNull (pm_Body plan) \<and> \<not> IsUnknown (pm_Body plan)
                                    then newPR\<lparr>new_Body := Some (ValueString (pm_Body plan))\<rparr>
                                    else newPR)
                       in
                       case invoke (Call_PullRequests_Create owner repoName newPR) Reply_PullRequest
                              (PullRequests_Create c owner repoName newPR) s3 of
                         (Inl err, s4) \<Rightarrow>
                           if StatusCode_is err StatusUnprocessableEntity
                              \<and> (strings_Contains (Error err) ''already exists''
                                   \<or> strings_Contains (Error err) ''No commits between'')
                           then
                             (Inl (AddError (Diagnostics resp)
                                     ''Pull Request Already Exists or No Changes''
                                     (''Unable to create pull request: '' @ Error err
                                       @ ''. A pull request may already exist, or there are no commits between ''
                                       @ quoted headRef @ '' and '' @ quoted baseRef @ ''.'')), s4)
                           else
                             (Inl (AddError (Diagnostics resp) ''Error creating pull request''
                                     (''Unable to create pull request in repository '' @ owner
                                       @ ''/'' @ repoName @ '': '' @ Error err)), s4)
                       | (Inr pr, s4) \<Rightarrow>
                           (Inr (pr, plan\<lparr>pm_ID := Known (repoName @ '':''
                                                              @ format_d (GetInt (pr_Number pr))),
                                           pm_Number := Known (GetInt (pr_Number pr))\<rparr>), s4)))) of
          (Inl diags, s3) \<Rightarrow> (resp\<lparr>Diagnostics := diags\<rparr>, s3)
        | (Inr (pr, plan), s3) \<Rightarrow>
        case (if GetString (pr_State pr) = ''open'' \<and> \<not> GetBool (pr_Merged pr)
                 \<and> ValueBool (pm_MergeWhenReady plan)
              then handleAutoMerge c owner repoName (GetInt (pr_Number pr)) plan s3
              else (None, s3)) of
          (Some err, s4) \<Rightarrow>
            (resp\<lparr>Diagnostics := AddError (Diagnostics resp) ''Error setting up auto-merge''
                     (''Unable to set up auto-merge for pull request #''
                       @ format_d (GetInt (pr_Number pr)) @ '': '' @ err)\<rparr>, s4)
        | (None, s4) \<Rightarrow>
        case readPullRequest c owner repoName (GetInt (pr_Number pr)) plan (Diagnostics resp) s4 of
          ((plan, diags), s5) \<Rightarrow>
            let resp = resp\<lparr>Diagnostics := diags\<rparr> in
            if HasError (Diagnostics resp) then (resp, s5)
            else (resp\<lparr>State := Some plan\<rparr>, s5))"

section \<open>Reading a transcript\<close>

text \<open>
  The write requests are \<^verbatim>\<open>CreateFile\<close> (which also updates) and \<^verbatim>\<open>DeleteFile\<close>.
  \<open>quiet s s'\<close>: the run \<open>s'\<close> continues \<open>s\<close> without a write request.
\<close>

fun is_write_call :: "call \<Rightarrow> bool" where
  "is_write_call (Call_Repositories_CreateFile _ _ _ _) = True"
| "is_write_call (Call_Repositories_DeleteFile _ _ _ _) = True"
| "is_write_call _ = False"

fun is_write :: "event \<Rightarrow> bool" where
  "is_write (Called c _) = is_write_call c"
| "is_write (Slept _) = False"

definition no_writes :: "event list \<Rightarrow> bool" where
  "no_writes T = (\<forall>e \<in> set T. \<not> is_write e)"

definition quiet :: "'w run \<Rightarrow> 'w run \<Rightarrow> bool" where
  "quiet s s' = (\<exists>T. transcript s' = transcript s @ T \<and> no_writes T)"

text \<open>
  \<open>retry_after strict w0 g w\<close>: the write \<open>w\<close> is a retry of the write \<open>w0\<close>, which was
  answered by HTTP 409, after the request \<open>g\<close> for the contents of the same file: \<open>w\<close> is
  the same request as \<open>w0\<close> with the SHA of the file that \<open>g\<close> returned; when \<open>g\<close> returned
  no file, \<open>w\<close> is \<open>w0\<close> again if \<open>strict\<close> is off, and no retry at all if it is on.
\<close>

fun fetched_options ::
  "bool \<Rightarrow> reply \<Rightarrow> RepositoryContentFileOptions \<Rightarrow> RepositoryContentFileOptions option" where
  "fetched_options strict (Reply_Contents (Some fc)) opts =
     Some (opts\<lparr>opt_SHA := Some (GetString (content_SHA fc))\<rparr>)"
| "fetched_options strict other opts = (if strict then None else Some opts)"

definition retry_after :: "bool \<Rightarrow> event \<Rightarrow> event \<Rightarrow> event \<Rightarrow> bool" where
  "retry_after strict w0 g w =
     (\<exists>owner repo file opts err getOpts fetched opts' answer.
        StatusCode_is err StatusConflict
        \<and> g = Called (Call_Repositories_GetContents owner repo file getOpts) fetched
        \<and> fetched_options strict fetched opts = Some opts'
        \<and> (w0 = Called (Call_Repositories_CreateFile owner repo file opts) (Reply_error err)
             \<and> w = Called (Call_Repositories_CreateFile owner repo file opts') answer
           \<or> w0 = Called (Call_Repositories_DeleteFile owner repo file opts) (Reply_error err)
             \<and> w = Called (Call_Repositories_DeleteFile owner repo file opts') answer))"

text \<open>
  \<open>retries_disciplined strict T\<close>: in the transcript \<open>T\<close>, every write request but the
  first comes directly after a request for the contents of the file, which comes directly
  after a write answered by 409, and is the retry of that write.
\<close>

definition retries_disciplined :: "bool \<Rightarrow> event list \<Rightarrow> bool" where
  "retries_disciplined strict T =
     (\<forall>pre w post. T = pre @ w # post \<and> is_write w \<and> \<not> no_writes pre \<longrightarrow>
        (\<exists>pre' w0 g. pre = pre' @ [w0, g] \<and> retry_after strict w0 g w))"

text \<open>
  \<open>first_write T\<close> is the first write request of the transcript, if there is one.
\<close>

definition first_write :: "event list \<Rightarrow> event option" where
  "first_write T = (case filter is_write T of [] \<Rightarrow> None | w # ws \<Rightarrow> Some w)"

text \<open>
  \<open>answered_conflict e\<close>: the request \<open>e\<close> was answered by HTTP 409.
  \<open>failed_otherwise e\<close>: \<open>e\<close> is a write request answered by an error that is not an
  \<^verbatim>\<open>ErrorResponse\<close> with status 409: another status, no response, or another kind of
  error.
\<close>

definition answered_conflict :: "event \<Rightarrow> bool" where
  "answered_conflict e =
     (case e of Called c (Reply_error err) \<Rightarrow> StatusCode_is err StatusConflict | _ \<Rightarrow> False)"

definition failed_otherwise :: "event \<Rightarrow> bool" where
  "failed_otherwise e =
     (case e of
        Called c (Reply_error err) \<Rightarrow> is_write_call c \<and> \<not> StatusCode_is err StatusConflict
      | _ \<Rightarrow> False)"

text \<open>
  \<open>answered_not_found e\<close>: the request \<open>e\<close> was answered by HTTP 404.
\<close>

definition answered_not_found :: "event \<Rightarrow> bool" where
  "answered_not_found e =
     (case e of Called c (Reply_error err) \<Rightarrow> StatusCode_is err StatusNotFound | _ \<Rightarrow> False)"

text \<open>
  \<open>is_sleep e\<close>: the event is a call of \<^verbatim>\<open>time.Sleep\<close>.
  \<open>is_PullRequests_Get e\<close>: the event is a request for a pull request.
  \<open>is_PullRequests_Create e\<close>: the event is a request that creates a pull request.
\<close>

fun is_sleep :: "event \<Rightarrow> bool" where
  "is_sleep (Slept _) = True"
| "is_sleep (Called _ _) = False"

fun is_PullRequests_Get :: "event \<Rightarrow> bool" where
  "is_PullRequests_Get (Called (Call_PullRequests_Get _ _ _) _) = True"
| "is_PullRequests_Get _ = False"

fun is_PullRequests_Create :: "event \<Rightarrow> bool" where
  "is_PullRequests_Create (Called (Call_PullRequests_Create _ _ _) _) = True"
| "is_PullRequests_Create _ = False"

section \<open>A scripted remote, for concrete runs\<close>

text \<open>
  For a concrete run the state of the remote is the list of replies still to be given:
  each request takes the next one. A reply of the wrong kind for the request, or an
  exhausted script, is an error that is not an \<^verbatim>\<open>ErrorResponse\<close>.
\<close>

definition next_reply ::
  "(reply \<Rightarrow> 'r option) \<Rightarrow> reply list \<Rightarrow> (api_error + 'r) \<times> reply list" where
  "next_reply unwrap script =
     (case script of
        [] \<Rightarrow> (Inl (OtherError ''no reply scripted''), [])
      | Reply_error e # rest \<Rightarrow> (Inl e, rest)
      | r # rest \<Rightarrow>
          (case unwrap r of
             Some v \<Rightarrow> (Inr v, rest)
           | None \<Rightarrow> (Inl (OtherError ''reply of another kind''), rest)))"

fun as_done :: "reply \<Rightarrow> unit option" where
  "as_done Reply_done = Some ()"
| "as_done _ = None"

fun as_User :: "reply \<Rightarrow> User option" where
  "as_User (Reply_User u) = Some u"
| "as_User _ = None"

fun as_Reference :: "reply \<Rightarrow> Reference option" where
  "as_Reference (Reply_Reference r) = Some r"
| "as_Reference _ = None"

fun as_Repository :: "reply \<Rightarrow> Repository option" where
  "as_Repository (Reply_Repository r) = Some r"
| "as_Repository _ = None"

fun as_Contents :: "reply \<Rightarrow> RepositoryContent option option" where
  "as_Contents (Reply_Contents fc) = Some fc"
| "as_Contents _ = None"

fun as_ContentResponse :: "reply \<Rightarrow> RepositoryContentResponse option" where
  "as_ContentResponse (Reply_ContentResponse r) = Some r"
| "as_ContentResponse _ = None"

fun as_Commit :: "reply \<Rightarrow> RepositoryCommit option" where
  "as_Commit (Reply_Commit c) = Some c"
| "as_Commit _ = None"

fun as_Commits :: "reply \<Rightarrow> RepositoryCommit list option" where
  "as_Commits (Reply_Commits cs) = Some cs"
| "as_Commits _ = None"

fun as_Statuses :: "reply \<Rightarrow> RepoStatus list option" where
  "as_Statuses (Reply_Statuses ss) = Some ss"
| "as_Statuses _ = None"

fun as_PullRequest :: "reply \<Rightarrow> PullRequest option" where
  "as_PullRequest (Reply_PullRequest p) = Some p"
| "as_PullRequest _ = None"

fun as_PullRequests :: "reply \<Rightarrow> PullRequest list option" where
  "as_PullRequests (Reply_PullRequests ps) = Some ps"
| "as_PullRequests _ = None"

fun as_InstallationToken :: "reply \<Rightarrow> InstallationToken option" where
  "as_InstallationToken (Reply_InstallationToken t) = Some t"
| "as_InstallationToken _ = None"

definition scripted :: "reply list Client" where
  "scripted =
     \<lparr>Users_Get = (\<lambda>_. next_reply as_User),
      Git_GetRef = (\<lambda>_ _ _. next_reply as_Reference),
      Git_CreateRef = (\<lambda>_ _ _. next_reply as_Reference),
      Git_DeleteRef = (\<lambda>_ _ _. next_reply as_done),
      Repositories_Get = (\<lambda>_ _. next_reply as_Repository),
      Repositories_GetContents = (\<lambda>_ _ _ _. next_reply as_Contents),
      Repositories_CreateFile = (\<lambda>_ _ _ _. next_reply as_ContentResponse),
      Repositories_DeleteFile = (\<lambda>_ _ _ _. next_reply as_ContentResponse),
      Repositories_GetCommit = (\<lambda>_ _ _. next_reply as_Commit),
      Repositories_ListCommits = (\<lambda>_ _ _. next_reply as_Commits),
      Repositories_ListStatuses = (\<lambda>_ _ _. next_reply as_Statuses),
      PullRequests_Get = (\<lambda>_ _ _. next_reply as_PullRequest),
      PullRequests_List = (\<lambda>_ _ _. next_reply as_PullRequests),
      PullRequests_Edit = (\<lambda>_ _ _ _. next_reply as_PullRequest),
      PullRequests_Create = (\<lambda>_ _ _. next_reply as_PullRequest),
      PullRequests_CreateReview = (\<lambda>_ _ _ _. next_reply as_done),
      PullRequests_Merge = (\<lambda>_ _ _ _ _. next_reply as_done),
      Apps_CreateInstallationToken = (\<lambda>_. next_reply as_InstallationToken)\<rparr>"

definition start :: "reply list \<Rightarrow> reply list run" where
  "start script = \<lparr>world = script, transcript = []\<rparr>"

text \<open>
  A remote for concrete runs of Configure that shows which token a client sends: the
  request for the authenticated user is answered with the access token of the OAuth2
  transport as the login, and refused when the client has another transport; every other
  request takes the next scripted reply.
\<close>

definition client_sending :: "Transport \<Rightarrow> reply list Client" where
  "client_sending transport =
     scripted\<lparr>Users_Get :=
       (\<lambda>user script.
          case transport of
            OAuth2Transport token \<Rightarrow> (Inr \<lparr>Login = Some token\<rparr>, script)
          | _ \<Rightarrow> (Inl (ErrorResponse (Some 401) ''Requires authentication''), script))\<rparr>"

text \<open>
  A concrete environment: GITHUB\_TOKEN and the output of \<^verbatim>\<open>gh auth token\<close> are given,
  no other variable is set, trimming drops the final newline, every URL parses, the key
  file has the given contents (\<open>None\<close>: it cannot be read), every non-empty key file
  holds a PKCS1 key, signing gives the JWT "signed", and a client sends the token of its
  HTTP client.
\<close>

definition example_environment ::
  "string \<Rightarrow> string option \<Rightarrow> string option \<Rightarrow> reply list environment" where
  "example_environment github_token gh_output key_file =
     \<lparr>os_Getenv = (\<lambda>name. if name = ''GITHUB_TOKEN'' then github_token else []),
      exec_gh_auth_token = gh_output,
      strings_TrimSpace = takeWhile (\<lambda>c. c \<noteq> CHR 0x0A),
      url_Parse = (\<lambda>u. Inr \<lparr>url_Path = ''/'', url_RawQuery = [], url_rest = u\<rparr>),
      url_String = url_rest,
      url_ParseQuery = (\<lambda>q. Inr (\<lambda>key. None)),
      os_ReadFile = (\<lambda>path. case key_file of None \<Rightarrow> Inl ''no such file'' | Some pem \<Rightarrow> Inr pem),
      pem_Decode = (\<lambda>pem. if pem = [] then None else Some pem),
      x509_ParsePKCS1PrivateKey = (\<lambda>block. Inr (PrivateKey block)),
      x509_ParsePKCS8PrivateKey = (\<lambda>_. Inl ''not a key''),
      jwt_SignedString = (\<lambda>appID key. Inr ''signed''),
      github_NewClient = (\<lambda>httpClient baseURL. client_sending (http_Transport httpClient))\<rparr>"

text \<open>
  A configuration with the two token attributes and the \<^verbatim>\<open>app_auth\<close> block as given and
  nothing else set, and an \<^verbatim>\<open>app_auth\<close> block.
\<close>

definition example_config ::
  "string tf_value \<Rightarrow> string tf_value \<Rightarrow> appAuthModel option \<Rightarrow> githubxProviderModel" where
  "example_config token oauth_token app_auth =
     \<lparr>cfg_Token = token, cfg_OAuthToken = oauth_token, cfg_AppAuth = app_auth,
      cfg_BaseURL = Null, cfg_Owner = Null, cfg_Insecure = Null\<rparr>"

definition example_app_auth :: appAuthModel where
  "example_app_auth =
     \<lparr>app_ID = Known 1, app_InstallationID = Known 2, app_PEMFile = Known ''key.pem''\<rparr>"

definition new_provider_ConfigureResponse :: "'w provider_ConfigureResponse" where
  "new_provider_ConfigureResponse =
     \<lparr>provider_Diagnostics = [], ResourceData = NilData, DataSourceData = NilData\<rparr>"

text \<open>
  A file resource on the scripted remote with the owner "tfstack", the model of the file
  README.md of the repository "repo" whose blob SHA in the state is "old", and the
  replies used in the concrete runs.
\<close>

definition example_file_resource :: "reply list repositoryFileResource" where
  "example_file_resource = \<lparr>r_client = Some scripted, r_owner = ''tfstack''\<rparr>"

definition example_file :: repositoryFileResourceModel where
  "example_file =
     \<lparr>m_Repository = Known ''repo'', m_File = Known ''README.md'', m_Content = Known ''hello'',
      m_Branch = Null, m_Ref = Null, m_CommitSHA = Null, m_CommitMessage = Null,
      m_CommitAuthor = Null, m_CommitEmail = Null, m_SHA = Known ''old'',
      m_OverwriteOnCreate = Null, m_AutocreateBranch = Null, m_AutocreateBranchSource = Null,
      m_AutocreateBranchSourceSHA = Null, m_ID = Known ''repo:README.md''\<rparr>"

definition new_Response :: "repositoryFileResourceModel Response" where
  "new_Response = \<lparr>Diagnostics = [], State = None\<rparr>"

definition answer_status :: "int \<Rightarrow> reply" where
  "answer_status code = Reply_error (ErrorResponse (Some code) ''refused'')"

definition answer_file :: "string \<Rightarrow> string \<Rightarrow> reply" where
  "answer_file sha content =
     Reply_Contents (Some \<lparr>content_SHA = Some sha, content_URL = None,
                            content_GetContent = Inr content\<rparr>)"

definition answer_written :: "string \<Rightarrow> reply" where
  "answer_written sha = Reply_ContentResponse \<lparr>response_SHA = Some sha\<rparr>"

text \<open>
  The requests that these runs make for README.md: the write of Create, of Update and
  of Delete with a given SHA, and the request for the contents of the file.
\<close>

definition README_options :: "string \<Rightarrow> string \<Rightarrow> string option \<Rightarrow> RepositoryContentFileOptions" where
  "README_options message content sha =
     \<lparr>opt_Message = Some message, opt_Content = content, opt_SHA = sha, opt_Branch = None,
      opt_Author = None, opt_Committer = None\<rparr>"

definition create_request :: "string option \<Rightarrow> reply \<Rightarrow> event" where
  "create_request sha answer =
     Called (Call_Repositories_CreateFile ''tfstack'' ''repo'' ''README.md''
               (README_options ''Add README.md'' ''hello'' sha)) answer"

definition update_request :: "string option \<Rightarrow> reply \<Rightarrow> event" where
  "update_request sha answer =
     Called (Call_Repositories_CreateFile ''tfstack'' ''repo'' ''README.md''
               (README_options ''Update README.md'' ''hello'' sha)) answer"


definition contents_request :: "reply \<Rightarrow> event" where
  "contents_request answer =
     Called (Call_Repositories_GetContents ''tfstack'' ''repo'' ''README.md'' \<lparr>get_Ref = []\<rparr>) answer"

text \<open>
  A pull-request resource on the scripted remote, the plan of a pull request from the
  branch "feature" to the branch "main" of the repository "repo", and the pull request as
  the remote reports it, with a given number, state, merged flag and mergeability.
\<close>

definition example_pull_request_resource :: "reply list repositoryPullRequestResource" where
  "example_pull_request_resource = \<lparr>r_client = Some scripted, r_owner = ''tfstack''\<rparr>"


definition remote_pull_request :: "int \<Rightarrow> string \<Rightarrow> bool \<Rightarrow> bool option \<Rightarrow> PullRequest" where
  "remote_pull_request number state merged mergeable =
     \<lparr>pr_Number = Some number, pr_State = Some state, pr_Title = Some ''Add feature'',
      pr_Body = None, pr_Merged = Some merged, pr_Mergeable = mergeable,
      pr_MaintainerCanModify = Some False, pr_MergedAt = None, pr_MergeCommitSHA = None,
      pr_Head = Some \<lparr>branch_Ref = Some ''feature'', branch_SHA = Some ''h1''\<rparr>,
      pr_Base = Some \<lparr>branch_Ref = Some ''main'', branch_SHA = Some ''b1''\<rparr>\<rparr>"

definition new_pull_request_Response :: "repositoryPullRequestResourceModel Response" where
  "new_pull_request_Response = \<lparr>Diagnostics = [], State = None\<rparr>"

section \<open>Properties of splitRepoFullName\<close>

lemma Split_from_length:
  "length (Split_from cur s sep) = Suc (count_list s sep)"
  by (induction s arbitrary: cur) auto

lemma Split_from_no_sep:
  "sep \<notin> set s \<Longrightarrow> Split_from cur s sep = [cur @ s]"
  by (induction s arbitrary: cur) auto

lemma Split_from_two:
  "count_list s sep = 1 \<Longrightarrow>
   Split_from cur s sep =
     [cur @ takeWhile (\<lambda>c. c \<noteq> sep) s, tl (dropWhile (\<lambda>c. c \<noteq> sep) s)]"
proof (induction s arbitrary: cur)
  case Nil
  then show ?case by simp
next
  case (Cons x xs)
  show ?case
  proof (cases "x = sep")
    case True
    with Cons.prems have "count_list xs sep = 0" by simp
    then have "sep \<notin> set xs" by (simp add: count_list_0_iff)
    with True show ?thesis by (simp add: Split_from_no_sep)
  next
    case False
    with Cons.prems have "count_list xs sep = 1" by simp
    from Cons.IH [OF this, of "cur @ [x]"] False show ?thesis by simp
  qed
qed

lemma takeWhile_tl_dropWhile:
  "sep \<in> set s \<Longrightarrow>
   s = takeWhile (\<lambda>c. c \<noteq> sep) s @ sep # tl (dropWhile (\<lambda>c. c \<noteq> sep) s)"
  by (induction s) auto

lemma count_one_parts:
  assumes "count_list s sep = 1"
  shows "sep \<notin> set (takeWhile (\<lambda>c. c \<noteq> sep) s)"
    and "sep \<notin> set (tl (dropWhile (\<lambda>c. c \<noteq> sep) s))"
  using assms
proof (induction s)
  case Nil
  { case 1 then show ?case by simp }
  { case 2 then show ?case by simp }
next
  case (Cons x xs)
  { case 1 then show ?case using Cons.IH(1) by (auto split: if_splits) }
  { case 2 then show ?case using Cons.IH(2) by (auto simp: count_list_0_iff split: if_splits) }
qed

text \<open>
  C10. For every string \<open>s\<close>, splitRepoFullName returns without error exactly when
  splitting \<open>s\<close> on the slash yields two parts, which is exactly when \<open>s\<close> holds one
  slash; the results are then those two parts in order (the text before the slash and the
  text after it, either possibly empty, neither holding a slash); in every other case
  the result is an error with two empty strings.
\<close>

theorem splitRepoFullName_two_parts:
  "((snd (snd (splitRepoFullName s)) = None)
      = (length (strings_Split s (CHR ''/'')) = 2))
   \<and> ((length (strings_Split s (CHR ''/'')) = 2) = (count_list s (CHR ''/'') = 1))
   \<and> (length (strings_Split s (CHR ''/'')) = 2 \<longrightarrow>
        (\<exists>a b. strings_Split s (CHR ''/'') = [a, b]
           \<and> splitRepoFullName s = (a, b, None)
           \<and> s = a @ ''/'' @ b
           \<and> CHR ''/'' \<notin> set a \<and> CHR ''/'' \<notin> set b))
   \<and> (length (strings_Split s (CHR ''/'')) \<noteq> 2 \<longrightarrow>
        splitRepoFullName s = ('''', '''', Some (UnexpectedFullNameFormat s)))"
proof -
  let ?sep = "CHR ''/''"
  let ?parts = "strings_Split s ?sep"
  have len: "length ?parts = Suc (count_list s ?sep)"
    by (simp add: strings_Split_def Split_from_length)
  have c1: "(snd (snd (splitRepoFullName s)) = None) = (length ?parts = 2)"
    by (simp add: splitRepoFullName_def Let_def)
  have c2: "(length ?parts = 2) = (count_list s ?sep = 1)"
    using len by auto
  have c3: "\<exists>a b. ?parts = [a, b] \<and> splitRepoFullName s = (a, b, None)
              \<and> s = a @ ''/'' @ b \<and> ?sep \<notin> set a \<and> ?sep \<notin> set b"
    if two: "length ?parts = 2"
  proof -
    from two c2 have one: "count_list s ?sep = 1" by simp
    let ?a = "takeWhile (\<lambda>c. c \<noteq> ?sep) s"
    let ?b = "tl (dropWhile (\<lambda>c. c \<noteq> ?sep) s)"
    have parts: "?parts = [?a, ?b]"
      using Split_from_two [OF one, of "[]"] by (simp add: strings_Split_def)
    have mem: "?sep \<in> set s"
      using one count_list_0_iff [of s ?sep] by auto
    have "splitRepoFullName s = (?a, ?b, None)"
      using parts by (simp add: splitRepoFullName_def Let_def)
    moreover have "s = ?a @ ''/'' @ ?b"
      using takeWhile_tl_dropWhile [OF mem] by simp
    ultimately show ?thesis
      using parts count_one_parts [OF one] by blast
  qed
  have c4: "splitRepoFullName s = ('''', '''', Some (UnexpectedFullNameFormat s))"
    if "length ?parts \<noteq> 2"
    using that by (simp add: splitRepoFullName_def Let_def)
  from c1 c2 c3 c4 show ?thesis by blast
qed

theorem splitRepoFullName_two_parts_witness:
  "splitRepoFullName ''owner/repo'' = (''owner'', ''repo'', None)
   \<and> splitRepoFullName ''owner/repo/extra''
       = ('''', '''', Some (UnexpectedFullNameFormat ''owner/repo/extra''))
   \<and> splitRepoFullName '''' = ('''', '''', Some (UnexpectedFullNameFormat ''''))"
proof -
  have l1: "length (strings_Split ''owner/repo'' (CHR ''/'')) = 2"
    by (simp add: strings_Split_def)
  have l2: "length (strings_Split ''owner/repo/extra'' (CHR ''/'')) \<noteq> 2"
    by (simp add: strings_Split_def)
  have l3: "length (strings_Split '''' (CHR ''/'')) \<noteq> 2"
    by (simp add: strings_Split_def)
  have p1: "strings_Split ''owner/repo'' (CHR ''/'') = [''owner'', ''repo'']"
    by (simp add: strings_Split_def)
  from splitRepoFullName_two_parts [of "''owner/repo''"] l1 p1
  have "splitRepoFullName ''owner/repo'' = (''owner'', ''repo'', None)" by auto
  moreover from splitRepoFullName_two_parts [of "''owner/repo/extra''"] l2
  have "splitRepoFullName ''owner/repo/extra''
       = ('''', '''', Some (UnexpectedFullNameFormat ''owner/repo/extra''))" by blast
  moreover from splitRepoFullName_two_parts [of "''''"] l3
  have "splitRepoFullName '''' = ('''', '''', Some (UnexpectedFullNameFormat ''''))" by blast
  ultimately show ?thesis by blast
qed

section \<open>Properties of Configure\<close>

lemma Contains_Configure_Type_data_source:
  "strings_Contains ''Unexpected Data Source Configure Type'' ''Configure Type''"
  by simp

lemma Contains_Configure_Type_resource:
  "strings_Contains ''Unexpected Resource Configure Type'' ''Configure Type''"
  by simp

lemma AddError_fresh: "AddError [] summary detail = [ErrorDiagnostic summary detail]"
  by (simp add: AddError_def)

text \<open>
  C7. For each of the eight resources and data sources (user, repository, repository
  branch and repository file data sources; repository, repository branch, repository
  file and pull request resources), on a fresh response: Configure with provider data of
  another type than githubxClientData leaves the receiver as it was (a new receiver keeps
  its nil client) and the response holds exactly one diagnostic, an error whose summary
  contains "Configure Type"; Configure with nil provider data leaves the receiver and the
  empty response as they were; Configure with a githubxClientData value sets the client
  (and the owner, which the user data source does not have) and adds no diagnostic.
\<close>

theorem Configure_provider_data:
  "userDataSource_Configure d1 \<lparr>ProviderData = OtherData ty\<rparr> new_ConfigureResponse
     = (d1, \<lparr>Diagnostics = [ErrorDiagnostic ''Unexpected Data Source Configure Type''
                               (unexpected_type_detail ty)]\<rparr>)
   \<and> userDataSource_Configure d1 \<lparr>ProviderData = NilData\<rparr> new_ConfigureResponse
     = (d1, new_ConfigureResponse)
   \<and> userDataSource_Configure d1 \<lparr>ProviderData = ClientData cd\<rparr> new_ConfigureResponse
     = (d1\<lparr>r_client := data_Client cd\<rparr>, new_ConfigureResponse)
   \<and> repositoryDataSource_Configure d2 \<lparr>ProviderData = OtherData ty\<rparr> new_ConfigureResponse
     = (d2, \<lparr>Diagnostics = [ErrorDiagnostic ''Unexpected Data Source Configure Type''
                               (unexpected_type_detail ty)]\<rparr>)
   \<and> repositoryDataSource_Configure d2 \<lparr>ProviderData = NilData\<rparr> new_ConfigureResponse
     = (d2, new_ConfigureResponse)
   \<and> repositoryDataSource_Configure d2 \<lparr>ProviderData = ClientData cd\<rparr> new_ConfigureResponse
     = (d2\<lparr>r_client := data_Client cd, r_owner := data_Owner cd\<rparr>, new_ConfigureResponse)
   \<and> repositoryBranchDataSource_Configure d2 \<lparr>ProviderData = OtherData ty\<rparr> new_ConfigureResponse
     = (d2, \<lparr>Diagnostics = [ErrorDiagnostic ''Unexpected Data Source Configure Type''
                               (unexpected_type_detail ty)]\<rparr>)
   \<and> repositoryBranchDataSource_Configure d2 \<lparr>ProviderData = NilData\<rparr> new_ConfigureResponse
     = (d2, new_ConfigureResponse)
   \<and> repositoryBranchDataSource_Configure d2 \<lparr>ProviderData = ClientData cd\<rparr> new_ConfigureResponse
     = (d2\<lparr>r_client := data_Client cd, r_owner := data_Owner cd\<rparr>, new_ConfigureResponse)
   \<and> repositoryFileDataSource_Configure d2 \<lparr>ProviderData = OtherData ty\<rparr> new_ConfigureResponse
     = (d2, \<lparr>Diagnostics = [ErrorDiagnostic ''Unexpected Data Source Configure Type''
                               (unexpected_type_detail ty)]\<rparr>)
   \<and> repositoryFileDataSource_Configure d2 \<lparr>ProviderData = NilData\<rparr> new_ConfigureResponse
     = (d2, new_ConfigureResponse)
   \<and> repositoryFileDataSource_Configure d2 \<lparr>ProviderData = ClientData cd\<rparr> new_ConfigureResponse
     = (d2\<lparr>r_client := data_Client cd, r_owner := data_Owner cd\<rparr>, new_ConfigureResponse)
   \<and> repositoryBranchResource_Configure d2 \<lparr>ProviderData = OtherData ty\<rparr> new_ConfigureResponse
     = (d2, \<lparr>Diagnostics = [ErrorDiagnostic ''Unexpected Resource Configure Type''
                               (unexpected_type_detail ty)]\<rparr>)
   \<and> repositoryBranchResource_Configure d2 \<lparr>ProviderData = NilData\<rparr> new_ConfigureResponse
     = (d2, new_ConfigureResponse)
   \<and> repositoryBranchResource_Configure d2 \<lparr>ProviderData = ClientData cd\<rparr> new_ConfigureResponse
     = (d2\<lparr>r_client := data_Client cd, r_owner := data_Owner cd\<rparr>, new_ConfigureResponse)
   \<and> repositoryFileResource_Configure d2 \<lparr>ProviderData = OtherData ty\<rparr> new_ConfigureResponse
     = (d2, \<lparr>Diagnostics = [ErrorDiagnostic ''Unexpected Resource Configure Type''
                               (unexpected_type_detail ty)]\<rparr>)
   \<and> repositoryFileResource_Configure d2 \<lparr>ProviderData = NilData\<rparr> new_ConfigureResponse
     = (d2, new_ConfigureResponse)
   \<and> repositoryFileResource_Configure d2 \<lparr>ProviderData = ClientData cd\<rparr> new_ConfigureResponse
     = (d2\<lparr>r_client := data_Client cd, r_owner := data_Owner cd\<rparr>, new_ConfigureResponse)
   \<and> repositoryPullRequestResource_Configure d2 \<lparr>ProviderData = OtherData ty\<rparr> new_ConfigureResponse
     = (d2, \<lparr>Diagnostics = [ErrorDiagnostic ''Unexpected Resource Configure Type''
                               (unexpected_type_detail ty)]\<rparr>)
   \<and> repositoryPullRequestResource_Configure d2 \<lparr>ProviderData = NilData\<rparr> new_ConfigureResponse
     = (d2, new_ConfigureResponse)
   \<and> repositoryPullRequestResource_Configure d2 \<lparr>ProviderData = ClientData cd\<rparr> new_ConfigureResponse
     = (d2\<lparr>r_client := data_Client cd, r_owner := data_Owner cd\<rparr>, new_ConfigureResponse)
   \<and> repositoryResource_Configure d3 \<lparr>ProviderData = OtherData ty\<rparr> new_ConfigureResponse s
     = ((d3, \<lparr>Diagnostics = [ErrorDiagnostic ''Unexpected Resource Configure Type''
                               (unexpected_type_detail ty)]\<rparr>), s)
   \<and> repositoryResource_Configure d3 \<lparr>ProviderData = NilData\<rparr> new_ConfigureResponse s
     = ((d3, new_ConfigureResponse), s)
   \<and> r_client (fst (fst (repositoryResource_Configure d3 \<lparr>ProviderData = ClientData cd\<rparr>
                          new_ConfigureResponse s))) = data_Client cd
   \<and> r_owner (fst (fst (repositoryResource_Configure d3 \<lparr>ProviderData = ClientData cd\<rparr>
                          new_ConfigureResponse s))) = data_Owner cd
   \<and> snd (fst (repositoryResource_Configure d3 \<lparr>ProviderData = ClientData cd\<rparr>
                          new_ConfigureResponse s)) = new_ConfigureResponse
   \<and> r_client (new_userDataSource :: 'w userDataSource) = None
   \<and> r_client (new_owned :: 'w owned) = None
   \<and> r_client (new_repositoryResource :: 'w repositoryResource) = None
   \<and> strings_Contains ''Unexpected Data Source Configure Type'' ''Configure Type''
   \<and> strings_Contains ''Unexpected Resource Configure Type'' ''Configure Type''"
proof -
  have user: "userDataSource_Configure d1 \<lparr>ProviderData = OtherData ty\<rparr> new_ConfigureResponse
       = (d1, \<lparr>Diagnostics = [ErrorDiagnostic ''Unexpected Data Source Configure Type''
                                 (unexpected_type_detail ty)]\<rparr>)"
    "userDataSource_Configure d1 \<lparr>ProviderData = NilData\<rparr> new_ConfigureResponse
       = (d1, new_ConfigureResponse)"
    "userDataSource_Configure d1 \<lparr>ProviderData = ClientData cd\<rparr> new_ConfigureResponse
       = (d1\<lparr>r_client := data_Client cd\<rparr>, new_ConfigureResponse)"
    by (simp_all add: userDataSource_Configure_def new_ConfigureResponse_def AddError_fresh)
  have repo_ds: "repositoryDataSource_Configure d2 \<lparr>ProviderData = OtherData ty\<rparr> new_ConfigureResponse
       = (d2, \<lparr>Diagnostics = [ErrorDiagnostic ''Unexpected Data Source Configure Type''
                                 (unexpected_type_detail ty)]\<rparr>)"
    "repositoryDataSource_Configure d2 \<lparr>ProviderData = NilData\<rparr> new_ConfigureResponse
       = (d2, new_ConfigureResponse)"
    "repositoryDataSource_Configure d2 \<lparr>ProviderData = ClientData cd\<rparr> new_ConfigureResponse
       = (d2\<lparr>r_client := data_Client cd, r_owner := data_Owner cd\<rparr>, new_ConfigureResponse)"
    by (simp_all add: repositoryDataSource_Configure_def new_ConfigureResponse_def AddError_fresh)
  have branch_ds: "repositoryBranchDataSource_Configure d2 \<lparr>ProviderData = OtherData ty\<rparr> new_ConfigureResponse
       = (d2, \<lparr>Diagnostics = [ErrorDiagnostic ''Unexpected Data Source Configure Type''
                                 (unexpected_type_detail ty)]\<rparr>)"
    "repositoryBranchDataSource_Configure d2 \<lparr>ProviderData = NilData\<rparr> new_ConfigureResponse
       = (d2, new_ConfigureResponse)"
    "repositoryBranchDataSource_Configure d2 \<lparr>ProviderData = ClientData cd\<rparr> new_ConfigureResponse
       = (d2\<lparr>r_client := data_Client cd, r_owner := data_Owner cd\<rparr>, new_ConfigureResponse)"
    by (simp_all add: repositoryBranchDataSource_Configure_def new_ConfigureResponse_def AddError_fresh)
  have file_ds: "repositoryFileDataSource_Configure d2 \<lparr>ProviderData = OtherData ty\<rparr> new_ConfigureResponse
       = (d2, \<lparr>Diagnostics = [ErrorDiagnostic ''Unexpected Data Source Configure Type''
                                 (unexpected_type_detail ty)]\<rparr>)"
    "repositoryFileDataSource_Configure d2 \<lparr>ProviderData = NilData\<rparr> new_ConfigureResponse
       = (d2, new_ConfigureResponse)"
    "repositoryFileDataSource_Configure d2 \<lparr>ProviderData = ClientData cd\<rparr> new_ConfigureResponse
       = (d2\<lparr>r_client := data_Client cd, r_owner := data_Owner cd\<rparr>, new_ConfigureResponse)"
    by (simp_all add: repositoryFileDataSource_Configure_def new_ConfigureResponse_def AddError_fresh)
  have branch_r: "repositoryBranchResource_Configure d2 \<lparr>ProviderData = OtherData ty\<rparr> new_ConfigureResponse
       = (d2, \<lparr>Diagnostics = [ErrorDiagnostic ''Unexpected Resource Configure Type''
                                 (unexpected_type_detail ty)]\<rparr>)"
    "repositoryBranchResource_Configure d2 \<lparr>ProviderData = NilData\<rparr> new_ConfigureResponse
       = (d2, new_ConfigureResponse)"
    "repositoryBranchResource_Configure d2 \<lparr>ProviderData = ClientData cd\<rparr> new_ConfigureResponse
       = (d2\<lparr>r_client := data_Client cd, r_owner := data_Owner cd\<rparr>, new_ConfigureResponse)"
    by (simp_all add: repositoryBranchResource_Configure_def new_ConfigureResponse_def AddError_fresh)
  have file_r: "repositoryFileResource_Configure d2 \<lparr>ProviderData = OtherData ty\<rparr> new_ConfigureResponse
       = (d2, \<lparr>Diagnostics = [ErrorDiagnostic ''Unexpected Resource Configure Type''
                                 (unexpected_type_detail ty)]\<rparr>)"
    "repositoryFileResource_Configure d2 \<lparr>ProviderData = NilData\<rparr> new_ConfigureResponse
       = (d2, new_ConfigureResponse)"
    "repositoryFileResource_Configure d2 \<lparr>ProviderData = ClientData cd\<rparr> new_ConfigureResponse
       = (d2\<lparr>r_client := data_Client cd, r_owner := data_Owner cd\<rparr>, new_ConfigureResponse)"
    by (simp_all add: repositoryFileResource_Configure_def new_ConfigureResponse_def AddError_fresh)
  have pr_r: "repositoryPullRequestResource_Configure d2 \<lparr>ProviderData = OtherData ty\<rparr> new_ConfigureResponse
       = (d2, \<lparr>Diagnostics = [ErrorDiagnostic ''Unexpected Resource Configure Type''
                                 (unexpected_type_detail ty)]\<rparr>)"
    "repositoryPullRequestResource_Configure d2 \<lparr>ProviderData = NilData\<rparr> new_ConfigureResponse
       = (d2, new_ConfigureResponse)"
    "repositoryPullRequestResource_Configure d2 \<lparr>ProviderData = ClientData cd\<rparr> new_ConfigureResponse
       = (d2\<lparr>r_client := data_Client cd, r_owner := data_Owner cd\<rparr>, new_ConfigureResponse)"
    by (simp_all add: repositoryPullRequestResource_Configure_def new_ConfigureResponse_def
        AddError_fresh)
  have repo_r: "repositoryResource_Configure d3 \<lparr>ProviderData = OtherData ty\<rparr> new_ConfigureResponse s
       = ((d3, \<lparr>Diagnostics = [ErrorDiagnostic ''Unexpected Resource Configure Type''
                                 (unexpected_type_detail ty)]\<rparr>), s)"
    "repositoryResource_Configure d3 \<lparr>ProviderData = NilData\<rparr> new_ConfigureResponse s
       = ((d3, new_ConfigureResponse), s)"
    by (simp_all add: repositoryResource_Configure_def new_ConfigureResponse_def AddError_fresh)
  have repo_set:
    "r_client (fst (fst (repositoryResource_Configure d3 \<lparr>ProviderData = ClientData cd\<rparr>
                          new_ConfigureResponse s))) = data_Client cd"
    "r_owner (fst (fst (repositoryResource_Configure d3 \<lparr>ProviderData = ClientData cd\<rparr>
                          new_ConfigureResponse s))) = data_Owner cd"
    "snd (fst (repositoryResource_Configure d3 \<lparr>ProviderData = ClientData cd\<rparr>
                          new_ConfigureResponse s)) = new_ConfigureResponse"
    by (simp_all add: repositoryResource_Configure_def Let_def
        split: option.splits prod.splits sum.splits)
  have fresh: "r_client (new_userDataSource :: 'w userDataSource) = None"
    "r_client (new_owned :: 'w owned) = None"
    "r_client (new_repositoryResource :: 'w repositoryResource) = None"
    by (simp_all add: new_userDataSource_def new_owned_def new_repositoryResource_def)
  show ?thesis
    by (intro conjI user repo_ds branch_ds file_ds branch_r file_r pr_r repo_r repo_set fresh
        Contains_Configure_Type_data_source Contains_Configure_Type_resource)
qed

section \<open>Properties of the provider's Configure\<close>

lemma Append_Nil_diags: "Append ds [] = ds"
  by simp

lemma token_steps:
  "(let token = a;
        token = (if token = [] then b else token);
        token = (if token = [] then c else token);
        token = (if token = [] then (let ghToken = d in if ghToken \<noteq> [] then ghToken else token)
                 else token)
    in f token) = f (first_non_empty [a, b, c, d])"
  by (simp add: Let_def)

lemma url_steps:
  "(let baseURLStr = a;
        baseURLStr = (if baseURLStr = [] then b else baseURLStr);
        baseURLStr = (if baseURLStr = [] then ''https://api.github.com/'' else baseURLStr)
    in g baseURLStr) = g (first_non_empty [a, b, ''https://api.github.com/''])"
  by (simp add: Let_def)

lemma Configure_client_no_token:
  "provider_Diagnostics (fst (Configure_client env config baseURL [] resp s))
     = provider_Diagnostics resp"
  "ResourceData (fst (Configure_client env config baseURL [] resp s))
     = ClientData \<lparr>data_Client = Some (github_NewClient env (Configure_httpClient env config [])
                       (if url_String env baseURL \<noteq> default_base_url then Some baseURL else None)),
                    data_Owner = first_non_empty [ValueString (cfg_Owner config),
                                                  os_Getenv env ''GITHUB_OWNER'']\<rparr>"
  "snd (Configure_client env config baseURL [] resp s) = s"
  by (simp_all add: Configure_client_def Let_def)

lemma Configure_httpClient_no_token:
  "http_Transport (Configure_httpClient env config []) \<noteq> OAuth2Transport t"
  by (simp add: Configure_httpClient_def Let_def)

text \<open>
  C9. When the configuration decodes without error and the base URL parses, Configure
  builds the client from the first non-empty value among the token attribute, the
  oauth\_token attribute, GITHUB\_TOKEN and the GitHub CLI token; getGitHubAppToken is
  run only when these four are empty and the app\_auth block is present: if it reports
  an error, Configure ends with that error and the provider data is left as it was,
  otherwise the client is built from the first non-empty value of the five. The client
  built from the empty token adds no diagnostic and makes no request, the provider data
  holds it, and the transport of its HTTP client is not the OAuth2 transport.
\<close>

theorem provider_Configure_token_order:
  assumes decoded: "Config_Get req = (get_diags, config)"
    and no_error: "\<not> HasError (Append (provider_Diagnostics resp0) get_diags)"
    and parsed: "url_Parse env (first_non_empty [ValueString (cfg_BaseURL config),
                   os_Getenv env ''GITHUB_BASE_URL'', ''https://api.github.com/'']) = Inr parsed"
    and resp: "resp = resp0\<lparr>provider_Diagnostics := Append (provider_Diagnostics resp0) get_diags\<rparr>"
    and baseURL: "baseURL = (if \<not> strings_HasSuffix (url_Path parsed) ''/''
                            then parsed\<lparr>url_Path := url_Path parsed @ ''/''\<rparr> else parsed)"
    and four: "four = [ValueString (cfg_Token config), ValueString (cfg_OAuthToken config),
                       os_Getenv env ''GITHUB_TOKEN'', getGitHubCLIToken env]"
  shows "(first_non_empty four \<noteq> [] \<or> cfg_AppAuth config = None \<longrightarrow>
            provider_Configure env req resp0 s
              = Configure_client env config baseURL (first_non_empty four) resp s)
       \<and> (\<forall>appAuth appToken appDiags s1.
            first_non_empty four = [] \<and> cfg_AppAuth config = Some appAuth
            \<and> getGitHubAppToken env appAuth baseURL s = ((appToken, appDiags), s1) \<longrightarrow>
            provider_Configure env req resp0 s
              = (if HasError appDiags
                 then (resp\<lparr>provider_Diagnostics := Append (provider_Diagnostics resp) appDiags\<rparr>, s1)
                 else Configure_client env config baseURL
                        (first_non_empty (four @ [appToken])) resp s1))
       \<and> (\<forall>s'. provider_Diagnostics (fst (Configure_client env config baseURL [] resp s'))
                  = provider_Diagnostics resp
              \<and> snd (Configure_client env config baseURL [] resp s') = s'
              \<and> (\<exists>c owner. ResourceData (fst (Configure_client env config baseURL [] resp s'))
                    = ClientData \<lparr>data_Client = Some c, data_Owner = owner\<rparr>
                  \<and> c = github_NewClient env (Configure_httpClient env config [])
                          (if url_String env baseURL \<noteq> default_base_url then Some baseURL else None)))
       \<and> (\<forall>t. http_Transport (Configure_httpClient env config []) \<noteq> OAuth2Transport t)"
proof -
  let ?tok = "ValueString (cfg_Token config)"
  let ?oauth = "ValueString (cfg_OAuthToken config)"
  let ?envtok = "os_Getenv env ''GITHUB_TOKEN''"
  let ?cli = "getGitHubCLIToken env"
  let ?t4 = "first_non_empty four"
  have t4: "?t4 = first_non_empty [?tok, ?oauth, ?envtok, ?cli]"
    by (simp only: four)
  have unfold: "provider_Configure env req resp0 s =
      (case (if ?t4 = [] then cfg_AppAuth config else None) of
         Some appAuth \<Rightarrow>
           (case getGitHubAppToken env appAuth baseURL s of
              ((appToken, appDiags), s1) \<Rightarrow>
                if HasError appDiags then
                  (resp\<lparr>provider_Diagnostics := Append (provider_Diagnostics resp) appDiags\<rparr>, s1)
                else Configure_client env config baseURL
                       (if appToken \<noteq> [] then appToken else ?t4) resp s1)
       | None \<Rightarrow> Configure_client env config baseURL ?t4 resp s)"
    unfolding provider_Configure_def decoded token_steps url_steps t4
    using no_error parsed
    by (simp add: resp [symmetric] baseURL [symmetric] del: first_non_empty.simps)
  have c1: "provider_Configure env req resp0 s = Configure_client env config baseURL ?t4 resp s"
    if "?t4 \<noteq> [] \<or> cfg_AppAuth config = None"
    using that unfold by (auto split: option.splits)
  have c2: "provider_Configure env req resp0 s
              = (if HasError appDiags
                 then (resp\<lparr>provider_Diagnostics := Append (provider_Diagnostics resp) appDiags\<rparr>, s1)
                 else Configure_client env config baseURL
                        (first_non_empty (four @ [appToken])) resp s1)"
    if "?t4 = []" "cfg_AppAuth config = Some appAuth"
       "getGitHubAppToken env appAuth baseURL s = ((appToken, appDiags), s1)"
    for appAuth appToken appDiags s1
  proof -
    from that(1) have "first_non_empty (four @ [appToken]) = (if appToken \<noteq> [] then appToken else [])"
      by (simp add: four split: if_splits)
    with that unfold show ?thesis by simp
  qed
  have g1: "?t4 \<noteq> [] \<or> cfg_AppAuth config = None \<longrightarrow>
            provider_Configure env req resp0 s = Configure_client env config baseURL ?t4 resp s"
    using c1 by blast
  have g2: "\<forall>appAuth appToken appDiags s1.
            ?t4 = [] \<and> cfg_AppAuth config = Some appAuth
            \<and> getGitHubAppToken env appAuth baseURL s = ((appToken, appDiags), s1) \<longrightarrow>
            provider_Configure env req resp0 s
              = (if HasError appDiags
                 then (resp\<lparr>provider_Diagnostics := Append (provider_Diagnostics resp) appDiags\<rparr>, s1)
                 else Configure_client env config baseURL
                        (first_non_empty (four @ [appToken])) resp s1)"
    using c2 by blast
  have g3: "\<forall>s'. provider_Diagnostics (fst (Configure_client env config baseURL [] resp s'))
                  = provider_Diagnostics resp
              \<and> snd (Configure_client env config baseURL [] resp s') = s'
              \<and> (\<exists>c owner. ResourceData (fst (Configure_client env config baseURL [] resp s'))
                    = ClientData \<lparr>data_Client = Some c, data_Owner = owner\<rparr>
                  \<and> c = github_NewClient env (Configure_httpClient env config [])
                          (if url_String env baseURL \<noteq> default_base_url then Some baseURL else None))"
    by (simp add: Configure_client_no_token)
  have g4: "\<forall>t. http_Transport (Configure_httpClient env config []) \<noteq> OAuth2Transport t"
    by (simp add: Configure_httpClient_no_token)
  show ?thesis
    by (rule conjI [OF g1 conjI [OF g2 conjI [OF g3 g4]]])
qed

text \<open>
  Four runs on the remote that shows the token: oauth\_token wins over GITHUB\_TOKEN, the
  GitHub CLI and a usable app\_auth block; the GitHub CLI token is used when nothing comes
  before it; the installation token is requested and used when the four are empty; and
  with nothing at all the client sends no token.
\<close>

theorem provider_Configure_token_order_witness:
  "provider_Configure (example_environment ''from-env'' (Some ''from-gh'') (Some ''key''))
      \<lparr>Config_Get = ([], example_config Null (Known ''from-oauth'') (Some example_app_auth))\<rparr>
      new_provider_ConfigureResponse (start [Reply_InstallationToken \<lparr>Token = Some ''from-app''\<rparr>])
    = (\<lparr>provider_Diagnostics = [],
        ResourceData = ClientData \<lparr>data_Client = Some (client_sending (OAuth2Transport ''from-oauth'')),
                                   data_Owner = ''from-oauth''\<rparr>,
        DataSourceData = ClientData \<lparr>data_Client = Some (client_sending (OAuth2Transport ''from-oauth'')),
                                     data_Owner = ''from-oauth''\<rparr>\<rparr>,
       \<lparr>world = [Reply_InstallationToken \<lparr>Token = Some ''from-app''\<rparr>],
        transcript = [Called (Call_Users_Get []) (Reply_User \<lparr>Login = Some ''from-oauth''\<rparr>)]\<rparr>)
   \<and> provider_Configure (example_environment [] (Some ''from-gh'') None)
      \<lparr>Config_Get = ([], example_config Null Null None)\<rparr>
      new_provider_ConfigureResponse (start [])
    = (\<lparr>provider_Diagnostics = [],
        ResourceData = ClientData \<lparr>data_Client = Some (client_sending (OAuth2Transport ''from-gh'')),
                                   data_Owner = ''from-gh''\<rparr>,
        DataSourceData = ClientData \<lparr>data_Client = Some (client_sending (OAuth2Transport ''from-gh'')),
                                     data_Owner = ''from-gh''\<rparr>\<rparr>,
       \<lparr>world = [],
        transcript = [Called (Call_Users_Get []) (Reply_User \<lparr>Login = Some ''from-gh''\<rparr>)]\<rparr>)
   \<and> provider_Configure (example_environment [] None (Some ''key''))
      \<lparr>Config_Get = ([], example_config Null Null (Some example_app_auth))\<rparr>
      new_provider_ConfigureResponse (start [Reply_InstallationToken \<lparr>Token = Some ''from-app''\<rparr>])
    = (\<lparr>provider_Diagnostics = [],
        ResourceData = ClientData \<lparr>data_Client = Some (client_sending (OAuth2Transport ''from-app'')),
                                   data_Owner = ''from-app''\<rparr>,
        DataSourceData = ClientData \<lparr>data_Client = Some (client_sending (OAuth2Transport ''from-app'')),
                                     data_Owner = ''from-app''\<rparr>\<rparr>,
       \<lparr>world = [],
        transcript = [Called (Call_Apps_CreateInstallationToken 2)
                        (Reply_InstallationToken \<lparr>Token = Some ''from-app''\<rparr>),
                      Called (Call_Users_Get []) (Reply_User \<lparr>Login = Some ''from-app''\<rparr>)]\<rparr>)
   \<and> provider_Configure (example_environment [] None None)
      \<lparr>Config_Get = ([], example_config Null Null None)\<rparr>
      new_provider_ConfigureResponse (start [])
    = (\<lparr>provider_Diagnostics = [],
        ResourceData = ClientData \<lparr>data_Client = Some (client_sending DefaultTransport),
                                   data_Owner = []\<rparr>,
        DataSourceData = ClientData \<lparr>data_Client = Some (client_sending DefaultTransport),
                                     data_Owner = []\<rparr>\<rparr>,
       start [])"
proof -
  let ?url = "\<lparr>url_Path = ''/'', url_RawQuery = [], url_rest = ''https://api.github.com/''\<rparr>"
  let ?app = "Reply_InstallationToken \<lparr>Token = Some ''from-app''\<rparr>"
  note defs = example_environment_def example_config_def example_app_auth_def
    new_provider_ConfigureResponse_def HasError_def strings_HasSuffix_def getGitHubCLIToken_def
  note run = Configure_client_def Configure_httpClient_def client_sending_def scripted_def
    invoke_def start_def default_base_url_def GetString_def Let_def
  have a: "provider_Configure (example_environment ''from-env'' (Some ''from-gh'') (Some ''key''))
      \<lparr>Config_Get = ([], example_config Null (Known ''from-oauth'') (Some example_app_auth))\<rparr>
      new_provider_ConfigureResponse (start [?app])
    = Configure_client (example_environment ''from-env'' (Some ''from-gh'') (Some ''key''))
        (example_config Null (Known ''from-oauth'') (Some example_app_auth)) ?url
        ''from-oauth'' new_provider_ConfigureResponse (start [?app])"
    using provider_Configure_token_order
      [of "\<lparr>Config_Get = ([], example_config Null (Known ''from-oauth'') (Some example_app_auth))\<rparr>"
          "[]" "example_config Null (Known ''from-oauth'') (Some example_app_auth)"
          new_provider_ConfigureResponse
          "example_environment ''from-env'' (Some ''from-gh'') (Some ''key'')" ?url
          new_provider_ConfigureResponse ?url
          "[[], ''from-oauth'', ''from-env'', ''from-gh'']" "start [?app]"]
    by (simp add: defs)
  have b: "provider_Configure (example_environment [] (Some ''from-gh'') None)
      \<lparr>Config_Get = ([], example_config Null Null None)\<rparr>
      new_provider_ConfigureResponse (start [])
    = Configure_client (example_environment [] (Some ''from-gh'') None)
        (example_config Null Null None) ?url
        ''from-gh'' new_provider_ConfigureResponse (start [])"
    using provider_Configure_token_order
      [of "\<lparr>Config_Get = ([], example_config Null Null None)\<rparr>" "[]"
          "example_config Null Null None" new_provider_ConfigureResponse
          "example_environment [] (Some ''from-gh'') None" ?url
          new_provider_ConfigureResponse ?url
          "[[], [], [], ''from-gh'']" "start []"]
    by (simp add: defs)
  have app: "getGitHubAppToken (example_environment [] None (Some ''key'')) example_app_auth ?url
               (start [?app])
     = ((''from-app'', []),
        \<lparr>world = [], transcript = [Called (Call_Apps_CreateInstallationToken 2) ?app]\<rparr>)"
    by (simp add: getGitHubAppToken_def defs run next_reply_def AddError_def)
  have c: "provider_Configure (example_environment [] None (Some ''key''))
      \<lparr>Config_Get = ([], example_config Null Null (Some example_app_auth))\<rparr>
      new_provider_ConfigureResponse (start [?app])
    = Configure_client (example_environment [] None (Some ''key''))
        (example_config Null Null (Some example_app_auth)) ?url
        ''from-app'' new_provider_ConfigureResponse
        \<lparr>world = [], transcript = [Called (Call_Apps_CreateInstallationToken 2) ?app]\<rparr>"
    using provider_Configure_token_order
      [of "\<lparr>Config_Get = ([], example_config Null Null (Some example_app_auth))\<rparr>" "[]"
          "example_config Null Null (Some example_app_auth)" new_provider_ConfigureResponse
          "example_environment [] None (Some ''key'')" ?url
          new_provider_ConfigureResponse ?url
          "[[], [], [], []]" "start [?app]"] app
    by (simp add: defs)
  have d: "provider_Configure (example_environment [] None None)
      \<lparr>Config_Get = ([], example_config Null Null None)\<rparr>
      new_provider_ConfigureResponse (start [])
    = Configure_client (example_environment [] None None)
        (example_config Null Null None) ?url
        [] new_provider_ConfigureResponse (start [])"
    using provider_Configure_token_order
      [of "\<lparr>Config_Get = ([], example_config Null Null None)\<rparr>" "[]"
          "example_config Null Null None" new_provider_ConfigureResponse
          "example_environment [] None None" ?url
          new_provider_ConfigureResponse ?url
          "[[], [], [], []]" "start []"]
    by (simp add: defs)
  show ?thesis
    unfolding a b c d by (simp add: defs run)
qed

text \<open>
  The reading of C9 in which empty token sources always give an unauthenticated client
  does not hold: with no token attribute, no oauth\_token, no GITHUB\_TOKEN, no GitHub CLI
  and an app\_auth block whose key file cannot be read, no token is found by any of the
  five sources, and Configure ends with an error diagnostic and sets no client.
\<close>

theorem provider_Configure_no_token_error:
  "provider_Configure (example_environment [] None None)
      \<lparr>Config_Get = ([], example_config Null Null (Some example_app_auth))\<rparr>
      new_provider_ConfigureResponse (start [])
    = (\<lparr>provider_Diagnostics =
          [ErrorDiagnostic ''Failed to Read PEM File''
             ''Unable to read GitHub App private key file: no such file''],
        ResourceData = NilData, DataSourceData = NilData\<rparr>,
       start [])"
  by (simp add: provider_Configure_def getGitHubAppToken_def example_environment_def
      example_config_def example_app_auth_def new_provider_ConfigureResponse_def HasError_def
      strings_HasSuffix_def getGitHubCLIToken_def AddError_def start_def Let_def)

section \<open>Loops\<close>

lemma for_loop_rule:
  assumes "I attempt st"
    and "attempt \<le> limit"
    and continue: "\<And>a st st'. a < limit \<Longrightarrow> I a st \<Longrightarrow> body st = (Continue, st') \<Longrightarrow> I (Suc a) st'"
    and break: "\<And>a st st'. a < limit \<Longrightarrow> I a st \<Longrightarrow> body st = (Break, st') \<Longrightarrow> Q Broken st'"
    and return: "\<And>a st st'. a < limit \<Longrightarrow> I a st \<Longrightarrow> body st = (Return, st') \<Longrightarrow> Q Returned st'"
    and exhausted: "\<And>st. I limit st \<Longrightarrow> Q Exhausted st"
  shows "Q (fst (for_loop limit body attempt st)) (snd (for_loop limit body attempt st))"
  using assms(1,2)
proof (induction "limit - attempt" arbitrary: attempt st)
  case 0
  then have "attempt = limit" by simp
  with "0.prems" have "I limit st" by simp
  then have "Q Exhausted st" by (rule exhausted)
  moreover have "for_loop limit body attempt st = (Exhausted, st)"
    using \<open>attempt = limit\<close> by (subst for_loop.simps) simp
  ultimately show ?case by simp
next
  case (Suc n)
  then have less: "attempt < limit" by simp
  obtain ctl st' where b: "body st = (ctl, st')" by (cases "body st")
  show ?case
  proof (cases ctl)
    case Continue
    with b less Suc.prems continue have "I (Suc attempt) st'" by blast
    moreover from less have "Suc attempt \<le> limit" by simp
    moreover from Suc.hyps(2) have "n = limit - Suc attempt" by simp
    ultimately have "Q (fst (for_loop limit body (Suc attempt) st'))
                       (snd (for_loop limit body (Suc attempt) st'))"
      using Suc.hyps(1) by blast
    with less b Continue show ?thesis by (simp add: for_loop.simps [of limit body attempt])
  next
    case Break
    with b less Suc.prems break have "Q Broken st'" by blast
    with less b Break show ?thesis by (simp add: for_loop.simps [of limit body attempt])
  next
    case Return
    with b less Suc.prems return have "Q Returned st'" by blast
    with less b Return show ?thesis by (simp add: for_loop.simps [of limit body attempt])
  qed
qed

section \<open>Transcripts\<close>

lemma no_writes_Nil [simp]: "no_writes []"
  by (simp add: no_writes_def)

lemma no_writes_append [simp]: "no_writes (A @ B) = (no_writes A \<and> no_writes B)"
  by (auto simp: no_writes_def)

lemma no_writes_Cons [simp]: "no_writes (e # B) = (\<not> is_write e \<and> no_writes B)"
  by (auto simp: no_writes_def)

lemma no_writes_filter: "no_writes T \<Longrightarrow> filter is_write T = []"
  by (induction T) auto

lemma quiet_refl [simp]: "quiet s s"
  by (simp add: quiet_def)

lemma quiet_trans: "quiet s s1 \<Longrightarrow> quiet s1 s2 \<Longrightarrow> quiet s s2"
  by (auto simp: quiet_def)

lemma invoke_transcript:
  "invoke c wrap method s = (outcome, s') \<Longrightarrow>
   transcript s' = transcript s
      @ [Called c (case outcome of Inl e \<Rightarrow> Reply_error e | Inr v \<Rightarrow> wrap v)]"
  by (auto simp: invoke_def split: prod.splits)

lemma invoke_quiet:
  "invoke c wrap method s = (outcome, s') \<Longrightarrow> \<not> is_write_call c \<Longrightarrow> quiet s s'"
  by (auto simp: quiet_def dest!: invoke_transcript)

lemma snoc_split:
  "(T @ [e] = pre @ w # post) =
     ((post = [] \<and> pre = T \<and> w = e) \<or> (\<exists>post'. post = post' @ [e] \<and> T = pre @ w # post'))"
  by (cases post rule: rev_cases) auto

lemma disciplined_no_writes: "no_writes T \<Longrightarrow> retries_disciplined strict T"
  by (auto simp: retries_disciplined_def)

lemma disciplined_snoc_quiet:
  assumes "retries_disciplined strict T" and "\<not> is_write e"
  shows "retries_disciplined strict (T @ [e])"
  unfolding retries_disciplined_def
proof (intro allI impI)
  fix pre w post
  assume a: "T @ [e] = pre @ w # post \<and> is_write w \<and> \<not> no_writes pre"
  then have "(post = [] \<and> pre = T \<and> w = e) \<or> (\<exists>post'. post = post' @ [e] \<and> T = pre @ w # post')"
    by (simp add: snoc_split)
  with a assms(2) obtain post' where "T = pre @ w # post'" by auto
  with a assms(1) show "\<exists>pre' w0 g. pre = pre' @ [w0, g] \<and> retry_after strict w0 g w"
    unfolding retries_disciplined_def by blast
qed

lemma disciplined_append_quiet:
  "retries_disciplined strict T \<Longrightarrow> no_writes Q \<Longrightarrow> retries_disciplined strict (T @ Q)"
proof (induction Q rule: rev_induct)
  case Nil
  then show ?case by simp
next
  case (snoc e Q)
  then have "retries_disciplined strict ((T @ Q) @ [e])"
    by (intro disciplined_snoc_quiet) auto
  then show ?case by simp
qed

lemma disciplined_snoc_first:
  assumes "no_writes T"
  shows "retries_disciplined strict (T @ [w])"
  unfolding retries_disciplined_def
proof (intro allI impI)
  fix pre x post
  assume a: "T @ [w] = pre @ x # post \<and> is_write x \<and> \<not> no_writes pre"
  then have "(post = [] \<and> pre = T \<and> x = w) \<or> (\<exists>post'. post = post' @ [w] \<and> T = pre @ x # post')"
    by (simp add: snoc_split)
  with a assms have False by auto
  then show "\<exists>pre' w0 g. pre = pre' @ [w0, g] \<and> retry_after strict w0 g x" ..
qed

lemma disciplined_snoc_retry:
  assumes "retries_disciplined strict (T @ [w0, g])" and "retry_after strict w0 g w"
  shows "retries_disciplined strict (T @ [w0, g, w])"
  unfolding retries_disciplined_def
proof (intro allI impI)
  fix pre x post
  assume a: "T @ [w0, g, w] = pre @ x # post \<and> is_write x \<and> \<not> no_writes pre"
  have "T @ [w0, g, w] = (T @ [w0, g]) @ [w]" by simp
  with a have "(post = [] \<and> pre = T @ [w0, g] \<and> x = w)
             \<or> (\<exists>post'. post = post' @ [w] \<and> T @ [w0, g] = pre @ x # post')"
    by (metis snoc_split)
  then show "\<exists>pre' w0 g. pre = pre' @ [w0, g] \<and> retry_after strict w0 g x"
  proof
    assume "post = [] \<and> pre = T @ [w0, g] \<and> x = w"
    with assms(2) show ?thesis by blast
  next
    assume "\<exists>post'. post = post' @ [w] \<and> T @ [w0, g] = pre @ x # post'"
    with a assms(1) show ?thesis unfolding retries_disciplined_def by blast
  qed
qed

section \<open>The helpers of the file resource make no write request\<close>

lemma invoke_read:
  "invoke c wrap method s = (outcome, s') \<Longrightarrow> is_write_call c \<or> quiet s s'"
  using invoke_quiet by blast

lemma getOwner_quiet: "getOwner c r s = (res, s') \<Longrightarrow> quiet s s'"
  by (auto simp: getOwner_def split: if_splits prod.splits sum.splits option.splits
      dest!: invoke_read)

lemma checkRepositoryBranchExists_quiet:
  "checkRepositoryBranchExists c owner repo branch s = (res, s') \<Longrightarrow> quiet s s'"
  by (auto simp: checkRepositoryBranchExists_def Let_def split: prod.splits sum.splits
      dest!: invoke_read)

lemma checkAndCreateBranchIfNeeded_quiet:
  "checkAndCreateBranchIfNeeded c owner repo model diags s = (res, s') \<Longrightarrow> quiet s s'"
  unfolding checkAndCreateBranchIfNeeded_def Let_def
  by (auto split: if_splits prod.splits sum.splits option.splits
      dest!: invoke_read checkRepositoryBranchExists_quiet intro: quiet_trans)

lemma getFileCommit_quiet:
  "getFileCommit c owner repo file ref s = (res, s') \<Longrightarrow> quiet s s'"
  unfolding getFileCommit_def Let_def
  by (auto split: if_splits prod.splits sum.splits list.splits
      dest!: invoke_read intro: quiet_trans)

lemma readFile_commit_quiet:
  "readFile_commit c owner repoName filePath model diags s = (res, s') \<Longrightarrow> quiet s s'"
  unfolding readFile_commit_def Let_def
  by (auto split: if_splits prod.splits sum.splits option.splits
      dest!: invoke_read getFileCommit_quiet intro: quiet_trans)

lemma readFile_quiet:
  "readFile env c owner repoName filePath model diags s = (res, s') \<Longrightarrow> quiet s s'"
  unfolding readFile_def Let_def
  by (auto split: if_splits prod.splits sum.splits option.splits list.splits
      dest!: invoke_read readFile_commit_quiet intro: quiet_trans)


lemma only_last:
  assumes "\<forall>e \<in> set (butlast T). \<not> P e" and "T = pre @ x # post" and "P x"
  shows "post = []"
proof (rule ccontr)
  assume "post \<noteq> []"
  then have "butlast T = pre @ x # butlast post" using assms(2) by (simp add: butlast_append)
  then have "x \<in> set (butlast T)" by simp
  with assms(1,3) show False by blast
qed

lemma invokeE:
  assumes "invoke c wrap method s = (outcome, s')"
  obtains "transcript s' = transcript s
      @ [Called c (case outcome of Inl e \<Rightarrow> Reply_error e | Inr v \<Rightarrow> wrap v)]"
  using assms invoke_transcript by blast

section \<open>The retry loop of Update\<close>

lemma Update_attempt_Break:
  assumes "Update_attempt c owner repoName filePath plan st = (Break, st')"
  shows "(\<exists>create. transcript (rs_run st') = transcript (rs_run st)
              @ [Called (Call_Repositories_CreateFile owner repoName filePath (rs_opts st))
                   (Reply_ContentResponse create)]
            \<and> rs_err st' = None \<and> rs_create st' = Some create)
       \<or> (\<exists>err. \<not> StatusCode_is err StatusConflict
            \<and> transcript (rs_run st') = transcript (rs_run st)
              @ [Called (Call_Repositories_CreateFile owner repoName filePath (rs_opts st))
                   (Reply_error err)]
            \<and> rs_err st' = Some err \<and> rs_create st' = None)
       \<or> (\<exists>err fetched. StatusCode_is err StatusConflict
            \<and> transcript (rs_run st') = transcript (rs_run st)
              @ [Called (Call_Repositories_CreateFile owner repoName filePath (rs_opts st))
                   (Reply_error err),
                 Called (Call_Repositories_GetContents owner repoName filePath
                   (branch_GetOptions plan)) fetched]
            \<and> rs_err st' = Some err \<and> rs_create st' = None)"
    and "rs_Diagnostics st' = rs_Diagnostics st"
  using assms
  by (auto simp: Update_attempt_def Let_def
      split: prod.splits sum.splits if_splits option.splits elim!: invokeE)

lemma Update_attempt_Continue:
  assumes "Update_attempt c owner repoName filePath plan st = (Continue, st')"
  shows "\<exists>err fc. StatusCode_is err StatusConflict
            \<and> transcript (rs_run st') = transcript (rs_run st)
              @ [Called (Call_Repositories_CreateFile owner repoName filePath (rs_opts st))
                   (Reply_error err),
                 Called (Call_Repositories_GetContents owner repoName filePath
                   (branch_GetOptions plan)) (Reply_Contents (Some fc))]
            \<and> rs_opts st' = (rs_opts st)\<lparr>opt_SHA := Some (GetString (content_SHA fc))\<rparr>
            \<and> rs_err st' = Some err \<and> rs_create st' = None
            \<and> rs_Diagnostics st' = rs_Diagnostics st"
  using assms
  by (auto simp: Update_attempt_def Let_def
      split: prod.splits sum.splits if_splits option.splits elim!: invokeE)

lemma Update_attempt_Return:
  "Update_attempt c owner repoName filePath plan st \<noteq> (Return, st')"
  by (auto simp: Update_attempt_def Let_def
      split: prod.splits sum.splits if_splits option.splits)

lemma answered_conflict_write [simp]:
  "answered_conflict (Called c (Reply_error err)) = StatusCode_is err StatusConflict"
  by (simp add: answered_conflict_def)

lemma failed_otherwise_simps [simp]:
  "failed_otherwise (Called c (Reply_error err))
     = (is_write_call c \<and> \<not> StatusCode_is err StatusConflict)"
  "failed_otherwise (Called c (Reply_ContentResponse cr)) = False"
  "failed_otherwise (Called c (Reply_Contents fc)) = False"
  by (simp_all add: failed_otherwise_def)

lemma failed_otherwise_write: "failed_otherwise e \<Longrightarrow> is_write e"
  by (auto simp: failed_otherwise_def split: event.splits reply.splits)

lemma retry_after_CreateFile:
  "StatusCode_is err StatusConflict \<Longrightarrow>
   retry_after strict
     (Called (Call_Repositories_CreateFile owner repo path opts) (Reply_error err))
     (Called (Call_Repositories_GetContents owner repo path getOpts) (Reply_Contents (Some fc)))
     (Called (Call_Repositories_CreateFile owner repo path
        (opts\<lparr>opt_SHA := Some (GetString (content_SHA fc))\<rparr>)) answer)"
  unfolding retry_after_def
  by (intro exI [of _ owner] exI [of _ repo] exI [of _ path] exI [of _ opts] exI [of _ err]
      exI [of _ getOpts] exI [of _ "Reply_Contents (Some fc)"]
      exI [of _ "opts\<lparr>opt_SHA := Some (GetString (content_SHA fc))\<rparr>"] exI [of _ answer]) simp

lemma Update_loop:
  assumes quiet0: "no_writes (transcript (rs_run st0))"
    and loop: "for_loop maxRetries (Update_attempt c owner repoName filePath plan) 0 st0 = (left, st)"
  shows "\<exists>T. transcript (rs_run st) = transcript (rs_run st0) @ T
           \<and> length (filter is_write T) \<le> maxRetries
           \<and> retries_disciplined True (transcript (rs_run st))
           \<and> (\<exists>answer rest. T = Called (Call_Repositories_CreateFile owner repoName filePath
                                          (rs_opts st0)) answer # rest)
           \<and> rs_Diagnostics st = rs_Diagnostics st0
           \<and> (\<forall>e \<in> set (butlast T). \<not> failed_otherwise e)
           \<and> (\<forall>e. failed_otherwise e \<and> T \<noteq> [] \<and> last T = e \<longrightarrow>
                 (\<exists>cl err. e = Called cl (Reply_error err) \<and> rs_err st = Some err))
           \<and> (rs_err st = None \<longrightarrow>
                 (\<exists>opts create. rs_create st = Some create
                    \<and> last T = Called (Call_Repositories_CreateFile owner repoName filePath opts)
                                 (Reply_ContentResponse create)))
           \<and> (\<forall>err. rs_err st = Some err \<longrightarrow>
                 (\<exists>opts. last (filter is_write T)
                    = Called (Call_Repositories_CreateFile owner repoName filePath opts)
                        (Reply_error err)))"
proof -
  let ?B = "transcript (rs_run st0)"
  let ?W = "\<lambda>opts answer. Called (Call_Repositories_CreateFile owner repoName filePath opts) answer"
  let ?G = "\<lambda>fetched. Called (Call_Repositories_GetContents owner repoName filePath
                          (branch_GetOptions plan)) fetched"
  define I where "I = (\<lambda>(a::nat) (st::'a retry_state).
     \<exists>T. transcript (rs_run st) = ?B @ T
       \<and> length (filter is_write T) = a
       \<and> retries_disciplined True (?B @ T)
       \<and> rs_Diagnostics st = rs_Diagnostics st0
       \<and> (\<forall>e \<in> set T. \<not> failed_otherwise e)
       \<and> (a = 0 \<longrightarrow> T = [] \<and> rs_opts st = rs_opts st0)
       \<and> (0 < a \<longrightarrow> (\<exists>answer rest. T = ?W (rs_opts st0) answer # rest)
             \<and> (\<exists>T' opts err fc. T = T' @ [?W opts (Reply_error err), ?G (Reply_Contents (Some fc))]
                   \<and> StatusCode_is err StatusConflict
                   \<and> rs_opts st = opts\<lparr>opt_SHA := Some (GetString (content_SHA fc))\<rparr>
                   \<and> rs_err st = Some err)))"
  define Q where "Q = (\<lambda>(left::loop_end) (st::'a retry_state).
     \<exists>T. transcript (rs_run st) = ?B @ T
           \<and> length (filter is_write T) \<le> maxRetries
           \<and> retries_disciplined True (transcript (rs_run st))
           \<and> (\<exists>answer rest. T = ?W (rs_opts st0) answer # rest)
           \<and> rs_Diagnostics st = rs_Diagnostics st0
           \<and> (\<forall>e \<in> set (butlast T). \<not> failed_otherwise e)
           \<and> (\<forall>e. failed_otherwise e \<and> T \<noteq> [] \<and> last T = e \<longrightarrow>
                 (\<exists>cl err. e = Called cl (Reply_error err) \<and> rs_err st = Some err))
           \<and> (rs_err st = None \<longrightarrow>
                 (\<exists>opts create. rs_create st = Some create
                    \<and> last T = ?W opts (Reply_ContentResponse create)))
           \<and> (\<forall>err. rs_err st = Some err \<longrightarrow>
                 (\<exists>opts. last (filter is_write T) = ?W opts (Reply_error err))))"
  have init: "I 0 st0"
    using quiet0 by (simp add: I_def disciplined_no_writes)
  have new_write: "retries_disciplined True (?B @ T @ [?W (rs_opts s1) answer])
        \<and> (\<exists>answer' rest. T @ [?W (rs_opts s1) answer] = ?W (rs_opts st0) answer' # rest)"
    if inv: "I a s1" and T: "transcript (rs_run s1) = ?B @ T" for a s1 T answer
  proof (cases "a = 0")
    case True
    with inv T have "T = []" "rs_opts s1 = rs_opts st0" by (auto simp: I_def)
    with quiet0 show ?thesis by (simp add: disciplined_snoc_first)
  next
    case False
    with inv T obtain T' opts err fc answer' rest where
      t: "T = T' @ [?W opts (Reply_error err), ?G (Reply_Contents (Some fc))]"
      and c: "StatusCode_is err StatusConflict"
      and o: "rs_opts s1 = opts\<lparr>opt_SHA := Some (GetString (content_SHA fc))\<rparr>"
      and d: "retries_disciplined True (?B @ T)"
      and f: "T = ?W (rs_opts st0) answer' # rest"
      by (auto simp: I_def)
    from d t have "retries_disciplined True
        ((?B @ T') @ [?W opts (Reply_error err), ?G (Reply_Contents (Some fc))])" by simp
    moreover have "retry_after True (?W opts (Reply_error err)) (?G (Reply_Contents (Some fc)))
                     (?W (rs_opts s1) answer)"
      unfolding o using c by (rule retry_after_CreateFile)
    ultimately have "retries_disciplined True
        ((?B @ T') @ [?W opts (Reply_error err), ?G (Reply_Contents (Some fc)),
                      ?W (rs_opts s1) answer])"
      by (rule disciplined_snoc_retry)
    then have "retries_disciplined True (?B @ T @ [?W (rs_opts s1) answer])"
      by (simp add: t)
    moreover from f have "T @ [?W (rs_opts s1) answer]
        = ?W (rs_opts st0) answer' # (rest @ [?W (rs_opts s1) answer])"
      by simp
    ultimately show ?thesis by blast
  qed
  have II: "I a s2"
    if "transcript (rs_run s2) = ?B @ T2" "length (filter is_write T2) = a"
      "retries_disciplined True (?B @ T2)" "rs_Diagnostics s2 = rs_Diagnostics st0"
      "\<forall>e \<in> set T2. \<not> failed_otherwise e"
      "\<exists>answer rest. T2 = ?W (rs_opts st0) answer # rest"
      "\<exists>T' opts err fc. T2 = T' @ [?W opts (Reply_error err), ?G (Reply_Contents (Some fc))]
                   \<and> StatusCode_is err StatusConflict
                   \<and> rs_opts s2 = opts\<lparr>opt_SHA := Some (GetString (content_SHA fc))\<rparr>
                   \<and> rs_err s2 = Some err"
      "0 < a"
    for a s2 T2
    unfolding I_def using that by blast
  have QI: "Q left s2"
    if "transcript (rs_run s2) = ?B @ T2" "length (filter is_write T2) \<le> maxRetries"
      "retries_disciplined True (?B @ T2)"
      "\<exists>answer rest. T2 = ?W (rs_opts st0) answer # rest"
      "rs_Diagnostics s2 = rs_Diagnostics st0"
      "\<forall>e \<in> set (butlast T2). \<not> failed_otherwise e"
      "\<forall>e. failed_otherwise e \<and> T2 \<noteq> [] \<and> last T2 = e \<longrightarrow>
                 (\<exists>cl err. e = Called cl (Reply_error err) \<and> rs_err s2 = Some err)"
      "rs_err s2 = None \<longrightarrow>
                 (\<exists>opts create. rs_create s2 = Some create
                    \<and> last T2 = ?W opts (Reply_ContentResponse create))"
      "\<forall>err. rs_err s2 = Some err \<longrightarrow>
                 (\<exists>opts. last (filter is_write T2) = ?W opts (Reply_error err))"
    for left s2 T2
    unfolding Q_def using that by (intro exI [of _ T2]) simp
  have continue: "I (Suc a) s2"
    if "a < maxRetries" and inv: "I a s1"
      and body: "Update_attempt c owner repoName filePath plan s1 = (Continue, s2)" for a s1 s2
  proof -
    from inv obtain T where T: "transcript (rs_run s1) = ?B @ T"
      and n: "length (filter is_write T) = a"
      and ok: "\<forall>e \<in> set T. \<not> failed_otherwise e"
      and dg: "rs_Diagnostics s1 = rs_Diagnostics st0"
      by (auto simp: I_def)
    from Update_attempt_Continue [OF body] obtain err fc where
      c: "StatusCode_is err StatusConflict"
      and t2: "transcript (rs_run s2) = transcript (rs_run s1)
                 @ [?W (rs_opts s1) (Reply_error err), ?G (Reply_Contents (Some fc))]"
      and o2: "rs_opts s2 = (rs_opts s1)\<lparr>opt_SHA := Some (GetString (content_SHA fc))\<rparr>"
      and e2: "rs_err s2 = Some err" and d2: "rs_Diagnostics s2 = rs_Diagnostics s1"
      by blast
    let ?T2 = "T @ [?W (rs_opts s1) (Reply_error err), ?G (Reply_Contents (Some fc))]"
    from new_write [OF inv T, of "Reply_error err"]
    have w: "retries_disciplined True (?B @ T @ [?W (rs_opts s1) (Reply_error err)])"
      and first: "\<exists>answer' rest. T @ [?W (rs_opts s1) (Reply_error err)]
                    = ?W (rs_opts st0) answer' # rest"
      by blast+
    from w have "retries_disciplined True
        ((?B @ T @ [?W (rs_opts s1) (Reply_error err)]) @ [?G (Reply_Contents (Some fc))])"
      by (rule disciplined_snoc_quiet) simp
    then have disc: "retries_disciplined True (?B @ ?T2)" by simp
    from first obtain answer' rest where
      "T @ [?W (rs_opts s1) (Reply_error err)] = ?W (rs_opts st0) answer' # rest" by blast
    then have "?T2 = ?W (rs_opts st0) answer' # (rest @ [?G (Reply_Contents (Some fc))])"
      by simp
    then have first2: "\<exists>answer rest. ?T2 = ?W (rs_opts st0) answer # rest" by blast
    have c1: "transcript (rs_run s2) = ?B @ ?T2" using T t2 by simp
    have c2: "length (filter is_write ?T2) = Suc a" using n by simp
    have c4: "rs_Diagnostics s2 = rs_Diagnostics st0" using d2 dg by simp
    have c5: "\<forall>e \<in> set ?T2. \<not> failed_otherwise e" using ok c by simp
    have c7: "\<exists>T' opts err fc. ?T2 = T' @ [?W opts (Reply_error err), ?G (Reply_Contents (Some fc))]
                   \<and> StatusCode_is err StatusConflict
                   \<and> rs_opts s2 = opts\<lparr>opt_SHA := Some (GetString (content_SHA fc))\<rparr>
                   \<and> rs_err s2 = Some err"
      using c o2 e2 by blast
    show ?thesis by (rule II [OF c1 c2 disc c4 c5 first2 c7]) simp
  qed
  have break: "Q Broken s2"
    if less: "a < maxRetries" and inv: "I a s1"
      and body: "Update_attempt c owner repoName filePath plan s1 = (Break, s2)" for a s1 s2
  proof -
    from inv obtain T where T: "transcript (rs_run s1) = ?B @ T"
      and n: "length (filter is_write T) = a"
      and ok: "\<forall>e \<in> set T. \<not> failed_otherwise e"
      and dg: "rs_Diagnostics s1 = rs_Diagnostics st0"
      by (auto simp: I_def)
    have d2: "rs_Diagnostics s2 = rs_Diagnostics st0"
      using Update_attempt_Break(2) [OF body] dg by simp
    from Update_attempt_Break(1) [OF body]
    consider (success) create where
        "transcript (rs_run s2) = transcript (rs_run s1)
           @ [?W (rs_opts s1) (Reply_ContentResponse create)]"
        "rs_err s2 = None" "rs_create s2 = Some create"
      | (failure) err where "\<not> StatusCode_is err StatusConflict"
        "transcript (rs_run s2) = transcript (rs_run s1) @ [?W (rs_opts s1) (Reply_error err)]"
        "rs_err s2 = Some err"
      | (no_file) err fetched where "StatusCode_is err StatusConflict"
        "transcript (rs_run s2) = transcript (rs_run s1)
           @ [?W (rs_opts s1) (Reply_error err), ?G fetched]"
        "rs_err s2 = Some err"
      by blast
    then show ?thesis
    proof cases
      case success
      let ?T2 = "T @ [?W (rs_opts s1) (Reply_ContentResponse create)]"
      from new_write [OF inv T, of "Reply_ContentResponse create"]
      have disc: "retries_disciplined True (?B @ ?T2)"
        and first: "\<exists>answer' rest. ?T2 = ?W (rs_opts st0) answer' # rest" by blast+
      have q1: "transcript (rs_run s2) = ?B @ ?T2" using T success by simp
      have q2: "length (filter is_write ?T2) \<le> maxRetries" using n less by simp
      have q6: "\<forall>e \<in> set (butlast ?T2). \<not> failed_otherwise e" using ok by simp
      show ?thesis
        by (rule QI [OF q1 q2 disc first d2 q6]) (use success in auto)
    next
      case failure
      let ?T2 = "T @ [?W (rs_opts s1) (Reply_error err)]"
      from new_write [OF inv T, of "Reply_error err"]
      have disc: "retries_disciplined True (?B @ ?T2)"
        and first: "\<exists>answer' rest. ?T2 = ?W (rs_opts st0) answer' # rest" by blast+
      have q1: "transcript (rs_run s2) = ?B @ ?T2" using T failure by simp
      have q2: "length (filter is_write ?T2) \<le> maxRetries" using n less by simp
      have q6: "\<forall>e \<in> set (butlast ?T2). \<not> failed_otherwise e" using ok by simp
      show ?thesis
        by (rule QI [OF q1 q2 disc first d2 q6]) (use failure in auto)
    next
      case no_file
      let ?T2 = "T @ [?W (rs_opts s1) (Reply_error err), ?G fetched]"
      from new_write [OF inv T, of "Reply_error err"]
      have w: "retries_disciplined True (?B @ T @ [?W (rs_opts s1) (Reply_error err)])"
        and first: "\<exists>answer' rest. T @ [?W (rs_opts s1) (Reply_error err)]
                      = ?W (rs_opts st0) answer' # rest" by blast+
      from w have "retries_disciplined True
          ((?B @ T @ [?W (rs_opts s1) (Reply_error err)]) @ [?G fetched])"
        by (rule disciplined_snoc_quiet) simp
      then have disc: "retries_disciplined True (?B @ ?T2)" by simp
      from first obtain answer' rest where
        "T @ [?W (rs_opts s1) (Reply_error err)] = ?W (rs_opts st0) answer' # rest" by blast
      then have "?T2 = ?W (rs_opts st0) answer' # (rest @ [?G fetched])" by simp
      then have first2: "\<exists>answer rest. ?T2 = ?W (rs_opts st0) answer # rest" by blast
      have q1: "transcript (rs_run s2) = ?B @ ?T2" using T no_file by simp
      have q2: "length (filter is_write ?T2) \<le> maxRetries" using n less by simp
      have "butlast ?T2 = T @ [?W (rs_opts s1) (Reply_error err)]"
        by (simp add: butlast_append)
      then have q6: "\<forall>e \<in> set (butlast ?T2). \<not> failed_otherwise e"
        using ok no_file(1) by simp
      have q7: "\<forall>e. failed_otherwise e \<and> ?T2 \<noteq> [] \<and> last ?T2 = e \<longrightarrow>
                 (\<exists>cl err. e = Called cl (Reply_error err) \<and> rs_err s2 = Some err)"
        by (simp add: failed_otherwise_def split: reply.splits)
      show ?thesis
        by (rule QI [OF q1 q2 disc first2 d2 q6 q7]) (use no_file in auto)
    qed
  qed
  have return: "Q Returned s2"
    if "Update_attempt c owner repoName filePath plan s1 = (Return, s2)" for s1 s2
    using that Update_attempt_Return by blast
  have exhausted: "Q Exhausted s1" if inv: "I maxRetries s1" for s1
  proof -
    have pos: "0 < maxRetries" by (simp add: maxRetries_def)
    from inv pos obtain T where
      T: "transcript (rs_run s1) = ?B @ T"
      and n: "length (filter is_write T) = maxRetries"
      and ok: "\<forall>e \<in> set T. \<not> failed_otherwise e"
      and dg: "rs_Diagnostics s1 = rs_Diagnostics st0"
      and disc: "retries_disciplined True (?B @ T)"
      and first': "\<exists>answer rest. T = ?W (rs_opts st0) answer # rest"
      and tail: "\<exists>T' opts err fc. T = T' @ [?W opts (Reply_error err), ?G (Reply_Contents (Some fc))]
                   \<and> StatusCode_is err StatusConflict
                   \<and> rs_opts s1 = opts\<lparr>opt_SHA := Some (GetString (content_SHA fc))\<rparr>
                   \<and> rs_err s1 = Some err"
      unfolding I_def by blast
    from first' obtain answer rest where first: "T = ?W (rs_opts st0) answer # rest" by blast
    from tail obtain T' opts err fc where
      t: "T = T' @ [?W opts (Reply_error err), ?G (Reply_Contents (Some fc))]"
      and e: "rs_err s1 = Some err" by blast
    have q2: "length (filter is_write T) \<le> maxRetries" using n by simp
    have q4: "\<exists>answer rest. T = ?W (rs_opts st0) answer # rest" using first by blast
    have q6: "\<forall>e \<in> set (butlast T). \<not> failed_otherwise e"
      using ok by (meson in_set_butlastD)
    have q7: "\<forall>e. failed_otherwise e \<and> T \<noteq> [] \<and> last T = e \<longrightarrow>
                 (\<exists>cl err. e = Called cl (Reply_error err) \<and> rs_err s1 = Some err)"
      by (subst (2) t) (simp add: failed_otherwise_def)
    have q9: "\<forall>err. rs_err s1 = Some err \<longrightarrow>
                 (\<exists>opts. last (filter is_write T) = ?W opts (Reply_error err))"
      using e by (subst t) simp
    show ?thesis
      by (rule QI [OF T q2 disc q4 dg q6 q7 _ q9]) (use e in simp)
  qed
  have "Q (fst (for_loop maxRetries (Update_attempt c owner repoName filePath plan) 0 st0))
          (snd (for_loop maxRetries (Update_attempt c owner repoName filePath plan) 0 st0))"
    using init _ continue break return exhausted
    by (rule for_loop_rule [where I = I and Q = Q]) simp_all
  with loop show ?thesis by (simp add: Q_def)
qed

section \<open>What a run of Update leaves behind\<close>

lemma buildFileOptions_SHA: "buildFileOptions model content = Inr opts \<Longrightarrow> opt_SHA opts = None"
  by (auto simp: buildFileOptions_def Let_def split: if_splits)

lemma in_AddError: "ErrorDiagnostic summary detail \<in> set (AddError ds summary detail)"
  by (simp add: AddError_def)

lemma HasError_AddError: "HasError (AddError ds summary detail)"
  by (auto simp: AddError_def HasError_def list_ex_iff
      intro: bexI [of _ "ErrorDiagnostic summary detail"])

lemma Update_decompose:
  assumes st: "update_State req = (state_diags, state)"
  shows "(\<exists>resp s'. Update env r req resp0 s = Returns (resp, s') \<and> quiet s s')
       \<or> (\<exists>c owner repoName filePath plan opts resp1 s2 left st.
             quiet s s2
           \<and> opt_SHA opts = (if is_set (m_SHA state) then Some (ValueString (m_SHA state)) else None)
           \<and> for_loop maxRetries (Update_attempt c owner repoName filePath plan) 0
               \<lparr>rs_opts = opts, rs_create = None, rs_err = None,
                rs_Diagnostics = Diagnostics resp1, rs_run = s2\<rparr> = (left, st)
           \<and> (case rs_err st of
                Some err \<Rightarrow>
                  Update env r req resp0 s
                    = Returns (resp1\<lparr>Diagnostics := AddError (Diagnostics resp1) ''Error updating file''
                          (''Unable to update file '' @ filePath @ '' in repository '' @ owner
                            @ ''/'' @ repoName @ '' after '' @ format_d (int maxRetries)
                            @ '' attempts: '' @ Error err)\<rparr>, rs_run st)
              | None \<Rightarrow>
                  (rs_create st = None \<and> Update env r req resp0 s = Panics)
                  \<or> (\<exists>resp s'. Update env r req resp0 s = Returns (resp, s')
                        \<and> quiet (rs_run st) s')))"
proof -
  obtain plan_diags plan where pl: "update_Plan req = (plan_diags, plan)"
    by (cases "update_Plan req")
  let ?resp = "resp0\<lparr>Diagnostics := Append (Append (Diagnostics resp0) plan_diags) state_diags\<rparr>"
  show ?thesis
  proof (cases "HasError (Diagnostics ?resp)")
    case True
    then have "Update env r req resp0 s = Returns (?resp, s)"
      by (simp add: Update_def pl st)
    then show ?thesis by auto
  next
    case noerr: False
    show ?thesis
    proof (cases "r_client r")
      case None
      with noerr have "\<exists>resp. Update env r req resp0 s = Returns (resp, s)"
        by (simp add: Update_def pl st)
      then show ?thesis by auto
    next
      case (Some c)
      obtain own s1 where go: "getOwner c r s = (own, s1)" by (cases "getOwner c r s")
      then have q1: "quiet s s1" by (rule getOwner_quiet)
      show ?thesis
      proof (cases own)
        case (Inl err)
        with noerr Some go have "\<exists>resp. Update env r req resp0 s = Returns (resp, s1)"
          by (simp add: Update_def pl st)
        with q1 show ?thesis by auto
      next
        case (Inr owner)
        note base = noerr Some go Inr
        show ?thesis
        proof (cases "ValueString (m_ID state) = []")
          case True
          with base have "\<exists>resp. Update env r req resp0 s = Returns (resp, s1)"
            by (simp add: Update_def pl st Let_def)
          with q1 show ?thesis by auto
        next
          case idok: False
          show ?thesis
          proof (cases "\<exists>repoName filePath.
                   strings_SplitN (ValueString (m_ID state)) (CHR '':'') 2 = [repoName, filePath]")
            case False
            with base idok have "\<exists>resp. Update env r req resp0 s = Returns (resp, s1)"
              by (auto simp: Update_def pl st Let_def split: list.splits)
            with q1 show ?thesis by auto
          next
            case True
            then obtain repoName filePath where
              sp: "strings_SplitN (ValueString (m_ID state)) (CHR '':'') 2 = [repoName, filePath]"
              by blast
            obtain go_on plan1 diags1 s2 where
              ck: "checkAndCreateBranchIfNeeded c owner repoName plan (Diagnostics ?resp) s1
                     = ((go_on, plan1, diags1), s2)"
              by (metis prod.exhaust)
            then have q2: "quiet s1 s2" by (rule checkAndCreateBranchIfNeeded_quiet)
            with q1 have q02: "quiet s s2" by (rule quiet_trans)
            show ?thesis
            proof (cases go_on)
              case False
              with base idok sp ck have "\<exists>resp. Update env r req resp0 s = Returns (resp, s2)"
                by (simp add: Update_def pl st Let_def)
              with q02 show ?thesis by auto
            next
              case go_on: True
              show ?thesis
              proof (cases "buildFileOptions plan1 (ValueString (m_Content plan))")
                case (Inl diags)
                with base idok sp ck go_on
                have "\<exists>resp. Update env r req resp0 s = Returns (resp, s2)"
                  by (simp add: Update_def pl st Let_def)
                with q02 show ?thesis by auto
              next
                case (Inr opts0)
                let ?opts1 = "if is_set (m_SHA state)
                         then opts0\<lparr>opt_SHA := Some (ValueString (m_SHA state))\<rparr> else opts0"
                let ?default = "opt_Message opts0 = None \<or> opt_Message opts0 = Some []
                       \<or> opt_Message opts0 = Some (''Add '' @ filePath)"
                let ?opts = "if ?default then ?opts1\<lparr>opt_Message := Some (''Update '' @ filePath)\<rparr>
                             else ?opts1"
                let ?plan = "if ?default then plan1\<lparr>m_CommitMessage := Known (''Update '' @ filePath)\<rparr>
                             else plan1"
                let ?resp1 = "?resp\<lparr>Diagnostics := diags1\<rparr>"
                let ?st0 = "\<lparr>rs_opts = ?opts, rs_create = None, rs_err = None,
                             rs_Diagnostics = Diagnostics ?resp1, rs_run = s2\<rparr>"
                obtain left stf where
                  lp: "for_loop maxRetries (Update_attempt c owner repoName filePath ?plan) 0 ?st0
                         = (left, stf)"
                  by (metis prod.exhaust)
                have sha: "opt_SHA ?opts
                     = (if is_set (m_SHA state) then Some (ValueString (m_SHA state)) else None)"
                  using buildFileOptions_SHA [OF Inr] by simp
                have unfold: "Update env r req resp0 s =
                   (case rs_err stf of
                      Some err \<Rightarrow>
                        Returns
                          (?resp1\<lparr>Diagnostics := AddError (Diagnostics ?resp1) ''Error updating file''
                                 (''Unable to update file '' @ filePath @ '' in repository '' @ owner
                                   @ ''/'' @ repoName @ '' after '' @ format_d (int maxRetries)
                                   @ '' attempts: '' @ Error err)\<rparr>, rs_run stf)
                    | None \<Rightarrow>
                    case rs_create stf of
                      None \<Rightarrow> Panics
                    | Some create \<Rightarrow>
                    let plan = ?plan\<lparr>m_ID := m_ID state,
                                    m_CommitSHA := Known (GetString (response_SHA create))\<rparr>
                    in
                    case readFile env c owner repoName filePath plan (Diagnostics ?resp1) (rs_run stf) of
                      ((plan, diags), s3) \<Rightarrow>
                        let resp = ?resp1\<lparr>Diagnostics := diags\<rparr> in
                        if HasError (Diagnostics resp) then Returns (resp, s3)
                        else Returns (resp\<lparr>State := Some plan\<rparr>, s3))"
                proof (cases "is_set (m_SHA state)")
                  case sha: True
                  show ?thesis
                  proof (cases ?default)
                    case True
                    then show ?thesis
                      using sha base idok sp ck go_on Inr lp
                      by (elim disjE) (simp_all add: Update_def pl st Let_def cong: option.case_cong prod.case_cong)
                  next
                    case False
                    then obtain m where "opt_Message opts0 = Some m" "m \<noteq> []"
                        "m \<noteq> ''Add '' @ filePath"
                      by (cases "opt_Message opts0") auto
                    then show ?thesis
                      using sha base idok sp ck go_on Inr lp
                      by (simp add: Update_def pl st Let_def cong: option.case_cong prod.case_cong)
                  qed
                next
                  case sha: False
                  show ?thesis
                  proof (cases ?default)
                    case True
                    then show ?thesis
                      using sha base idok sp ck go_on Inr lp
                      by (elim disjE) (simp_all add: Update_def pl st Let_def cong: option.case_cong prod.case_cong)
                  next
                    case False
                    then obtain m where "opt_Message opts0 = Some m" "m \<noteq> []"
                        "m \<noteq> ''Add '' @ filePath"
                      by (cases "opt_Message opts0") auto
                    then show ?thesis
                      using sha base idok sp ck go_on Inr lp
                      by (simp add: Update_def pl st Let_def cong: option.case_cong prod.case_cong)
                  qed
                qed
                have fin: "case rs_err stf of
                    Some err \<Rightarrow>
                      Update env r req resp0 s
                        = Returns (?resp1\<lparr>Diagnostics := AddError (Diagnostics ?resp1) ''Error updating file''
                              (''Unable to update file '' @ filePath @ '' in repository '' @ owner
                                @ ''/'' @ repoName @ '' after '' @ format_d (int maxRetries)
                                @ '' attempts: '' @ Error err)\<rparr>, rs_run stf)
                  | None \<Rightarrow>
                      (rs_create stf = None \<and> Update env r req resp0 s = Panics)
                      \<or> (\<exists>resp s'. Update env r req resp0 s = Returns (resp, s')
                            \<and> quiet (rs_run stf) s')"
                  unfolding unfold
                  by (auto simp: Let_def split: option.splits prod.splits dest: readFile_quiet)
                from q02 sha lp fin show ?thesis by blast
              qed
            qed
          qed
        qed
      qed
    qed
  qed
qed

lemma first_write_quiet [simp]: "no_writes B \<Longrightarrow> first_write (B @ T) = first_write T"
  by (simp add: first_write_def no_writes_filter)

lemma first_write_none: "no_writes T \<Longrightarrow> first_write T = None"
  by (simp add: first_write_def no_writes_filter)

lemma first_write_Cons [simp]: "is_write w \<Longrightarrow> first_write (w # T) = Some w"
  by (simp add: first_write_def)

lemma filter_write_quiet [simp]: "no_writes B \<Longrightarrow> filter is_write (B @ T) = filter is_write T"
  by (simp add: no_writes_filter)

lemma filter_write_quiet2 [simp]: "no_writes R \<Longrightarrow> filter is_write (T @ R) = filter is_write T"
  by (simp add: no_writes_filter)

lemma no_writes_not_failed: "no_writes T \<Longrightarrow> e \<in> set T \<Longrightarrow> \<not> failed_otherwise e"
  using failed_otherwise_write by (auto simp: no_writes_def)

lemma last_filter_last:
  "T \<noteq> [] \<Longrightarrow> is_write (last T) \<Longrightarrow> last (filter is_write T) = last T"
  by (induction T) (auto simp: filter_empty_conv)

text \<open>
  What a run of Update leaves behind, for the claims about its retry loop.
\<close>

lemma Update_run:
  assumes st: "update_State req = (state_diags, state)"
    and fresh: "no_writes (transcript s)"
  shows "\<exists>resp s'. Update env r req resp0 s = Returns (resp, s')
      \<and> length (filter is_write (transcript s')) \<le> maxRetries
      \<and> retries_disciplined True (transcript s')
      \<and> (\<forall>w. first_write (transcript s') = Some w \<longrightarrow>
            (\<exists>owner repo path opts answer.
               w = Called (Call_Repositories_CreateFile owner repo path opts) answer
               \<and> opt_SHA opts = (if is_set (m_SHA state)
                                  then Some (ValueString (m_SHA state)) else None)))
      \<and> (\<forall>pre e post. transcript s' = pre @ e # post \<and> failed_otherwise e \<longrightarrow>
            post = [] \<and> (\<exists>detail. ErrorDiagnostic ''Error updating file'' detail
                                    \<in> set (Diagnostics resp)))
      \<and> (\<forall>cl err. filter is_write (transcript s') \<noteq> []
            \<and> last (filter is_write (transcript s')) = Called cl (Reply_error err) \<longrightarrow>
            (\<exists>detail. ErrorDiagnostic ''Error updating file'' detail \<in> set (Diagnostics resp)))"
proof -
  from Update_decompose [OF st, of env r resp0 s]
  consider (early) resp s' where "Update env r req resp0 s = Returns (resp, s')" "quiet s s'"
    | (loop) c owner repoName filePath plan opts resp1 s2 left stf where
        "quiet s s2"
        "opt_SHA opts = (if is_set (m_SHA state) then Some (ValueString (m_SHA state)) else None)"
        "for_loop maxRetries (Update_attempt c owner repoName filePath plan) 0
               \<lparr>rs_opts = opts, rs_create = None, rs_err = None,
                rs_Diagnostics = Diagnostics resp1, rs_run = s2\<rparr> = (left, stf)"
        "case rs_err stf of
                Some err \<Rightarrow>
                  Update env r req resp0 s
                    = Returns (resp1\<lparr>Diagnostics := AddError (Diagnostics resp1) ''Error updating file''
                          (''Unable to update file '' @ filePath @ '' in repository '' @ owner
                            @ ''/'' @ repoName @ '' after '' @ format_d (int maxRetries)
                            @ '' attempts: '' @ Error err)\<rparr>, rs_run stf)
              | None \<Rightarrow>
                  (rs_create stf = None \<and> Update env r req resp0 s = Panics)
                  \<or> (\<exists>resp s'. Update env r req resp0 s = Returns (resp, s')
                        \<and> quiet (rs_run stf) s')"
    by blast
  then show ?thesis
  proof cases
    case early
    from early(2) fresh have nw: "no_writes (transcript s')" by (auto simp: quiet_def)
    have "\<not> failed_otherwise e" if "transcript s' = pre @ e # post" for pre e post
      using no_writes_not_failed [OF nw, of e] that by simp
    with early(1) nw show ?thesis
      by (auto simp: no_writes_filter disciplined_no_writes first_write_none)
  next
    case loop
    let ?st0 = "\<lparr>rs_opts = opts, rs_create = None, rs_err = None,
                rs_Diagnostics = Diagnostics resp1, rs_run = s2\<rparr>"
    from loop(1) fresh have B: "no_writes (transcript s2)" by (auto simp: quiet_def)
    then have B0: "no_writes (transcript (rs_run ?st0))" by simp
    from Update_loop [OF B0 loop(3)] obtain T where all:
      "transcript (rs_run stf) = transcript s2 @ T
           \<and> length (filter is_write T) \<le> maxRetries
           \<and> retries_disciplined True (transcript (rs_run stf))
           \<and> (\<exists>answer rest. T = Called (Call_Repositories_CreateFile owner repoName filePath
                                          opts) answer # rest)
           \<and> rs_Diagnostics stf = Diagnostics resp1
           \<and> (\<forall>e \<in> set (butlast T). \<not> failed_otherwise e)
           \<and> (\<forall>e. failed_otherwise e \<and> T \<noteq> [] \<and> last T = e \<longrightarrow>
                 (\<exists>cl err. e = Called cl (Reply_error err) \<and> rs_err stf = Some err))
           \<and> (rs_err stf = None \<longrightarrow>
                 (\<exists>opts create. rs_create stf = Some create
                    \<and> last T = Called (Call_Repositories_CreateFile owner repoName filePath opts)
                                 (Reply_ContentResponse create)))
           \<and> (\<forall>err. rs_err stf = Some err \<longrightarrow>
                 (\<exists>opts. last (filter is_write T)
                    = Called (Call_Repositories_CreateFile owner repoName filePath opts)
                        (Reply_error err)))"
      unfolding retry_state.simps by (elim exE)
    then have T: "transcript (rs_run stf) = transcript s2 @ T"
      and n: "length (filter is_write T) \<le> maxRetries"
      and disc: "retries_disciplined True (transcript (rs_run stf))"
      and first: "\<exists>answer rest. T = Called (Call_Repositories_CreateFile owner repoName filePath
                                          opts) answer # rest"
      and bl: "\<forall>e \<in> set (butlast T). \<not> failed_otherwise e"
      and succ: "rs_err stf = None \<longrightarrow>
                 (\<exists>opts create. rs_create stf = Some create
                    \<and> last T = Called (Call_Repositories_CreateFile owner repoName filePath opts)
                                 (Reply_ContentResponse create))"
      by blast+
    from first obtain answer rest where
      Tcons: "T = Called (Call_Repositories_CreateFile owner repoName filePath opts) answer # rest"
      by blast
    then have Tne: "T \<noteq> []" by simp
    have fw: "first_write (transcript s2 @ T @ R)
                = Some (Called (Call_Repositories_CreateFile owner repoName filePath opts) answer)"
      for R using B Tcons by simp
    show ?thesis
    proof (cases "rs_err stf")
      case (Some err)
      with loop(4) have up: "Update env r req resp0 s
          = Returns (resp1\<lparr>Diagnostics := AddError (Diagnostics resp1) ''Error updating file''
                          (''Unable to update file '' @ filePath @ '' in repository '' @ owner
                            @ ''/'' @ repoName @ '' after '' @ format_d (int maxRetries)
                            @ '' attempts: '' @ Error err)\<rparr>, rs_run stf)" by simp
      have bl2: "\<forall>e \<in> set (butlast (transcript (rs_run stf))). \<not> failed_otherwise e"
        using bl B Tne by (auto simp: T butlast_append dest: no_writes_not_failed)
      have d: "post = []" if "transcript (rs_run stf) = pre @ e # post" "failed_otherwise e"
        for pre e post using only_last [OF bl2 that] .
      have fw': "first_write (transcript (rs_run stf))
                = Some (Called (Call_Repositories_CreateFile owner repoName filePath opts) answer)"
        using fw [of "[]"] by (simp add: T)
      have ga: "length (filter is_write (transcript (rs_run stf))) \<le> maxRetries"
        using n B by (simp add: T no_writes_filter)
      have gc: "\<forall>w. first_write (transcript (rs_run stf)) = Some w \<longrightarrow>
            (\<exists>owner repo path opts answer.
               w = Called (Call_Repositories_CreateFile owner repo path opts) answer
               \<and> opt_SHA opts = (if is_set (m_SHA state)
                                  then Some (ValueString (m_SHA state)) else None))"
        using fw' loop(2) by auto
      let ?resp = "resp1\<lparr>Diagnostics := AddError (Diagnostics resp1) ''Error updating file''
                          (''Unable to update file '' @ filePath @ '' in repository '' @ owner
                            @ ''/'' @ repoName @ '' after '' @ format_d (int maxRetries)
                            @ '' attempts: '' @ Error err)\<rparr>"
      have diag: "\<exists>detail. ErrorDiagnostic ''Error updating file'' detail
                                    \<in> set (Diagnostics ?resp)"
        using in_AddError by auto
      have gd: "\<forall>pre e post. transcript (rs_run stf) = pre @ e # post \<and> failed_otherwise e \<longrightarrow>
            post = [] \<and> (\<exists>detail. ErrorDiagnostic ''Error updating file'' detail
                                    \<in> set (Diagnostics ?resp))"
        using d diag by blast
      have ge: "\<forall>cl err. filter is_write (transcript (rs_run stf)) \<noteq> []
            \<and> last (filter is_write (transcript (rs_run stf))) = Called cl (Reply_error err) \<longrightarrow>
            (\<exists>detail. ErrorDiagnostic ''Error updating file'' detail \<in> set (Diagnostics ?resp))"
        using diag by blast
      show ?thesis
        unfolding up by (intro exI conjI) (rule refl ga disc gc gd ge)+
    next
      case None
      with succ obtain opts' create where
        cr: "rs_create stf = Some create"
        and lastT: "last T = Called (Call_Repositories_CreateFile owner repoName filePath opts')
                                 (Reply_ContentResponse create)" by blast
      with None loop(4) obtain resp s' where
        up: "Update env r req resp0 s = Returns (resp, s')" and q: "quiet (rs_run stf) s'" by auto
      from q obtain R where R: "transcript s' = transcript (rs_run stf) @ R" "no_writes R"
        by (auto simp: quiet_def)
      then have tr: "transcript s' = transcript s2 @ T @ R" by (simp add: T)
      have nolast: "\<not> failed_otherwise (last T)" by (simp add: lastT)
      have inT: "\<not> failed_otherwise e" if "e \<in> set T" for e
      proof (cases "e = last T")
        case True
        with nolast show ?thesis by simp
      next
        case False
        with that Tne have "e \<in> set (butlast T)"
          by (metis append_butlast_last_id in_set_conv_decomp_first insert_iff list.set(2) rotate1.simps(2) set_rotate1)
        with bl show ?thesis by blast
      qed
      have nofail: "\<not> failed_otherwise e" if "e \<in> set (transcript s')" for e
        using that inT B R(2) by (auto simp: tr dest: no_writes_not_failed)
      have "filter is_write (transcript s') = filter is_write T"
        using B R(2) by (simp add: tr no_writes_filter)
      moreover have "last (filter is_write T) = last T"
        using Tne lastT by (intro last_filter_last) simp_all
      ultimately have lw: "last (filter is_write (transcript s')) = last T" by simp
      have disc': "retries_disciplined True (transcript s')"
        unfolding R(1) using disc R(2) by (rule disciplined_append_quiet)
      have ga: "length (filter is_write (transcript s')) \<le> maxRetries"
        using n B R(2) by (simp add: tr no_writes_filter)
      have gc: "\<forall>w. first_write (transcript s') = Some w \<longrightarrow>
            (\<exists>owner repo path opts answer.
               w = Called (Call_Repositories_CreateFile owner repo path opts) answer
               \<and> opt_SHA opts = (if is_set (m_SHA state)
                                  then Some (ValueString (m_SHA state)) else None))"
        using fw [of R] loop(2) by (auto simp: tr)
      have gd: "\<forall>pre e post. transcript s' = pre @ e # post \<and> failed_otherwise e \<longrightarrow>
            post = [] \<and> (\<exists>detail. ErrorDiagnostic ''Error updating file'' detail
                                    \<in> set (Diagnostics resp))"
        using nofail by auto
      have ge: "\<forall>cl err. filter is_write (transcript s') \<noteq> []
            \<and> last (filter is_write (transcript s')) = Called cl (Reply_error err) \<longrightarrow>
            (\<exists>detail. ErrorDiagnostic ''Error updating file'' detail \<in> set (Diagnostics resp))"
        using lw lastT by auto
      show ?thesis
        unfolding up by (intro exI conjI) (rule refl ga disc' gc gd ge)+
    qed
  qed
qed

text \<open>
  The retry loop of Delete, in the same way.
\<close>

section \<open>The retry loop of Delete\<close>

lemma retry_after_DeleteFile:
  "StatusCode_is err StatusConflict \<Longrightarrow>
   retry_after strict
     (Called (Call_Repositories_DeleteFile owner repo path opts) (Reply_error err))
     (Called (Call_Repositories_GetContents owner repo path getOpts) (Reply_Contents (Some fc)))
     (Called (Call_Repositories_DeleteFile owner repo path
        (opts\<lparr>opt_SHA := Some (GetString (content_SHA fc))\<rparr>)) answer)"
  unfolding retry_after_def
  by (intro exI [of _ owner] exI [of _ repo] exI [of _ path] exI [of _ opts] exI [of _ err]
      exI [of _ getOpts] exI [of _ "Reply_Contents (Some fc)"]
      exI [of _ "opts\<lparr>opt_SHA := Some (GetString (content_SHA fc))\<rparr>"] exI [of _ answer]) simp

lemma not_found_not_conflict:
  "StatusCode_is err StatusNotFound \<Longrightarrow> \<not> StatusCode_is err StatusConflict"
  by (cases err; cases "case err of ErrorResponse r m \<Rightarrow> r | _ \<Rightarrow> None")
    (auto simp: StatusNotFound_def StatusConflict_def)

lemma Delete_attempt_Return:
  assumes "Delete_attempt c owner repoName filePath state st = (Return, st')"
  shows "(\<exists>deleted. transcript (rs_run st') = transcript (rs_run st)
              @ [Called (Call_Repositories_DeleteFile owner repoName filePath (rs_opts st))
                   (Reply_ContentResponse deleted)])
       \<or> (\<exists>err. StatusCode_is err StatusNotFound
            \<and> transcript (rs_run st') = transcript (rs_run st)
              @ [Called (Call_Repositories_DeleteFile owner repoName filePath (rs_opts st))
                   (Reply_error err)])
       \<or> (\<exists>err readErr. StatusCode_is err StatusConflict \<and> StatusCode_is readErr StatusNotFound
            \<and> transcript (rs_run st') = transcript (rs_run st)
              @ [Called (Call_Repositories_DeleteFile owner repoName filePath (rs_opts st))
                   (Reply_error err),
                 Called (Call_Repositories_GetContents owner repoName filePath
                   (branch_GetOptions state)) (Reply_error readErr)])"
    and "rs_Diagnostics st' = rs_Diagnostics st"
  using assms
  by (auto simp: Delete_attempt_def Let_def
      split: prod.splits sum.splits if_splits option.splits elim!: invokeE)

lemma Delete_attempt_Break:
  assumes "Delete_attempt c owner repoName filePath state st = (Break, st')"
  shows "(\<exists>err. \<not> StatusCode_is err StatusConflict \<and> \<not> StatusCode_is err StatusNotFound
            \<and> transcript (rs_run st') = transcript (rs_run st)
              @ [Called (Call_Repositories_DeleteFile owner repoName filePath (rs_opts st))
                   (Reply_error err)]
            \<and> rs_err st' = Some err)
       \<or> (\<exists>err fetched. StatusCode_is err StatusConflict
            \<and> transcript (rs_run st') = transcript (rs_run st)
              @ [Called (Call_Repositories_DeleteFile owner repoName filePath (rs_opts st))
                   (Reply_error err),
                 Called (Call_Repositories_GetContents owner repoName filePath
                   (branch_GetOptions state)) fetched]
            \<and> rs_err st' = Some err)"
    and "rs_Diagnostics st' = rs_Diagnostics st"
  using assms
  by (auto simp: Delete_attempt_def Let_def
      split: prod.splits sum.splits if_splits option.splits elim!: invokeE)

lemma Delete_attempt_Continue:
  assumes "Delete_attempt c owner repoName filePath state st = (Continue, st')"
  shows "\<exists>err fc. StatusCode_is err StatusConflict
            \<and> transcript (rs_run st') = transcript (rs_run st)
              @ [Called (Call_Repositories_DeleteFile owner repoName filePath (rs_opts st))
                   (Reply_error err),
                 Called (Call_Repositories_GetContents owner repoName filePath
                   (branch_GetOptions state)) (Reply_Contents (Some fc))]
            \<and> rs_opts st' = (rs_opts st)\<lparr>opt_SHA := Some (GetString (content_SHA fc))\<rparr>
            \<and> rs_err st' = Some err
            \<and> rs_Diagnostics st' = rs_Diagnostics st"
  using assms
  by (auto simp: Delete_attempt_def Let_def
      split: prod.splits sum.splits if_splits option.splits elim!: invokeE)

lemma Delete_loop:
  assumes quiet0: "no_writes (transcript (rs_run st0))"
    and loop: "for_loop maxRetries (Delete_attempt c owner repoName filePath state) 0 st0 = (left, st)"
  shows "\<exists>T. transcript (rs_run st) = transcript (rs_run st0) @ T
           \<and> length (filter is_write T) \<le> maxRetries
           \<and> retries_disciplined True (transcript (rs_run st))
           \<and> (\<exists>answer rest. T = Called (Call_Repositories_DeleteFile owner repoName filePath
                                          (rs_opts st0)) answer # rest)
           \<and> rs_Diagnostics st = rs_Diagnostics st0
           \<and> (\<forall>e \<in> set (butlast T). \<not> failed_otherwise e)
           \<and> (left = Returned \<longrightarrow>
                 (\<exists>opts deleted. last T = Called (Call_Repositories_DeleteFile owner repoName
                                                   filePath opts) (Reply_ContentResponse deleted))
               \<or> (\<exists>opts err. last T = Called (Call_Repositories_DeleteFile owner repoName
                                                   filePath opts) (Reply_error err)
                      \<and> StatusCode_is err StatusNotFound)
               \<or> (\<exists>readErr. last T = Called (Call_Repositories_GetContents owner repoName filePath
                                               (branch_GetOptions state)) (Reply_error readErr)
                      \<and> StatusCode_is readErr StatusNotFound))
           \<and> (left \<noteq> Returned \<longrightarrow>
                 (\<exists>err. rs_err st = Some err)
               \<and> \<not> (\<exists>cl err. last T = Called cl (Reply_error err) \<and> is_write_call cl
                      \<and> StatusCode_is err StatusNotFound))"
proof -
  let ?B = "transcript (rs_run st0)"
  let ?W = "\<lambda>opts answer. Called (Call_Repositories_DeleteFile owner repoName filePath opts) answer"
  let ?G = "\<lambda>fetched. Called (Call_Repositories_GetContents owner repoName filePath
                          (branch_GetOptions state)) fetched"
  define I where "I = (\<lambda>(a::nat) (st::'a retry_state).
     \<exists>T. transcript (rs_run st) = ?B @ T
       \<and> length (filter is_write T) = a
       \<and> retries_disciplined True (?B @ T)
       \<and> rs_Diagnostics st = rs_Diagnostics st0
       \<and> (\<forall>e \<in> set T. \<not> failed_otherwise e)
       \<and> (a = 0 \<longrightarrow> T = [] \<and> rs_opts st = rs_opts st0)
       \<and> (0 < a \<longrightarrow> (\<exists>answer rest. T = ?W (rs_opts st0) answer # rest)
             \<and> (\<exists>T' opts err fc. T = T' @ [?W opts (Reply_error err), ?G (Reply_Contents (Some fc))]
                   \<and> StatusCode_is err StatusConflict
                   \<and> rs_opts st = opts\<lparr>opt_SHA := Some (GetString (content_SHA fc))\<rparr>
                   \<and> rs_err st = Some err)))"
  define Q where "Q = (\<lambda>(left::loop_end) (st::'a retry_state).
     \<exists>T. transcript (rs_run st) = ?B @ T
           \<and> length (filter is_write T) \<le> maxRetries
           \<and> retries_disciplined True (transcript (rs_run st))
           \<and> (\<exists>answer rest. T = ?W (rs_opts st0) answer # rest)
           \<and> rs_Diagnostics st = rs_Diagnostics st0
           \<and> (\<forall>e \<in> set (butlast T). \<not> failed_otherwise e)
           \<and> (left = Returned \<longrightarrow>
                 (\<exists>opts deleted. last T = ?W opts (Reply_ContentResponse deleted))
               \<or> (\<exists>opts err. last T = ?W opts (Reply_error err) \<and> StatusCode_is err StatusNotFound)
               \<or> (\<exists>readErr. last T = ?G (Reply_error readErr)
                      \<and> StatusCode_is readErr StatusNotFound))
           \<and> (left \<noteq> Returned \<longrightarrow>
                 (\<exists>err. rs_err st = Some err)
               \<and> \<not> (\<exists>cl err. last T = Called cl (Reply_error err) \<and> is_write_call cl
                      \<and> StatusCode_is err StatusNotFound)))"
  have init: "I 0 st0"
    using quiet0 by (simp add: I_def disciplined_no_writes)
  have new_write: "retries_disciplined True (?B @ T @ [?W (rs_opts s1) answer])
        \<and> (\<exists>answer' rest. T @ [?W (rs_opts s1) answer] = ?W (rs_opts st0) answer' # rest)"
    if inv: "I a s1" and T: "transcript (rs_run s1) = ?B @ T" for a s1 T answer
  proof (cases "a = 0")
    case True
    with inv T have "T = []" "rs_opts s1 = rs_opts st0" by (auto simp: I_def)
    with quiet0 show ?thesis by (simp add: disciplined_snoc_first)
  next
    case False
    with inv T obtain T' opts err fc answer' rest where
      t: "T = T' @ [?W opts (Reply_error err), ?G (Reply_Contents (Some fc))]"
      and c: "StatusCode_is err StatusConflict"
      and o: "rs_opts s1 = opts\<lparr>opt_SHA := Some (GetString (content_SHA fc))\<rparr>"
      and d: "retries_disciplined True (?B @ T)"
      and f: "T = ?W (rs_opts st0) answer' # rest"
      by (auto simp: I_def)
    from d t have "retries_disciplined True
        ((?B @ T') @ [?W opts (Reply_error err), ?G (Reply_Contents (Some fc))])" by simp
    moreover have "retry_after True (?W opts (Reply_error err)) (?G (Reply_Contents (Some fc)))
                     (?W (rs_opts s1) answer)"
      unfolding o using c by (rule retry_after_DeleteFile)
    ultimately have "retries_disciplined True
        ((?B @ T') @ [?W opts (Reply_error err), ?G (Reply_Contents (Some fc)),
                      ?W (rs_opts s1) answer])"
      by (rule disciplined_snoc_retry)
    then have "retries_disciplined True (?B @ T @ [?W (rs_opts s1) answer])"
      by (simp add: t)
    moreover from f have "T @ [?W (rs_opts s1) answer]
        = ?W (rs_opts st0) answer' # (rest @ [?W (rs_opts s1) answer])"
      by simp
    ultimately show ?thesis by blast
  qed
  have II: "I a s2"
    if "transcript (rs_run s2) = ?B @ T2" "length (filter is_write T2) = a"
      "retries_disciplined True (?B @ T2)" "rs_Diagnostics s2 = rs_Diagnostics st0"
      "\<forall>e \<in> set T2. \<not> failed_otherwise e"
      "\<exists>answer rest. T2 = ?W (rs_opts st0) answer # rest"
      "\<exists>T' opts err fc. T2 = T' @ [?W opts (Reply_error err), ?G (Reply_Contents (Some fc))]
                   \<and> StatusCode_is err StatusConflict
                   \<and> rs_opts s2 = opts\<lparr>opt_SHA := Some (GetString (content_SHA fc))\<rparr>
                   \<and> rs_err s2 = Some err"
      "0 < a"
    for a s2 T2
    unfolding I_def using that by blast
  have QI: "Q left s2"
    if "transcript (rs_run s2) = ?B @ T2" "length (filter is_write T2) \<le> maxRetries"
      "retries_disciplined True (?B @ T2)"
      "\<exists>answer rest. T2 = ?W (rs_opts st0) answer # rest"
      "rs_Diagnostics s2 = rs_Diagnostics st0"
      "\<forall>e \<in> set (butlast T2). \<not> failed_otherwise e"
      "left = Returned \<longrightarrow>
                 (\<exists>opts deleted. last T2 = ?W opts (Reply_ContentResponse deleted))
               \<or> (\<exists>opts err. last T2 = ?W opts (Reply_error err) \<and> StatusCode_is err StatusNotFound)
               \<or> (\<exists>readErr. last T2 = ?G (Reply_error readErr)
                      \<and> StatusCode_is readErr StatusNotFound)"
      "left \<noteq> Returned \<longrightarrow>
                 (\<exists>err. rs_err s2 = Some err)
               \<and> \<not> (\<exists>cl err. last T2 = Called cl (Reply_error err) \<and> is_write_call cl
                      \<and> StatusCode_is err StatusNotFound)"
    for left s2 T2
    unfolding Q_def using that by (intro exI [of _ T2]) simp
  have continue: "I (Suc a) s2"
    if "a < maxRetries" and inv: "I a s1"
      and body: "Delete_attempt c owner repoName filePath state s1 = (Continue, s2)" for a s1 s2
  proof -
    from inv obtain T where T: "transcript (rs_run s1) = ?B @ T"
      and n: "length (filter is_write T) = a"
      and ok: "\<forall>e \<in> set T. \<not> failed_otherwise e"
      and dg: "rs_Diagnostics s1 = rs_Diagnostics st0"
      by (auto simp: I_def)
    from Delete_attempt_Continue [OF body] obtain err fc where
      c: "StatusCode_is err StatusConflict"
      and t2: "transcript (rs_run s2) = transcript (rs_run s1)
                 @ [?W (rs_opts s1) (Reply_error err), ?G (Reply_Contents (Some fc))]"
      and o2: "rs_opts s2 = (rs_opts s1)\<lparr>opt_SHA := Some (GetString (content_SHA fc))\<rparr>"
      and e2: "rs_err s2 = Some err" and d2: "rs_Diagnostics s2 = rs_Diagnostics s1"
      by blast
    let ?T2 = "T @ [?W (rs_opts s1) (Reply_error err), ?G (Reply_Contents (Some fc))]"
    from new_write [OF inv T, of "Reply_error err"]
    have w: "retries_disciplined True (?B @ T @ [?W (rs_opts s1) (Reply_error err)])"
      and first: "\<exists>answer' rest. T @ [?W (rs_opts s1) (Reply_error err)]
                    = ?W (rs_opts st0) answer' # rest"
      by blast+
    from w have "retries_disciplined True
        ((?B @ T @ [?W (rs_opts s1) (Reply_error err)]) @ [?G (Reply_Contents (Some fc))])"
      by (rule disciplined_snoc_quiet) simp
    then have disc: "retries_disciplined True (?B @ ?T2)" by simp
    from first obtain answer' rest where
      "T @ [?W (rs_opts s1) (Reply_error err)] = ?W (rs_opts st0) answer' # rest" by blast
    then have "?T2 = ?W (rs_opts st0) answer' # (rest @ [?G (Reply_Contents (Some fc))])"
      by simp
    then have first2: "\<exists>answer rest. ?T2 = ?W (rs_opts st0) answer # rest" by blast
    have c1: "transcript (rs_run s2) = ?B @ ?T2" using T t2 by simp
    have c2: "length (filter is_write ?T2) = Suc a" using n by simp
    have c4: "rs_Diagnostics s2 = rs_Diagnostics st0" using d2 dg by simp
    have c5: "\<forall>e \<in> set ?T2. \<not> failed_otherwise e" using ok c by simp
    have c7: "\<exists>T' opts err fc. ?T2 = T' @ [?W opts (Reply_error err), ?G (Reply_Contents (Some fc))]
                   \<and> StatusCode_is err StatusConflict
                   \<and> rs_opts s2 = opts\<lparr>opt_SHA := Some (GetString (content_SHA fc))\<rparr>
                   \<and> rs_err s2 = Some err"
      using c o2 e2 by blast
    show ?thesis by (rule II [OF c1 c2 disc c4 c5 first2 c7]) simp
  qed
  have two: "transcript (rs_run s2) = ?B @ T @ [?W (rs_opts s1) (Reply_error err), ?G fetched]
      \<and> length (filter is_write (T @ [?W (rs_opts s1) (Reply_error err), ?G fetched])) \<le> maxRetries
      \<and> retries_disciplined True (?B @ T @ [?W (rs_opts s1) (Reply_error err), ?G fetched])
      \<and> (\<exists>answer rest. T @ [?W (rs_opts s1) (Reply_error err), ?G fetched]
             = ?W (rs_opts st0) answer # rest)
      \<and> (\<forall>e \<in> set (butlast (T @ [?W (rs_opts s1) (Reply_error err), ?G fetched])).
             \<not> failed_otherwise e)"
    if less: "a < maxRetries" and inv: "I a s1" and T: "transcript (rs_run s1) = ?B @ T"
      and n: "length (filter is_write T) = a"
      and ok: "\<forall>e \<in> set T. \<not> failed_otherwise e"
      and c: "StatusCode_is err StatusConflict"
      and t2: "transcript (rs_run s2) = transcript (rs_run s1)
           @ [?W (rs_opts s1) (Reply_error err), ?G fetched]"
    for a s1 s2 T err fetched
  proof -
    let ?T2 = "T @ [?W (rs_opts s1) (Reply_error err), ?G fetched]"
    from new_write [OF inv T, of "Reply_error err"]
    have w: "retries_disciplined True (?B @ T @ [?W (rs_opts s1) (Reply_error err)])"
      and first: "\<exists>answer' rest. T @ [?W (rs_opts s1) (Reply_error err)]
                    = ?W (rs_opts st0) answer' # rest" by blast+
    from w have "retries_disciplined True
        ((?B @ T @ [?W (rs_opts s1) (Reply_error err)]) @ [?G fetched])"
      by (rule disciplined_snoc_quiet) simp
    then have disc: "retries_disciplined True (?B @ ?T2)" by simp
    from first obtain answer' rest where
      "T @ [?W (rs_opts s1) (Reply_error err)] = ?W (rs_opts st0) answer' # rest" by blast
    then have "?T2 = ?W (rs_opts st0) answer' # (rest @ [?G fetched])" by simp
    then have first2: "\<exists>answer rest. ?T2 = ?W (rs_opts st0) answer # rest" by blast
    have q1: "transcript (rs_run s2) = ?B @ ?T2" using T t2 by simp
    have q2: "length (filter is_write ?T2) \<le> maxRetries" using n less by simp
    have "butlast ?T2 = T @ [?W (rs_opts s1) (Reply_error err)]"
      by (simp add: butlast_append)
    then have q6: "\<forall>e \<in> set (butlast ?T2). \<not> failed_otherwise e"
      using ok c by simp
    from q1 q2 disc first2 q6 show ?thesis by blast
  qed
  have one: "transcript (rs_run s2) = ?B @ T @ [?W (rs_opts s1) answer]
      \<and> length (filter is_write (T @ [?W (rs_opts s1) answer])) \<le> maxRetries
      \<and> retries_disciplined True (?B @ T @ [?W (rs_opts s1) answer])
      \<and> (\<exists>answer' rest. T @ [?W (rs_opts s1) answer] = ?W (rs_opts st0) answer' # rest)
      \<and> (\<forall>e \<in> set (butlast (T @ [?W (rs_opts s1) answer])). \<not> failed_otherwise e)"
    if less: "a < maxRetries" and inv: "I a s1" and T: "transcript (rs_run s1) = ?B @ T"
      and n: "length (filter is_write T) = a"
      and ok: "\<forall>e \<in> set T. \<not> failed_otherwise e"
      and t2: "transcript (rs_run s2) = transcript (rs_run s1) @ [?W (rs_opts s1) answer]"
    for a s1 s2 T answer
  proof -
    let ?T2 = "T @ [?W (rs_opts s1) answer]"
    from new_write [OF inv T, of answer]
    have disc: "retries_disciplined True (?B @ ?T2)"
      and first: "\<exists>answer' rest. ?T2 = ?W (rs_opts st0) answer' # rest" by blast+
    have q1: "transcript (rs_run s2) = ?B @ ?T2" using T t2 by simp
    have q2: "length (filter is_write ?T2) \<le> maxRetries" using n less by simp
    have q6: "\<forall>e \<in> set (butlast ?T2). \<not> failed_otherwise e" using ok by simp
    from q1 q2 disc first q6 show ?thesis by blast
  qed
  have break: "Q Broken s2"
    if less: "a < maxRetries" and inv: "I a s1"
      and body: "Delete_attempt c owner repoName filePath state s1 = (Break, s2)" for a s1 s2
  proof -
    from inv obtain T where T: "transcript (rs_run s1) = ?B @ T"
      and n: "length (filter is_write T) = a"
      and ok: "\<forall>e \<in> set T. \<not> failed_otherwise e"
      and dg: "rs_Diagnostics s1 = rs_Diagnostics st0"
      by (auto simp: I_def)
    have d2: "rs_Diagnostics s2 = rs_Diagnostics st0"
      using Delete_attempt_Break(2) [OF body] dg by simp
    from Delete_attempt_Break(1) [OF body]
    consider (failure) err where "\<not> StatusCode_is err StatusConflict"
        "\<not> StatusCode_is err StatusNotFound"
        "transcript (rs_run s2) = transcript (rs_run s1) @ [?W (rs_opts s1) (Reply_error err)]"
        "rs_err s2 = Some err"
      | (no_file) err fetched where "StatusCode_is err StatusConflict"
        "transcript (rs_run s2) = transcript (rs_run s1)
           @ [?W (rs_opts s1) (Reply_error err), ?G fetched]"
        "rs_err s2 = Some err"
      by blast
    then show ?thesis
    proof cases
      case failure
      from one [OF less inv T n ok failure(3)]
      show ?thesis
        by (intro QI [where ?T2.0 = "T @ [?W (rs_opts s1) (Reply_error err)]"])
          (use d2 failure in auto)
    next
      case no_file
      from two [OF less inv T n ok no_file(1,2)]
      show ?thesis
        by (intro QI [where ?T2.0 = "T @ [?W (rs_opts s1) (Reply_error err), ?G fetched]"])
          (use d2 no_file in auto)
    qed
  qed
  have return: "Q Returned s2"
    if less: "a < maxRetries" and inv: "I a s1"
      and body: "Delete_attempt c owner repoName filePath state s1 = (Return, s2)" for a s1 s2
  proof -
    from inv obtain T where T: "transcript (rs_run s1) = ?B @ T"
      and n: "length (filter is_write T) = a"
      and ok: "\<forall>e \<in> set T. \<not> failed_otherwise e"
      and dg: "rs_Diagnostics s1 = rs_Diagnostics st0"
      by (auto simp: I_def)
    have d2: "rs_Diagnostics s2 = rs_Diagnostics st0"
      using Delete_attempt_Return(2) [OF body] dg by simp
    from Delete_attempt_Return(1) [OF body]
    consider (success) deleted where
        "transcript (rs_run s2) = transcript (rs_run s1)
           @ [?W (rs_opts s1) (Reply_ContentResponse deleted)]"
      | (gone) err where "StatusCode_is err StatusNotFound"
        "transcript (rs_run s2) = transcript (rs_run s1) @ [?W (rs_opts s1) (Reply_error err)]"
      | (gone_later) err readErr where "StatusCode_is err StatusConflict"
        "StatusCode_is readErr StatusNotFound"
        "transcript (rs_run s2) = transcript (rs_run s1)
           @ [?W (rs_opts s1) (Reply_error err), ?G (Reply_error readErr)]"
      by blast
    then show ?thesis
    proof cases
      case success
      from one [OF less inv T n ok success(1)]
      show ?thesis
        by (intro QI [where ?T2.0 = "T @ [?W (rs_opts s1) (Reply_ContentResponse deleted)]"])
          (use d2 in auto)
    next
      case gone
      from one [OF less inv T n ok gone(2)]
      show ?thesis
        by (intro QI [where ?T2.0 = "T @ [?W (rs_opts s1) (Reply_error err)]"])
          (use d2 gone in auto)
    next
      case gone_later
      from two [OF less inv T n ok gone_later(1,3)]
      show ?thesis
        by (intro QI [where ?T2.0 = "T @ [?W (rs_opts s1) (Reply_error err),
                                          ?G (Reply_error readErr)]"])
          (use d2 gone_later in auto)
    qed
  qed
  have exhausted: "Q Exhausted s1" if inv: "I maxRetries s1" for s1
  proof -
    have pos: "0 < maxRetries" by (simp add: maxRetries_def)
    from inv pos obtain T where
      T: "transcript (rs_run s1) = ?B @ T"
      and n: "length (filter is_write T) = maxRetries"
      and ok: "\<forall>e \<in> set T. \<not> failed_otherwise e"
      and dg: "rs_Diagnostics s1 = rs_Diagnostics st0"
      and disc: "retries_disciplined True (?B @ T)"
      and first': "\<exists>answer rest. T = ?W (rs_opts st0) answer # rest"
      and tail: "\<exists>T' opts err fc. T = T' @ [?W opts (Reply_error err), ?G (Reply_Contents (Some fc))]
                   \<and> StatusCode_is err StatusConflict
                   \<and> rs_opts s1 = opts\<lparr>opt_SHA := Some (GetString (content_SHA fc))\<rparr>
                   \<and> rs_err s1 = Some err"
      unfolding I_def by blast
    from tail obtain T' opts err fc where
      t: "T = T' @ [?W opts (Reply_error err), ?G (Reply_Contents (Some fc))]"
      and e: "rs_err s1 = Some err" by blast
    have q2: "length (filter is_write T) \<le> maxRetries" using n by simp
    have q6: "\<forall>e \<in> set (butlast T). \<not> failed_otherwise e"
      using ok by (meson in_set_butlastD)
    have q8: "Exhausted \<noteq> Returned \<longrightarrow>
                 (\<exists>err. rs_err s1 = Some err)
               \<and> \<not> (\<exists>cl err. last T = Called cl (Reply_error err) \<and> is_write_call cl
                      \<and> StatusCode_is err StatusNotFound)"
      using e by (subst t) simp
    show ?thesis
      by (rule QI [OF T q2 disc first' dg q6 _ q8]) simp
  qed
  have "Q (fst (for_loop maxRetries (Delete_attempt c owner repoName filePath state) 0 st0))
          (snd (for_loop maxRetries (Delete_attempt c owner repoName filePath state) 0 st0))"
    using init _ continue break return exhausted
    by (rule for_loop_rule [where I = I and Q = Q]) simp_all
  with loop show ?thesis by (simp add: Q_def)
qed

lemma answered_not_found_simps [simp]:
  "answered_not_found (Called cl (Reply_error err)) = StatusCode_is err StatusNotFound"
  "answered_not_found (Called cl (Reply_ContentResponse cr)) = False"
  "answered_not_found (Called cl (Reply_Contents fc)) = False"
  "answered_not_found (Slept n) = False"
  by (simp_all add: answered_not_found_def)

lemma checkAndCreateBranchIfNeeded_keeps:
  "checkAndCreateBranchIfNeeded c owner repo model diags s = ((go_on, model', diags'), s')
    \<Longrightarrow> m_SHA model' = m_SHA model \<and> (go_on \<longrightarrow> diags' = diags)"
  unfolding checkAndCreateBranchIfNeeded_def Let_def
  by (auto split: if_splits prod.splits sum.splits option.splits)

lemma Delete_decompose:
  assumes st: "delete_State req = (state_diags, state)"
  shows "(\<exists>resp s'. Delete r req resp0 s = (resp, s') \<and> quiet s s')
       \<or> (\<exists>c owner repoName filePath state1 opts resp1 s2 left st.
             quiet s s2
           \<and> \<not> HasError (Diagnostics resp1)
           \<and> opt_SHA opts = (if is_set (m_SHA state) then Some (ValueString (m_SHA state)) else None)
           \<and> for_loop maxRetries (Delete_attempt c owner repoName filePath state1) 0
               \<lparr>rs_opts = opts, rs_create = None, rs_err = None,
                rs_Diagnostics = Diagnostics resp1, rs_run = s2\<rparr> = (left, st)
           \<and> (if left = Returned then Delete r req resp0 s = (resp1, rs_run st)
              else case rs_err st of
                Some err \<Rightarrow>
                  Delete r req resp0 s
                    = (resp1\<lparr>Diagnostics := AddError (Diagnostics resp1) ''Error deleting file''
                          (''Unable to delete file '' @ filePath @ '' from repository '' @ owner
                            @ ''/'' @ repoName @ '' after '' @ format_d (int maxRetries)
                            @ '' attempts: '' @ Error err)\<rparr>, rs_run st)
              | None \<Rightarrow> Delete r req resp0 s = (resp1, rs_run st)))"
proof -
  let ?resp = "resp0\<lparr>Diagnostics := Append (Diagnostics resp0) state_diags\<rparr>"
  show ?thesis
  proof (cases "HasError (Diagnostics ?resp)")
    case True
    then have "Delete r req resp0 s = (?resp, s)"
      by (simp add: Delete_def st)
    then show ?thesis by (auto intro: quiet_refl)
  next
    case noerr: False
    show ?thesis
    proof (cases "r_client r")
      case None
      with noerr have "\<exists>resp. Delete r req resp0 s = (resp, s)"
        by (simp add: Delete_def st)
      then show ?thesis by (auto intro: quiet_refl)
    next
      case (Some c)
      obtain own s1 where go: "getOwner c r s = (own, s1)" by (cases "getOwner c r s")
      then have q1: "quiet s s1" by (rule getOwner_quiet)
      show ?thesis
      proof (cases own)
        case (Inl err)
        with noerr Some go have "\<exists>resp. Delete r req resp0 s = (resp, s1)"
          by (simp add: Delete_def st)
        with q1 show ?thesis by auto
      next
        case (Inr owner)
        note base = noerr Some go Inr
        show ?thesis
        proof (cases "ValueString (m_ID state) = []")
          case True
          with base have "\<exists>resp. Delete r req resp0 s = (resp, s1)"
            by (simp add: Delete_def st Let_def)
          with q1 show ?thesis by auto
        next
          case idok: False
          show ?thesis
          proof (cases "\<exists>repoName filePath.
                   strings_SplitN (ValueString (m_ID state)) (CHR '':'') 2 = [repoName, filePath]")
            case False
            with base idok have "\<exists>resp. Delete r req resp0 s = (resp, s1)"
              by (auto simp: Delete_def st Let_def split: list.splits)
            with q1 show ?thesis by auto
          next
            case True
            then obtain repoName filePath where
              sp: "strings_SplitN (ValueString (m_ID state)) (CHR '':'') 2 = [repoName, filePath]"
              by blast
            obtain go_on state1 diags1 s2 where
              ck: "checkAndCreateBranchIfNeeded c owner repoName state (Diagnostics ?resp) s1
                     = ((go_on, state1, diags1), s2)"
              by (metis prod.exhaust)
            then have q2: "quiet s1 s2" by (rule checkAndCreateBranchIfNeeded_quiet)
            with q1 have q02: "quiet s s2" by (rule quiet_trans)
            from checkAndCreateBranchIfNeeded_keeps [OF ck]
            have keep: "m_SHA state1 = m_SHA state" "go_on \<longrightarrow> diags1 = Diagnostics ?resp"
              by blast+
            show ?thesis
            proof (cases go_on)
              case False
              with base idok sp ck have "\<exists>resp. Delete r req resp0 s = (resp, s2)"
                by (simp add: Delete_def st Let_def)
              with q02 show ?thesis by auto
            next
              case go_on: True
              show ?thesis
              proof (cases "buildFileOptions state1 []")
                case (Inl diags)
                with base idok sp ck go_on
                have "\<exists>resp. Delete r req resp0 s = (resp, s2)"
                  by (simp add: Delete_def st Let_def)
                with q02 show ?thesis by auto
              next
                case (Inr opts0)
                let ?default = "opt_Message opts0 = None \<or> opt_Message opts0 = Some []
                       \<or> opt_Message opts0 = Some (''Add '' @ filePath)"
                let ?opts1 = "if ?default then opts0\<lparr>opt_Message := Some (''Delete '' @ filePath)\<rparr>
                              else opts0"
                let ?opts = "if is_set (m_SHA state)
                         then ?opts1\<lparr>opt_SHA := Some (ValueString (m_SHA state))\<rparr> else ?opts1"
                let ?resp1 = "?resp\<lparr>Diagnostics := diags1\<rparr>"
                let ?st0 = "\<lparr>rs_opts = ?opts, rs_create = None, rs_err = None,
                             rs_Diagnostics = Diagnostics ?resp1, rs_run = s2\<rparr>"
                obtain left stf where
                  lp: "for_loop maxRetries (Delete_attempt c owner repoName filePath state1) 0 ?st0
                         = (left, stf)"
                  by (metis prod.exhaust)
                have sha: "opt_SHA ?opts
                     = (if is_set (m_SHA state) then Some (ValueString (m_SHA state)) else None)"
                  using buildFileOptions_SHA [OF Inr] by simp
                have ne: "\<not> HasError (Diagnostics ?resp1)"
                  using noerr keep(2) go_on by simp
                have unfold: "Delete r req resp0 s =
                   (case (left, stf) of
                      (Returned, st) \<Rightarrow> (?resp1, rs_run st)
                    | (left, st) \<Rightarrow>
                       (case rs_err st of
                          Some err \<Rightarrow>
                            (?resp1\<lparr>Diagnostics := AddError (Diagnostics ?resp1) ''Error deleting file''
                               (''Unable to delete file '' @ filePath @ '' from repository '' @ owner
                                 @ ''/'' @ repoName @ '' after '' @ format_d (int maxRetries)
                                 @ '' attempts: '' @ Error err)\<rparr>, rs_run st)
                        | None \<Rightarrow> (?resp1, rs_run st)))"
                proof (cases "is_set (m_SHA state)")
                  case sha: True
                  show ?thesis
                  proof (cases ?default)
                    case True
                    then show ?thesis
                      using sha base idok sp ck go_on Inr lp keep(1)
                      by (elim disjE) (simp_all add: Delete_def st Let_def
                          cong: option.case_cong prod.case_cong loop_end.case_cong)
                  next
                    case False
                    then obtain m where "opt_Message opts0 = Some m" "m \<noteq> []"
                        "m \<noteq> ''Add '' @ filePath"
                      by (cases "opt_Message opts0") auto
                    then show ?thesis
                      using sha base idok sp ck go_on Inr lp keep(1)
                      by (simp add: Delete_def st Let_def
                          cong: option.case_cong prod.case_cong loop_end.case_cong)
                  qed
                next
                  case sha: False
                  show ?thesis
                  proof (cases ?default)
                    case True
                    then show ?thesis
                      using sha base idok sp ck go_on Inr lp keep(1)
                      by (elim disjE) (simp_all add: Delete_def st Let_def
                          cong: option.case_cong prod.case_cong loop_end.case_cong)
                  next
                    case False
                    then obtain m where "opt_Message opts0 = Some m" "m \<noteq> []"
                        "m \<noteq> ''Add '' @ filePath"
                      by (cases "opt_Message opts0") auto
                    then show ?thesis
                      using sha base idok sp ck go_on Inr lp keep(1)
                      by (simp add: Delete_def st Let_def
                          cong: option.case_cong prod.case_cong loop_end.case_cong)
                  qed
                qed
                have fin: "if left = Returned then Delete r req resp0 s = (?resp1, rs_run stf)
                   else case rs_err stf of
                    Some err \<Rightarrow>
                      Delete r req resp0 s
                        = (?resp1\<lparr>Diagnostics := AddError (Diagnostics ?resp1) ''Error deleting file''
                              (''Unable to delete file '' @ filePath @ '' from repository '' @ owner
                                @ ''/'' @ repoName @ '' after '' @ format_d (int maxRetries)
                                @ '' attempts: '' @ Error err)\<rparr>, rs_run stf)
                  | None \<Rightarrow> Delete r req resp0 s = (?resp1, rs_run stf)"
                  unfolding unfold
                  by (cases left) (simp_all split: option.splits)
                from q02 ne sha lp fin show ?thesis by blast
              qed
            qed
          qed
        qed
      qed
    qed
  qed
qed

lemma Delete_run:
  assumes st: "delete_State req = (state_diags, state)"
    and fresh: "no_writes (transcript s)"
  shows "\<exists>resp s'. Delete r req resp0 s = (resp, s')
      \<and> length (filter is_write (transcript s')) \<le> maxRetries
      \<and> retries_disciplined True (transcript s')
      \<and> (\<forall>w. first_write (transcript s') = Some w \<longrightarrow>
            (\<exists>owner repo path opts answer.
               w = Called (Call_Repositories_DeleteFile owner repo path opts) answer
               \<and> opt_SHA opts = (if is_set (m_SHA state)
                                  then Some (ValueString (m_SHA state)) else None)))
      \<and> (\<forall>pre e post. transcript s' = pre @ e # post \<and> failed_otherwise e \<longrightarrow>
            post = [] \<and> (\<not> answered_not_found e \<longrightarrow>
                           (\<exists>detail. ErrorDiagnostic ''Error deleting file'' detail
                                    \<in> set (Diagnostics resp))))
      \<and> (\<forall>cl err. filter is_write (transcript s') \<noteq> []
            \<and> last (filter is_write (transcript s')) = Called cl (Reply_error err)
            \<and> \<not> StatusCode_is err StatusNotFound
            \<and> \<not> answered_not_found (last (transcript s')) \<longrightarrow>
            (\<exists>detail. ErrorDiagnostic ''Error deleting file'' detail \<in> set (Diagnostics resp)))
      \<and> (\<forall>pre e. transcript s' = pre @ [e] \<and> is_write e \<and> answered_not_found e \<longrightarrow>
            \<not> HasError (Diagnostics resp))"
proof -
  from Delete_decompose [OF st, of r resp0 s]
  consider (early) resp s' where "Delete r req resp0 s = (resp, s')" "quiet s s'"
    | (loop) c owner repoName filePath state1 opts resp1 s2 left stf where
        "quiet s s2"
        "\<not> HasError (Diagnostics resp1)"
        "opt_SHA opts = (if is_set (m_SHA state) then Some (ValueString (m_SHA state)) else None)"
        "for_loop maxRetries (Delete_attempt c owner repoName filePath state1) 0
               \<lparr>rs_opts = opts, rs_create = None, rs_err = None,
                rs_Diagnostics = Diagnostics resp1, rs_run = s2\<rparr> = (left, stf)"
        "if left = Returned then Delete r req resp0 s = (resp1, rs_run stf)
              else case rs_err stf of
                Some err \<Rightarrow>
                  Delete r req resp0 s
                    = (resp1\<lparr>Diagnostics := AddError (Diagnostics resp1) ''Error deleting file''
                          (''Unable to delete file '' @ filePath @ '' from repository '' @ owner
                            @ ''/'' @ repoName @ '' after '' @ format_d (int maxRetries)
                            @ '' attempts: '' @ Error err)\<rparr>, rs_run stf)
              | None \<Rightarrow> Delete r req resp0 s = (resp1, rs_run stf)"
    by blast
  then show ?thesis
  proof cases
    case early
    from early(2) fresh have nw: "no_writes (transcript s')" by (auto simp: quiet_def)
    have "\<not> failed_otherwise e" if "transcript s' = pre @ e # post" for pre e post
      using no_writes_not_failed [OF nw, of e] that by simp
    moreover have "\<not> is_write e" if "transcript s' = pre @ [e]" for pre e
      using nw that by (simp add: no_writes_def)
    ultimately show ?thesis using early(1) nw
      by (auto simp: no_writes_filter disciplined_no_writes first_write_none)
  next
    case loop
    let ?st0 = "\<lparr>rs_opts = opts, rs_create = None, rs_err = None,
                rs_Diagnostics = Diagnostics resp1, rs_run = s2\<rparr>"
    let ?W = "\<lambda>opts answer. Called (Call_Repositories_DeleteFile owner repoName filePath opts) answer"
    let ?G = "\<lambda>fetched. Called (Call_Repositories_GetContents owner repoName filePath
                          (branch_GetOptions state1)) fetched"
    let ?TT = "transcript (rs_run stf)"
    from loop(1) fresh have B: "no_writes (transcript s2)" by (auto simp: quiet_def)
    then have B0: "no_writes (transcript (rs_run ?st0))" by simp
    from Delete_loop [OF B0 loop(4)] obtain T where all:
      "?TT = transcript s2 @ T
           \<and> length (filter is_write T) \<le> maxRetries
           \<and> retries_disciplined True ?TT
           \<and> (\<exists>answer rest. T = ?W opts answer # rest)
           \<and> rs_Diagnostics stf = Diagnostics resp1
           \<and> (\<forall>e \<in> set (butlast T). \<not> failed_otherwise e)
           \<and> (left = Returned \<longrightarrow>
                 (\<exists>opts deleted. last T = ?W opts (Reply_ContentResponse deleted))
               \<or> (\<exists>opts err. last T = ?W opts (Reply_error err) \<and> StatusCode_is err StatusNotFound)
               \<or> (\<exists>readErr. last T = ?G (Reply_error readErr)
                      \<and> StatusCode_is readErr StatusNotFound))
           \<and> (left \<noteq> Returned \<longrightarrow>
                 (\<exists>err. rs_err stf = Some err)
               \<and> \<not> (\<exists>cl err. last T = Called cl (Reply_error err) \<and> is_write_call cl
                      \<and> StatusCode_is err StatusNotFound))"
      unfolding retry_state.simps by (elim exE)
    then have T: "?TT = transcript s2 @ T"
      and n: "length (filter is_write T) \<le> maxRetries"
      and disc: "retries_disciplined True ?TT"
      and first: "\<exists>answer rest. T = ?W opts answer # rest"
      and bl: "\<forall>e \<in> set (butlast T). \<not> failed_otherwise e"
      and ret: "left = Returned \<longrightarrow>
                 (\<exists>opts deleted. last T = ?W opts (Reply_ContentResponse deleted))
               \<or> (\<exists>opts err. last T = ?W opts (Reply_error err) \<and> StatusCode_is err StatusNotFound)
               \<or> (\<exists>readErr. last T = ?G (Reply_error readErr)
                      \<and> StatusCode_is readErr StatusNotFound)"
      and nret: "left \<noteq> Returned \<longrightarrow>
                 (\<exists>err. rs_err stf = Some err)
               \<and> \<not> (\<exists>cl err. last T = Called cl (Reply_error err) \<and> is_write_call cl
                      \<and> StatusCode_is err StatusNotFound)"
      by blast+
    from first obtain answer rest where Tcons: "T = ?W opts answer # rest" by blast
    then have Tne: "T \<noteq> []" by simp
    have lastTT: "last ?TT = last T" using Tne by (simp add: T)
    have filt: "filter is_write ?TT = filter is_write T"
      using B by (simp add: T no_writes_filter)
    have bl2: "\<forall>e \<in> set (butlast ?TT). \<not> failed_otherwise e"
      using bl B Tne by (auto simp: T butlast_append dest: no_writes_not_failed)
    have d: "post = [] \<and> e = last T" if "?TT = pre @ e # post" "failed_otherwise e"
      for pre e post
    proof -
      have "post = []" using only_last [OF bl2 that] .
      with that(1) lastTT show ?thesis by simp
    qed
    have fw: "first_write ?TT = Some (?W opts answer)"
      using B Tcons by (simp add: T)
    have ga: "length (filter is_write ?TT) \<le> maxRetries" using n filt by simp
    have gc: "\<forall>w. first_write ?TT = Some w \<longrightarrow>
            (\<exists>owner repo path opts answer.
               w = Called (Call_Repositories_DeleteFile owner repo path opts) answer
               \<and> opt_SHA opts = (if is_set (m_SHA state)
                                  then Some (ValueString (m_SHA state)) else None))"
      using fw loop(3) by auto
    show ?thesis
    proof (cases "left = Returned")
      case True
      from True loop(5) have up: "Delete r req resp0 s = (resp1, rs_run stf)" by simp
      from True ret consider
        (success) opts' deleted where "last T = ?W opts' (Reply_ContentResponse deleted)"
        | (gone) opts' err where "last T = ?W opts' (Reply_error err)"
            "StatusCode_is err StatusNotFound"
        | (gone_later) readErr where "last T = ?G (Reply_error readErr)"
            "StatusCode_is readErr StatusNotFound"
        by blast
      then have lastT: "(failed_otherwise (last T) \<longrightarrow> answered_not_found (last T))
          \<and> (\<forall>cl err. last (filter is_write T) = Called cl (Reply_error err)
                \<and> \<not> StatusCode_is err StatusNotFound \<longrightarrow> answered_not_found (last T))"
      proof cases
        case success
        then have "last (filter is_write T) = last T"
          using Tne by (intro last_filter_last) simp_all
        with success show ?thesis by simp
      next
        case gone
        then have "last (filter is_write T) = last T"
          using Tne by (intro last_filter_last) simp_all
        with gone show ?thesis by simp
      next
        case gone_later
        then show ?thesis by simp
      qed
      have gd: "\<forall>pre e post. ?TT = pre @ e # post \<and> failed_otherwise e \<longrightarrow>
            post = [] \<and> (\<not> answered_not_found e \<longrightarrow>
                           (\<exists>detail. ErrorDiagnostic ''Error deleting file'' detail
                                    \<in> set (Diagnostics resp1)))"
        using d lastT by blast
      have ge: "\<forall>cl err. filter is_write ?TT \<noteq> []
            \<and> last (filter is_write ?TT) = Called cl (Reply_error err)
            \<and> \<not> StatusCode_is err StatusNotFound
            \<and> \<not> answered_not_found (last ?TT) \<longrightarrow>
            (\<exists>detail. ErrorDiagnostic ''Error deleting file'' detail \<in> set (Diagnostics resp1))"
        using lastT unfolding filt lastTT by blast
      have gf: "\<forall>pre e. ?TT = pre @ [e] \<and> is_write e \<and> answered_not_found e \<longrightarrow>
            \<not> HasError (Diagnostics resp1)"
        using loop(2) by blast
      show ?thesis
        unfolding up by (intro exI conjI) (rule refl ga disc gc gd ge gf)+
    next
      case False
      with nret obtain err where e: "rs_err stf = Some err"
        and no404: "\<not> (\<exists>cl err. last T = Called cl (Reply_error err) \<and> is_write_call cl
                      \<and> StatusCode_is err StatusNotFound)" by blast
      let ?resp = "resp1\<lparr>Diagnostics := AddError (Diagnostics resp1) ''Error deleting file''
                          (''Unable to delete file '' @ filePath @ '' from repository '' @ owner
                            @ ''/'' @ repoName @ '' after '' @ format_d (int maxRetries)
                            @ '' attempts: '' @ Error err)\<rparr>"
      from False e loop(5) have up: "Delete r req resp0 s = (?resp, rs_run stf)" by simp
      have diag: "\<exists>detail. ErrorDiagnostic ''Error deleting file'' detail
                                    \<in> set (Diagnostics ?resp)"
        using in_AddError by auto
      have gd: "\<forall>pre e post. ?TT = pre @ e # post \<and> failed_otherwise e \<longrightarrow>
            post = [] \<and> (\<not> answered_not_found e \<longrightarrow>
                           (\<exists>detail. ErrorDiagnostic ''Error deleting file'' detail
                                    \<in> set (Diagnostics ?resp)))"
        using d diag by blast
      have ge: "\<forall>cl err. filter is_write ?TT \<noteq> []
            \<and> last (filter is_write ?TT) = Called cl (Reply_error err)
            \<and> \<not> StatusCode_is err StatusNotFound
            \<and> \<not> answered_not_found (last ?TT) \<longrightarrow>
            (\<exists>detail. ErrorDiagnostic ''Error deleting file'' detail \<in> set (Diagnostics ?resp))"
        using diag by blast
      have "\<not> (is_write e \<and> answered_not_found e)" if "?TT = pre @ [e]" for pre e
      proof -
        from that lastTT have "last T = e" by simp
        with no404 show ?thesis
          by (cases e) (auto simp: answered_not_found_def split: reply.splits)
      qed
      then have gf: "\<forall>pre e. ?TT = pre @ [e] \<and> is_write e \<and> answered_not_found e \<longrightarrow>
            \<not> HasError (Diagnostics ?resp)"
        by blast
      show ?thesis
        unfolding up by (intro exI conjI) (rule refl ga disc gc gd ge gf)+
    qed
  qed
qed

section \<open>The retry loop of Create\<close>

lemma retry_after_CreateFile_fetched:
  "StatusCode_is err StatusConflict \<Longrightarrow> fetched_options strict fetched opts = Some opts' \<Longrightarrow>
   retry_after strict
     (Called (Call_Repositories_CreateFile owner repo path opts) (Reply_error err))
     (Called (Call_Repositories_GetContents owner repo path getOpts) fetched)
     (Called (Call_Repositories_CreateFile owner repo path opts') answer)"
  unfolding retry_after_def
  by (intro exI [of _ owner] exI [of _ repo] exI [of _ path] exI [of _ opts] exI [of _ err]
      exI [of _ getOpts] exI [of _ fetched] exI [of _ opts'] exI [of _ answer]) simp

lemma failed_otherwise_read [simp]:
  "\<not> is_write_call c \<Longrightarrow> failed_otherwise (Called c answer) = False"
  by (simp add: failed_otherwise_def split: reply.splits)

lemma Create_attempt_Break:
  assumes "Create_attempt c owner repoName filePath plan st = (Break, st')"
  shows "(\<exists>create. transcript (rs_run st') = transcript (rs_run st)
              @ [Called (Call_Repositories_CreateFile owner repoName filePath (rs_opts st))
                   (Reply_ContentResponse create)]
            \<and> rs_err st' = None \<and> rs_create st' = Some create)
       \<or> (\<exists>err. \<not> StatusCode_is err StatusConflict
            \<and> transcript (rs_run st') = transcript (rs_run st)
              @ [Called (Call_Repositories_CreateFile owner repoName filePath (rs_opts st))
                   (Reply_error err)]
            \<and> rs_err st' = Some err \<and> rs_create st' = None)"
    and "rs_Diagnostics st' = rs_Diagnostics st"
  using assms
  by (auto simp: Create_attempt_def Let_def
      split: prod.splits sum.splits if_splits option.splits elim!: invokeE)

lemma Create_attempt_Continue:
  assumes "Create_attempt c owner repoName filePath plan st = (Continue, st')"
  shows "\<exists>err fetched. StatusCode_is err StatusConflict
            \<and> transcript (rs_run st') = transcript (rs_run st)
              @ [Called (Call_Repositories_CreateFile owner repoName filePath (rs_opts st))
                   (Reply_error err),
                 Called (Call_Repositories_GetContents owner repoName filePath
                   (branch_GetOptions plan)) fetched]
            \<and> fetched_options False fetched (rs_opts st) = Some (rs_opts st')
            \<and> rs_err st' = Some err \<and> rs_create st' = None
            \<and> rs_Diagnostics st' = rs_Diagnostics st"
  using assms
  by (auto simp: Create_attempt_def Let_def
      split: prod.splits sum.splits if_splits option.splits elim!: invokeE)

lemma Create_attempt_Return:
  assumes "Create_attempt c owner repoName filePath plan st = (Return, st')"
  shows "\<exists>err fc. StatusCode_is err StatusConflict
            \<and> transcript (rs_run st') = transcript (rs_run st)
              @ [Called (Call_Repositories_CreateFile owner repoName filePath (rs_opts st))
                   (Reply_error err),
                 Called (Call_Repositories_GetContents owner repoName filePath
                   (branch_GetOptions plan)) (Reply_Contents (Some fc))]
            \<and> \<not> ValueBool (m_OverwriteOnCreate plan)
            \<and> rs_err st' = Some err \<and> rs_create st' = None
            \<and> (\<exists>detail. rs_Diagnostics st'
                  = AddError (rs_Diagnostics st) ''File Already Exists'' detail)"
  using assms
  by (auto simp: Create_attempt_def Let_def
      split: prod.splits sum.splits if_splits option.splits elim!: invokeE)

lemma Create_loop:
  assumes quiet0: "no_writes (transcript (rs_run st0))"
    and loop: "for_loop maxRetries (Create_attempt c owner repoName filePath plan) 0 st0 = (left, st)"
  shows "\<exists>T. transcript (rs_run st) = transcript (rs_run st0) @ T
           \<and> length (filter is_write T) \<le> maxRetries
           \<and> retries_disciplined False (transcript (rs_run st))
           \<and> (\<exists>answer rest. T = Called (Call_Repositories_CreateFile owner repoName filePath
                                          (rs_opts st0)) answer # rest)
           \<and> (if left = Returned
               then \<exists>detail. rs_Diagnostics st
                      = AddError (rs_Diagnostics st0) ''File Already Exists'' detail
               else rs_Diagnostics st = rs_Diagnostics st0)
           \<and> (\<forall>e \<in> set (butlast T). \<not> failed_otherwise e)
           \<and> (\<forall>e. failed_otherwise e \<and> T \<noteq> [] \<and> last T = e \<longrightarrow>
                 (\<exists>cl err. e = Called cl (Reply_error err) \<and> rs_err st = Some err
                    \<and> left \<noteq> Returned))
           \<and> (rs_err st = None \<longrightarrow>
                 (\<exists>opts create. rs_create st = Some create
                    \<and> last T = Called (Call_Repositories_CreateFile owner repoName filePath opts)
                                 (Reply_ContentResponse create)))
           \<and> (\<forall>err. rs_err st = Some err \<longrightarrow>
                 (\<exists>opts. last (filter is_write T)
                    = Called (Call_Repositories_CreateFile owner repoName filePath opts)
                        (Reply_error err)))"
proof -
  let ?B = "transcript (rs_run st0)"
  let ?W = "\<lambda>opts answer. Called (Call_Repositories_CreateFile owner repoName filePath opts) answer"
  let ?G = "\<lambda>fetched. Called (Call_Repositories_GetContents owner repoName filePath
                          (branch_GetOptions plan)) fetched"
  define I where "I = (\<lambda>(a::nat) (st::'a retry_state).
     \<exists>T. transcript (rs_run st) = ?B @ T
       \<and> length (filter is_write T) = a
       \<and> retries_disciplined False (?B @ T)
       \<and> rs_Diagnostics st = rs_Diagnostics st0
       \<and> (\<forall>e \<in> set T. \<not> failed_otherwise e)
       \<and> (a = 0 \<longrightarrow> T = [] \<and> rs_opts st = rs_opts st0)
       \<and> (0 < a \<longrightarrow> (\<exists>answer rest. T = ?W (rs_opts st0) answer # rest)
             \<and> (\<exists>T' opts err fetched. T = T' @ [?W opts (Reply_error err), ?G fetched]
                   \<and> StatusCode_is err StatusConflict
                   \<and> fetched_options False fetched opts = Some (rs_opts st)
                   \<and> rs_err st = Some err)))"
  define Q where "Q = (\<lambda>(left::loop_end) (st::'a retry_state).
     \<exists>T. transcript (rs_run st) = ?B @ T
           \<and> length (filter is_write T) \<le> maxRetries
           \<and> retries_disciplined False (transcript (rs_run st))
           \<and> (\<exists>answer rest. T = ?W (rs_opts st0) answer # rest)
           \<and> (if left = Returned
               then \<exists>detail. rs_Diagnostics st
                      = AddError (rs_Diagnostics st0) ''File Already Exists'' detail
               else rs_Diagnostics st = rs_Diagnostics st0)
           \<and> (\<forall>e \<in> set (butlast T). \<not> failed_otherwise e)
           \<and> (\<forall>e. failed_otherwise e \<and> T \<noteq> [] \<and> last T = e \<longrightarrow>
                 (\<exists>cl err. e = Called cl (Reply_error err) \<and> rs_err st = Some err
                    \<and> left \<noteq> Returned))
           \<and> (rs_err st = None \<longrightarrow>
                 (\<exists>opts create. rs_create st = Some create
                    \<and> last T = ?W opts (Reply_ContentResponse create)))
           \<and> (\<forall>err. rs_err st = Some err \<longrightarrow>
                 (\<exists>opts. last (filter is_write T) = ?W opts (Reply_error err))))"
  have init: "I 0 st0"
    using quiet0 by (simp add: I_def disciplined_no_writes)
  have new_write: "retries_disciplined False (?B @ T @ [?W (rs_opts s1) answer])
        \<and> (\<exists>answer' rest. T @ [?W (rs_opts s1) answer] = ?W (rs_opts st0) answer' # rest)"
    if inv: "I a s1" and T: "transcript (rs_run s1) = ?B @ T" for a s1 T answer
  proof (cases "a = 0")
    case True
    with inv T have "T = []" "rs_opts s1 = rs_opts st0" by (auto simp: I_def)
    with quiet0 show ?thesis by (simp add: disciplined_snoc_first)
  next
    case False
    with inv T obtain T' opts err fetched answer' rest where
      t: "T = T' @ [?W opts (Reply_error err), ?G fetched]"
      and c: "StatusCode_is err StatusConflict"
      and o: "fetched_options False fetched opts = Some (rs_opts s1)"
      and d: "retries_disciplined False (?B @ T)"
      and f: "T = ?W (rs_opts st0) answer' # rest"
      by (auto simp: I_def)
    from d t have "retries_disciplined False
        ((?B @ T') @ [?W opts (Reply_error err), ?G fetched])" by simp
    moreover have "retry_after False (?W opts (Reply_error err)) (?G fetched)
                     (?W (rs_opts s1) answer)"
      using c o by (rule retry_after_CreateFile_fetched)
    ultimately have "retries_disciplined False
        ((?B @ T') @ [?W opts (Reply_error err), ?G fetched, ?W (rs_opts s1) answer])"
      by (rule disciplined_snoc_retry)
    then have "retries_disciplined False (?B @ T @ [?W (rs_opts s1) answer])"
      by (simp add: t)
    moreover from f have "T @ [?W (rs_opts s1) answer]
        = ?W (rs_opts st0) answer' # (rest @ [?W (rs_opts s1) answer])"
      by simp
    ultimately show ?thesis by blast
  qed
  have II: "I a s2"
    if "transcript (rs_run s2) = ?B @ T2" "length (filter is_write T2) = a"
      "retries_disciplined False (?B @ T2)" "rs_Diagnostics s2 = rs_Diagnostics st0"
      "\<forall>e \<in> set T2. \<not> failed_otherwise e"
      "\<exists>answer rest. T2 = ?W (rs_opts st0) answer # rest"
      "\<exists>T' opts err fetched. T2 = T' @ [?W opts (Reply_error err), ?G fetched]
                   \<and> StatusCode_is err StatusConflict
                   \<and> fetched_options False fetched opts = Some (rs_opts s2)
                   \<and> rs_err s2 = Some err"
      "0 < a"
    for a s2 T2
    unfolding I_def using that by blast
  have QI: "Q left s2"
    if "transcript (rs_run s2) = ?B @ T2" "length (filter is_write T2) \<le> maxRetries"
      "retries_disciplined False (?B @ T2)"
      "\<exists>answer rest. T2 = ?W (rs_opts st0) answer # rest"
      "if left = Returned
               then \<exists>detail. rs_Diagnostics s2
                      = AddError (rs_Diagnostics st0) ''File Already Exists'' detail
               else rs_Diagnostics s2 = rs_Diagnostics st0"
      "\<forall>e \<in> set (butlast T2). \<not> failed_otherwise e"
      "\<forall>e. failed_otherwise e \<and> T2 \<noteq> [] \<and> last T2 = e \<longrightarrow>
                 (\<exists>cl err. e = Called cl (Reply_error err) \<and> rs_err s2 = Some err
                    \<and> left \<noteq> Returned)"
      "rs_err s2 = None \<longrightarrow>
                 (\<exists>opts create. rs_create s2 = Some create
                    \<and> last T2 = ?W opts (Reply_ContentResponse create))"
      "\<forall>err. rs_err s2 = Some err \<longrightarrow>
                 (\<exists>opts. last (filter is_write T2) = ?W opts (Reply_error err))"
    for left s2 T2
    unfolding Q_def using that by (intro exI [of _ T2]) simp
  have two: "transcript (rs_run s2) = ?B @ T @ [?W (rs_opts s1) (Reply_error err), ?G fetched]
      \<and> length (filter is_write (T @ [?W (rs_opts s1) (Reply_error err), ?G fetched])) = Suc a
      \<and> retries_disciplined False (?B @ T @ [?W (rs_opts s1) (Reply_error err), ?G fetched])
      \<and> (\<exists>answer rest. T @ [?W (rs_opts s1) (Reply_error err), ?G fetched]
             = ?W (rs_opts st0) answer # rest)
      \<and> (\<forall>e \<in> set (T @ [?W (rs_opts s1) (Reply_error err), ?G fetched]).
             \<not> failed_otherwise e)"
    if inv: "I a s1" and T: "transcript (rs_run s1) = ?B @ T"
      and n: "length (filter is_write T) = a"
      and ok: "\<forall>e \<in> set T. \<not> failed_otherwise e"
      and c: "StatusCode_is err StatusConflict"
      and t2: "transcript (rs_run s2) = transcript (rs_run s1)
           @ [?W (rs_opts s1) (Reply_error err), ?G fetched]"
    for a s1 s2 T err fetched
  proof -
    let ?T2 = "T @ [?W (rs_opts s1) (Reply_error err), ?G fetched]"
    from new_write [OF inv T, of "Reply_error err"]
    have w: "retries_disciplined False (?B @ T @ [?W (rs_opts s1) (Reply_error err)])"
      and first: "\<exists>answer' rest. T @ [?W (rs_opts s1) (Reply_error err)]
                    = ?W (rs_opts st0) answer' # rest" by blast+
    from w have "retries_disciplined False
        ((?B @ T @ [?W (rs_opts s1) (Reply_error err)]) @ [?G fetched])"
      by (rule disciplined_snoc_quiet) simp
    then have disc: "retries_disciplined False (?B @ ?T2)" by simp
    from first obtain answer' rest where
      "T @ [?W (rs_opts s1) (Reply_error err)] = ?W (rs_opts st0) answer' # rest" by blast
    then have "?T2 = ?W (rs_opts st0) answer' # (rest @ [?G fetched])" by simp
    then have first2: "\<exists>answer rest. ?T2 = ?W (rs_opts st0) answer # rest" by blast
    have q1: "transcript (rs_run s2) = ?B @ ?T2" using T t2 by simp
    have q2: "length (filter is_write ?T2) = Suc a" using n by simp
    have q6: "\<forall>e \<in> set ?T2. \<not> failed_otherwise e"
      using ok c by simp
    from q1 q2 disc first2 q6 show ?thesis by blast
  qed
  have continue: "I (Suc a) s2"
    if "a < maxRetries" and inv: "I a s1"
      and body: "Create_attempt c owner repoName filePath plan s1 = (Continue, s2)" for a s1 s2
  proof -
    from inv obtain T where T: "transcript (rs_run s1) = ?B @ T"
      and n: "length (filter is_write T) = a"
      and ok: "\<forall>e \<in> set T. \<not> failed_otherwise e"
      and dg: "rs_Diagnostics s1 = rs_Diagnostics st0"
      by (auto simp: I_def)
    from Create_attempt_Continue [OF body] obtain err fetched where
      c: "StatusCode_is err StatusConflict"
      and t2: "transcript (rs_run s2) = transcript (rs_run s1)
                 @ [?W (rs_opts s1) (Reply_error err), ?G fetched]"
      and o2: "fetched_options False fetched (rs_opts s1) = Some (rs_opts s2)"
      and e2: "rs_err s2 = Some err" and d2: "rs_Diagnostics s2 = rs_Diagnostics s1"
      by blast
    let ?T2 = "T @ [?W (rs_opts s1) (Reply_error err), ?G fetched]"
    from two [OF inv T n ok c t2]
    have c1: "transcript (rs_run s2) = ?B @ ?T2"
      and c2: "length (filter is_write ?T2) = Suc a"
      and disc: "retries_disciplined False (?B @ ?T2)"
      and first2: "\<exists>answer rest. ?T2 = ?W (rs_opts st0) answer # rest"
      and c5: "\<forall>e \<in> set ?T2. \<not> failed_otherwise e"
      by blast+
    have c4: "rs_Diagnostics s2 = rs_Diagnostics st0" using d2 dg by simp
    have c7: "\<exists>T' opts err fetched. ?T2 = T' @ [?W opts (Reply_error err), ?G fetched]
                   \<and> StatusCode_is err StatusConflict
                   \<and> fetched_options False fetched opts = Some (rs_opts s2)
                   \<and> rs_err s2 = Some err"
      using c o2 e2 by blast
    show ?thesis by (rule II [OF c1 c2 disc c4 c5 first2 c7]) simp
  qed
  have break: "Q Broken s2"
    if less: "a < maxRetries" and inv: "I a s1"
      and body: "Create_attempt c owner repoName filePath plan s1 = (Break, s2)" for a s1 s2
  proof -
    from inv obtain T where T: "transcript (rs_run s1) = ?B @ T"
      and n: "length (filter is_write T) = a"
      and ok: "\<forall>e \<in> set T. \<not> failed_otherwise e"
      and dg: "rs_Diagnostics s1 = rs_Diagnostics st0"
      by (auto simp: I_def)
    have d2: "if Broken = Returned
               then \<exists>detail. rs_Diagnostics s2
                      = AddError (rs_Diagnostics st0) ''File Already Exists'' detail
               else rs_Diagnostics s2 = rs_Diagnostics st0"
      using Create_attempt_Break(2) [OF body] dg by simp
    from Create_attempt_Break(1) [OF body]
    consider (success) create where
        "transcript (rs_run s2) = transcript (rs_run s1)
           @ [?W (rs_opts s1) (Reply_ContentResponse create)]"
        "rs_err s2 = None" "rs_create s2 = Some create"
      | (failure) err where "\<not> StatusCode_is err StatusConflict"
        "transcript (rs_run s2) = transcript (rs_run s1) @ [?W (rs_opts s1) (Reply_error err)]"
        "rs_err s2 = Some err"
      by blast
    then show ?thesis
    proof cases
      case success
      let ?T2 = "T @ [?W (rs_opts s1) (Reply_ContentResponse create)]"
      from new_write [OF inv T, of "Reply_ContentResponse create"]
      have disc: "retries_disciplined False (?B @ ?T2)"
        and first: "\<exists>answer' rest. ?T2 = ?W (rs_opts st0) answer' # rest" by blast+
      have q1: "transcript (rs_run s2) = ?B @ ?T2" using T success by simp
      have q2: "length (filter is_write ?T2) \<le> maxRetries" using n less by simp
      have q6: "\<forall>e \<in> set (butlast ?T2). \<not> failed_otherwise e" using ok by simp
      show ?thesis
        by (rule QI [OF q1 q2 disc first d2 q6]) (use success in auto)
    next
      case failure
      let ?T2 = "T @ [?W (rs_opts s1) (Reply_error err)]"
      from new_write [OF inv T, of "Reply_error err"]
      have disc: "retries_disciplined False (?B @ ?T2)"
        and first: "\<exists>answer' rest. ?T2 = ?W (rs_opts st0) answer' # rest" by blast+
      have q1: "transcript (rs_run s2) = ?B @ ?T2" using T failure by simp
      have q2: "length (filter is_write ?T2) \<le> maxRetries" using n less by simp
      have q6: "\<forall>e \<in> set (butlast ?T2). \<not> failed_otherwise e" using ok by simp
      show ?thesis
        by (rule QI [OF q1 q2 disc first d2 q6]) (use failure in auto)
    qed
  qed
  have return: "Q Returned s2"
    if less: "a < maxRetries" and inv: "I a s1"
      and body: "Create_attempt c owner repoName filePath plan s1 = (Return, s2)" for a s1 s2
  proof -
    from inv obtain T where T: "transcript (rs_run s1) = ?B @ T"
      and n: "length (filter is_write T) = a"
      and ok: "\<forall>e \<in> set T. \<not> failed_otherwise e"
      and dg: "rs_Diagnostics s1 = rs_Diagnostics st0"
      by (auto simp: I_def)
    from Create_attempt_Return [OF body] obtain err fc where
      c: "StatusCode_is err StatusConflict"
      and t2: "transcript (rs_run s2) = transcript (rs_run s1)
                 @ [?W (rs_opts s1) (Reply_error err), ?G (Reply_Contents (Some fc))]"
      and e2: "rs_err s2 = Some err"
      and d2: "\<exists>detail. rs_Diagnostics s2
                  = AddError (rs_Diagnostics s1) ''File Already Exists'' detail"
      by blast
    let ?T2 = "T @ [?W (rs_opts s1) (Reply_error err), ?G (Reply_Contents (Some fc))]"
    from two [OF inv T n ok c t2]
    have c1: "transcript (rs_run s2) = ?B @ ?T2"
      and c2: "length (filter is_write ?T2) = Suc a"
      and disc: "retries_disciplined False (?B @ ?T2)"
      and first2: "\<exists>answer rest. ?T2 = ?W (rs_opts st0) answer # rest"
      and c5: "\<forall>e \<in> set ?T2. \<not> failed_otherwise e"
      by blast+
    have q2: "length (filter is_write ?T2) \<le> maxRetries" using c2 less by simp
    have q5: "if Returned = Returned
               then \<exists>detail. rs_Diagnostics s2
                      = AddError (rs_Diagnostics st0) ''File Already Exists'' detail
               else rs_Diagnostics s2 = rs_Diagnostics st0"
      using d2 dg by simp
    have q6: "\<forall>e \<in> set (butlast ?T2). \<not> failed_otherwise e"
      using c5 by (meson in_set_butlastD)
    have q7: "\<forall>e. failed_otherwise e \<and> ?T2 \<noteq> [] \<and> last ?T2 = e \<longrightarrow>
                 (\<exists>cl err. e = Called cl (Reply_error err) \<and> rs_err s2 = Some err
                    \<and> Returned \<noteq> Returned)"
      by auto
    show ?thesis
      by (rule QI [OF c1 q2 disc first2 q5 q6 q7]) (use e2 in auto)
  qed
  have exhausted: "Q Exhausted s1" if inv: "I maxRetries s1" for s1
  proof -
    have pos: "0 < maxRetries" by (simp add: maxRetries_def)
    from inv pos obtain T where
      T: "transcript (rs_run s1) = ?B @ T"
      and n: "length (filter is_write T) = maxRetries"
      and ok: "\<forall>e \<in> set T. \<not> failed_otherwise e"
      and dg: "rs_Diagnostics s1 = rs_Diagnostics st0"
      and disc: "retries_disciplined False (?B @ T)"
      and first': "\<exists>answer rest. T = ?W (rs_opts st0) answer # rest"
      and tail: "\<exists>T' opts err fetched. T = T' @ [?W opts (Reply_error err), ?G fetched]
                   \<and> StatusCode_is err StatusConflict
                   \<and> fetched_options False fetched opts = Some (rs_opts s1)
                   \<and> rs_err s1 = Some err"
      unfolding I_def by blast
    from tail obtain T' opts err fetched where
      t: "T = T' @ [?W opts (Reply_error err), ?G fetched]"
      and e: "rs_err s1 = Some err" by blast
    have q2: "length (filter is_write T) \<le> maxRetries" using n by simp
    have q5: "if Exhausted = Returned
               then \<exists>detail. rs_Diagnostics s1
                      = AddError (rs_Diagnostics st0) ''File Already Exists'' detail
               else rs_Diagnostics s1 = rs_Diagnostics st0"
      using dg by simp
    have q6: "\<forall>e \<in> set (butlast T). \<not> failed_otherwise e"
      using ok by (meson in_set_butlastD)
    have tne: "T \<noteq> []" using t by simp
    have q7: "\<forall>e. failed_otherwise e \<and> T \<noteq> [] \<and> last T = e \<longrightarrow>
                 (\<exists>cl err. e = Called cl (Reply_error err) \<and> rs_err s1 = Some err
                    \<and> Exhausted \<noteq> Returned)"
      using ok tne last_in_set by blast
    have q9: "\<forall>err. rs_err s1 = Some err \<longrightarrow>
                 (\<exists>opts. last (filter is_write T) = ?W opts (Reply_error err))"
      using e by (subst t) simp
    show ?thesis
      by (rule QI [OF T q2 disc first' q5 q6 q7 _ q9]) (use e in simp)
  qed
  have "Q (fst (for_loop maxRetries (Create_attempt c owner repoName filePath plan) 0 st0))
          (snd (for_loop maxRetries (Create_attempt c owner repoName filePath plan) 0 st0))"
    using init _ continue break return exhausted
    by (rule for_loop_rule [where I = I and Q = Q]) simp_all
  with loop show ?thesis by (simp add: Q_def)
qed

lemma branch_GetOptions_CommitMessage [simp]:
  "branch_GetOptions (plan\<lparr>m_CommitMessage := msg\<rparr>) = branch_GetOptions plan"
  by (simp add: branch_GetOptions_def)

lemma Create_decompose:
  "(\<exists>resp s'. Create env r req resp0 s = (resp, s') \<and> quiet s s')
   \<or> (\<exists>c owner repoName filePath plan opts resp1 s3 left st.
         quiet s s3
       \<and> for_loop maxRetries (Create_attempt c owner repoName filePath plan) 0
           \<lparr>rs_opts = opts, rs_create = None, rs_err = None,
            rs_Diagnostics = Diagnostics resp1, rs_run = s3\<rparr> = (left, st)
       \<and> (if left = Returned
           then Create env r req resp0 s = (resp1\<lparr>Diagnostics := rs_Diagnostics st\<rparr>, rs_run st)
           else case rs_err st of
             Some err \<Rightarrow>
               Create env r req resp0 s
                 = (resp1\<lparr>Diagnostics := AddError (rs_Diagnostics st) ''Error creating file''
                       (''Unable to create file '' @ filePath @ '' in repository '' @ owner @ ''/''
                         @ repoName @ '' after '' @ format_d (int maxRetries) @ '' attempts: ''
                         @ Error err)\<rparr>, rs_run st)
           | None \<Rightarrow>
               (\<exists>resp s'. Create env r req resp0 s = (resp, s') \<and> quiet (rs_run st) s')))"
proof -
  obtain plan_diags plan where pl: "create_Plan req = (plan_diags, plan)"
    by (cases "create_Plan req")
  let ?resp = "resp0\<lparr>Diagnostics := Append (Diagnostics resp0) plan_diags\<rparr>"
  let ?repoName = "ValueString (m_Repository plan)"
  let ?filePath = "ValueString (m_File plan)"
  show ?thesis
  proof (cases "HasError (Diagnostics ?resp)")
    case True
    then have "Create env r req resp0 s = (?resp, s)"
      by (simp add: Create_def pl)
    then show ?thesis by auto
  next
    case noerr: False
    show ?thesis
    proof (cases "r_client r")
      case None
      with noerr have "\<exists>resp. Create env r req resp0 s = (resp, s)"
        by (simp add: Create_def pl)
      then show ?thesis by auto
    next
      case (Some c)
      obtain own s1 where go: "getOwner c r s = (own, s1)" by (cases "getOwner c r s")
      then have q1: "quiet s s1" by (rule getOwner_quiet)
      show ?thesis
      proof (cases own)
        case (Inl err)
        with noerr Some go have "\<exists>resp. Create env r req resp0 s = (resp, s1)"
          by (simp add: Create_def pl)
        with q1 show ?thesis by auto
      next
        case (Inr owner)
        note base = noerr Some go Inr
        obtain go_on plan1 diags1 s2 where
          ck: "checkAndCreateBranchIfNeeded c owner ?repoName plan (Diagnostics ?resp) s1
                 = ((go_on, plan1, diags1), s2)"
          by (metis prod.exhaust)
        then have q2: "quiet s1 s2" by (rule checkAndCreateBranchIfNeeded_quiet)
        with q1 have q02: "quiet s s2" by (rule quiet_trans)
        show ?thesis
        proof (cases go_on)
          case False
          with base ck have "\<exists>resp. Create env r req resp0 s = (resp, s2)"
            by (simp add: Create_def pl Let_def)
          with q02 show ?thesis by auto
        next
          case go_on: True
          show ?thesis
          proof (cases "buildFileOptions plan1 (ValueString (m_Content plan))")
            case (Inl diags)
            with base ck go_on
            have "\<exists>resp. Create env r req resp0 s = (resp, s2)"
              by (simp add: Create_def pl Let_def)
            with q02 show ?thesis by auto
          next
            case (Inr opts0)
            let ?resp1 = "?resp\<lparr>Diagnostics := diags1\<rparr>"
            let ?get = "invoke (Call_Repositories_GetContents owner ?repoName ?filePath
                                 (branch_GetOptions plan1))
                         Reply_Contents
                         (Repositories_GetContents c owner ?repoName ?filePath
                            (branch_GetOptions plan1)) s2"
            define after where "after =
              (\<lambda>planM optsF s3.
               case for_loop maxRetries (Create_attempt c owner ?repoName ?filePath planM) 0
                      \<lparr>rs_opts = optsF, rs_create = None, rs_err = None,
                       rs_Diagnostics = Diagnostics ?resp1, rs_run = s3\<rparr> of
                  (Returned, st) \<Rightarrow> (?resp1\<lparr>Diagnostics := rs_Diagnostics st\<rparr>, rs_run st)
                | (left, st) \<Rightarrow>
                let resp = ?resp1\<lparr>Diagnostics := rs_Diagnostics st\<rparr> in
                case rs_err st of
                  Some err \<Rightarrow>
                    (resp\<lparr>Diagnostics := AddError (Diagnostics resp) ''Error creating file''
                       (''Unable to create file '' @ ?filePath @ '' in repository '' @ owner @ ''/''
                         @ ?repoName @ '' after '' @ format_d (int maxRetries) @ '' attempts: ''
                         @ Error err)\<rparr>, rs_run st)
                | None \<Rightarrow>
                let plan = planM\<lparr>m_ID := Known (?repoName @ '':'' @ ?filePath)\<rparr>;
                    plan = (case rs_create st of
                              Some create \<Rightarrow>
                                plan\<lparr>m_CommitSHA := Known (GetString (response_SHA create))\<rparr>
                            | None \<Rightarrow> plan)
                in
                case readFile env c owner ?repoName ?filePath plan (Diagnostics resp) (rs_run st) of
                  ((plan, diags), s4) \<Rightarrow>
                let resp = resp\<lparr>Diagnostics := diags\<rparr> in
                if HasError (Diagnostics resp) then (resp, s4)
                else
                  let plan = (if \<not> ValueBool (m_AutocreateBranch plan)
                              then plan\<lparr>m_AutocreateBranchSourceSHA := Null\<rparr>
                              else if IsNull (m_AutocreateBranchSourceSHA plan)
                                      \<or> IsUnknown (m_AutocreateBranchSourceSHA plan)
                              then plan\<lparr>m_AutocreateBranchSourceSHA := Null\<rparr>
                              else plan)
                  in (resp\<lparr>State := Some plan\<rparr>, s4))"
            have tail_ok: ?thesis
              if q03: "quiet s s3" and run: "Create env r req resp0 s = after planM optsF s3"
              for planM optsF s3
            proof -
              let ?st0 = "\<lparr>rs_opts = optsF, rs_create = None, rs_err = None,
                           rs_Diagnostics = Diagnostics ?resp1, rs_run = s3\<rparr>"
              obtain left stf where
                lp: "for_loop maxRetries (Create_attempt c owner ?repoName ?filePath planM) 0 ?st0
                       = (left, stf)"
                by (cases "for_loop maxRetries (Create_attempt c owner ?repoName ?filePath planM)
                             0 ?st0")
              have fin: "if left = Returned
                 then Create env r req resp0 s = (?resp1\<lparr>Diagnostics := rs_Diagnostics stf\<rparr>, rs_run stf)
                 else case rs_err stf of
                   Some err \<Rightarrow>
                     Create env r req resp0 s
                       = (?resp1\<lparr>Diagnostics := AddError (rs_Diagnostics stf) ''Error creating file''
                         (''Unable to create file '' @ ?filePath @ '' in repository '' @ owner @ ''/''
                           @ ?repoName @ '' after '' @ format_d (int maxRetries) @ '' attempts: ''
                           @ Error err)\<rparr>, rs_run stf)
                 | None \<Rightarrow>
                     (\<exists>resp s'. Create env r req resp0 s = (resp, s') \<and> quiet (rs_run stf) s')"
              proof (cases "rs_err stf")
                case (Some err)
                then show ?thesis
                  unfolding run after_def lp by (cases left) simp_all
              next
                case None
                let ?respL = "?resp1\<lparr>Diagnostics := rs_Diagnostics stf\<rparr>"
                let ?planL = "case rs_create stf of
                                Some create \<Rightarrow>
                                  planM\<lparr>m_ID := Known (?repoName @ '':'' @ ?filePath),
                                          m_CommitSHA := Known (GetString (response_SHA create))\<rparr>
                              | None \<Rightarrow> planM\<lparr>m_ID := Known (?repoName @ '':'' @ ?filePath)\<rparr>"
                obtain planR diagsR s4 where
                  rf: "readFile env c owner ?repoName ?filePath ?planL (Diagnostics ?respL)
                         (rs_run stf) = ((planR, diagsR), s4)"
                  by (cases "readFile env c owner ?repoName ?filePath ?planL (Diagnostics ?respL)
                               (rs_run stf)") auto
                then have q4: "quiet (rs_run stf) s4" by (rule readFile_quiet)
                have pe: "(case rs_create stf of
                                Some create \<Rightarrow>
                                  (planM\<lparr>m_ID := Known (?repoName @ '':'' @ ?filePath)\<rparr>)
                                     \<lparr>m_CommitSHA := Known (GetString (response_SHA create))\<rparr>
                              | None \<Rightarrow> planM\<lparr>m_ID := Known (?repoName @ '':'' @ ?filePath)\<rparr>)
                           = ?planL"
                  by (cases "rs_create stf") simp_all
                have "left \<noteq> Returned \<Longrightarrow> \<exists>resp. Create env r req resp0 s = (resp, s4)"
                  unfolding run after_def lp Let_def pe using None rf
                  by (cases left) (simp_all del: repositoryFileResourceModel.simps)
                with q4 have "left \<noteq> Returned \<Longrightarrow>
                    \<exists>resp s'. Create env r req resp0 s = (resp, s') \<and> quiet (rs_run stf) s'"
                  by blast
                moreover have "left = Returned \<Longrightarrow>
                    Create env r req resp0 s = (?respL, rs_run stf)"
                  unfolding run after_def lp by simp
                ultimately show ?thesis using None by simp
              qed
              from q03 lp fin show ?thesis by blast
            qed
            note start = base ck go_on Inr
            have "\<exists>planM optsF s3. quiet s2 s3 \<and> Create env r req resp0 s = after planM optsF s3"
            proof (cases "ValueBool (m_OverwriteOnCreate plan1)")
              case False
              show ?thesis
              proof (cases "opt_Message opts0 = None \<or> opt_Message opts0 = Some []")
                case True
                then have "Create env r req resp0 s
                    = after (plan1\<lparr>m_CommitMessage := Known (''Add '' @ ?filePath)\<rparr>)
                        (opts0\<lparr>opt_Message := Some (''Add '' @ ?filePath)\<rparr>) s2"
                  using start False
                  by (elim disjE) (simp_all add: Create_def after_def pl Let_def
                      cong: option.case_cong prod.case_cong loop_end.case_cong)
                then show ?thesis using quiet_refl by blast
              next
                case msg: False
                then obtain m where "opt_Message opts0 = Some m" "m \<noteq> []"
                  by (cases "opt_Message opts0") auto
                then have "Create env r req resp0 s = after plan1 opts0 s2"
                  using start False
                  by (simp add: Create_def after_def pl Let_def
                      cong: option.case_cong prod.case_cong loop_end.case_cong)
                then show ?thesis using quiet_refl by blast
              qed
            next
              case True
              obtain res s3 where get: "?get = (res, s3)" by (cases ?get)
              then have q23: "quiet s2 s3" by (rule invoke_quiet) simp
              consider (found) fc where "res = Inr (Some fc)" | (no_file) "res = Inr None"
                | (failed) e where "res = Inl e"
                by (cases res) auto
              then show ?thesis
              proof cases
                case (found fc)
                note get' = get [unfolded found]
                show ?thesis
                proof (cases "opt_Message opts0 = None \<or> opt_Message opts0 = Some []")
                  case msg: True
                  then have "Create env r req resp0 s
                      = after (plan1\<lparr>m_CommitMessage := Known (''Add '' @ ?filePath)\<rparr>)
                          (opts0\<lparr>opt_Message := Some (''Add '' @ ?filePath),
                                  opt_SHA := Some (GetString (content_SHA fc))\<rparr>) s3"
                    using start True get'
                    by (elim disjE) (simp_all add: Create_def after_def pl Let_def
                        cong: option.case_cong prod.case_cong loop_end.case_cong)
                  with q23 show ?thesis by blast
                next
                  case msg: False
                  then obtain m where "opt_Message opts0 = Some m" "m \<noteq> []"
                    by (cases "opt_Message opts0") auto
                  then have "Create env r req resp0 s = after plan1 (opts0\<lparr>opt_SHA := Some (GetString (content_SHA fc))\<rparr>) s3"
                    using start True get'
                    by (simp add: Create_def after_def pl Let_def
                        cong: option.case_cong prod.case_cong loop_end.case_cong)
                  with q23 show ?thesis by blast
                qed
              next
                case (no_file)
                note get' = get [unfolded no_file]
                show ?thesis
                proof (cases "opt_Message opts0 = None \<or> opt_Message opts0 = Some []")
                  case msg: True
                  then have "Create env r req resp0 s
                      = after (plan1\<lparr>m_CommitMessage := Known (''Add '' @ ?filePath)\<rparr>)
                          (opts0\<lparr>opt_Message := Some (''Add '' @ ?filePath)\<rparr>) s3"
                    using start True get'
                    by (elim disjE) (simp_all add: Create_def after_def pl Let_def
                        cong: option.case_cong prod.case_cong loop_end.case_cong)
                  with q23 show ?thesis by blast
                next
                  case msg: False
                  then obtain m where "opt_Message opts0 = Some m" "m \<noteq> []"
                    by (cases "opt_Message opts0") auto
                  then have "Create env r req resp0 s = after plan1 (opts0) s3"
                    using start True get'
                    by (simp add: Create_def after_def pl Let_def
                        cong: option.case_cong prod.case_cong loop_end.case_cong)
                  with q23 show ?thesis by blast
                qed
              next
                case (failed e)
                note get' = get [unfolded failed]
                show ?thesis
                proof (cases "opt_Message opts0 = None \<or> opt_Message opts0 = Some []")
                  case msg: True
                  then have "Create env r req resp0 s
                      = after (plan1\<lparr>m_CommitMessage := Known (''Add '' @ ?filePath)\<rparr>)
                          (opts0\<lparr>opt_Message := Some (''Add '' @ ?filePath)\<rparr>) s3"
                    using start True get'
                    by (elim disjE) (simp_all add: Create_def after_def pl Let_def
                        cong: option.case_cong prod.case_cong loop_end.case_cong)
                  with q23 show ?thesis by blast
                next
                  case msg: False
                  then obtain m where "opt_Message opts0 = Some m" "m \<noteq> []"
                    by (cases "opt_Message opts0") auto
                  then have "Create env r req resp0 s = after plan1 (opts0) s3"
                    using start True get'
                    by (simp add: Create_def after_def pl Let_def
                        cong: option.case_cong prod.case_cong loop_end.case_cong)
                  with q23 show ?thesis by blast
                qed
              qed
            qed
            then obtain planM optsF s3 where "quiet s2 s3"
              "Create env r req resp0 s = after planM optsF s3" by blast
            with q02 show ?thesis by (intro tail_ok [of s3 planM optsF]) (auto intro: quiet_trans)
          qed
        qed
      qed
    qed
  qed
qed

text \<open>
  What a run of Create leaves behind.
\<close>

lemma Create_run:
  assumes fresh: "no_writes (transcript s)"
  shows "\<exists>resp s'. Create env r req resp0 s = (resp, s')
      \<and> length (filter is_write (transcript s')) \<le> maxRetries
      \<and> retries_disciplined False (transcript s')
      \<and> (\<forall>pre e post. transcript s' = pre @ e # post \<and> failed_otherwise e \<longrightarrow>
            post = [] \<and> (\<exists>detail. ErrorDiagnostic ''Error creating file'' detail
                                    \<in> set (Diagnostics resp)))
      \<and> (\<forall>cl err. filter is_write (transcript s') \<noteq> []
            \<and> last (filter is_write (transcript s')) = Called cl (Reply_error err) \<longrightarrow>
            (\<exists>detail. ErrorDiagnostic ''Error creating file'' detail \<in> set (Diagnostics resp))
            \<or> (\<exists>detail. ErrorDiagnostic ''File Already Exists'' detail
                   \<in> set (Diagnostics resp)))"
proof -
  from Create_decompose [of env r req resp0 s]
  consider (early) resp s' where "Create env r req resp0 s = (resp, s')" "quiet s s'"
    | (loop) c owner repoName filePath plan opts resp1 s3 left stf where
        "quiet s s3"
        "for_loop maxRetries (Create_attempt c owner repoName filePath plan) 0
           \<lparr>rs_opts = opts, rs_create = None, rs_err = None,
            rs_Diagnostics = Diagnostics resp1, rs_run = s3\<rparr> = (left, stf)"
        "if left = Returned
           then Create env r req resp0 s = (resp1\<lparr>Diagnostics := rs_Diagnostics stf\<rparr>, rs_run stf)
           else case rs_err stf of
             Some err \<Rightarrow>
               Create env r req resp0 s
                 = (resp1\<lparr>Diagnostics := AddError (rs_Diagnostics stf) ''Error creating file''
                       (''Unable to create file '' @ filePath @ '' in repository '' @ owner @ ''/''
                         @ repoName @ '' after '' @ format_d (int maxRetries) @ '' attempts: ''
                         @ Error err)\<rparr>, rs_run stf)
           | None \<Rightarrow>
               (\<exists>resp s'. Create env r req resp0 s = (resp, s') \<and> quiet (rs_run stf) s')"
    by blast
  then show ?thesis
  proof cases
    case early
    from early(2) fresh have nw: "no_writes (transcript s')" by (auto simp: quiet_def)
    have "\<not> failed_otherwise e" if "transcript s' = pre @ e # post" for pre e post
      using no_writes_not_failed [OF nw, of e] that by simp
    with early(1) nw show ?thesis
      by (auto simp: no_writes_filter disciplined_no_writes)
  next
    case loop
    let ?st0 = "\<lparr>rs_opts = opts, rs_create = None, rs_err = None,
                rs_Diagnostics = Diagnostics resp1, rs_run = s3\<rparr>"
    let ?TT = "transcript (rs_run stf)"
    from loop(1) fresh have B: "no_writes (transcript s3)" by (auto simp: quiet_def)
    then have B0: "no_writes (transcript (rs_run ?st0))" by simp
    from Create_loop [OF B0 loop(2)] obtain T where all:
      "?TT = transcript s3 @ T
           \<and> length (filter is_write T) \<le> maxRetries
           \<and> retries_disciplined False ?TT
           \<and> (\<exists>answer rest. T = Called (Call_Repositories_CreateFile owner repoName filePath
                                          opts) answer # rest)
           \<and> (if left = Returned
               then \<exists>detail. rs_Diagnostics stf
                      = AddError (Diagnostics resp1) ''File Already Exists'' detail
               else rs_Diagnostics stf = Diagnostics resp1)
           \<and> (\<forall>e \<in> set (butlast T). \<not> failed_otherwise e)
           \<and> (\<forall>e. failed_otherwise e \<and> T \<noteq> [] \<and> last T = e \<longrightarrow>
                 (\<exists>cl err. e = Called cl (Reply_error err) \<and> rs_err stf = Some err
                    \<and> left \<noteq> Returned))
           \<and> (rs_err stf = None \<longrightarrow>
                 (\<exists>opts create. rs_create stf = Some create
                    \<and> last T = Called (Call_Repositories_CreateFile owner repoName filePath opts)
                                 (Reply_ContentResponse create)))
           \<and> (\<forall>err. rs_err stf = Some err \<longrightarrow>
                 (\<exists>opts. last (filter is_write T)
                    = Called (Call_Repositories_CreateFile owner repoName filePath opts)
                        (Reply_error err)))"
      unfolding retry_state.simps by (elim exE)
    then have T: "?TT = transcript s3 @ T"
      and n: "length (filter is_write T) \<le> maxRetries"
      and disc: "retries_disciplined False ?TT"
      and first: "\<exists>answer rest. T = Called (Call_Repositories_CreateFile owner repoName filePath
                                          opts) answer # rest"
      and dg: "if left = Returned
               then \<exists>detail. rs_Diagnostics stf
                      = AddError (Diagnostics resp1) ''File Already Exists'' detail
               else rs_Diagnostics stf = Diagnostics resp1"
      and bl: "\<forall>e \<in> set (butlast T). \<not> failed_otherwise e"
      and lastfail: "\<forall>e. failed_otherwise e \<and> T \<noteq> [] \<and> last T = e \<longrightarrow>
                 (\<exists>cl err. e = Called cl (Reply_error err) \<and> rs_err stf = Some err
                    \<and> left \<noteq> Returned)"
      and succ: "rs_err stf = None \<longrightarrow>
                 (\<exists>opts create. rs_create stf = Some create
                    \<and> last T = Called (Call_Repositories_CreateFile owner repoName filePath opts)
                                 (Reply_ContentResponse create))"
      by blast+
    from first have Tne: "T \<noteq> []" by auto
    have lastTT: "last ?TT = last T" using Tne by (simp add: T)
    have bl2: "\<forall>e \<in> set (butlast ?TT). \<not> failed_otherwise e"
      using bl B Tne by (auto simp: T butlast_append dest: no_writes_not_failed)
    have d: "post = [] \<and> e = last T" if "?TT = pre @ e # post" "failed_otherwise e"
      for pre e post
    proof -
      have "post = []" using only_last [OF bl2 that] .
      with that(1) lastTT show ?thesis by simp
    qed
    have ga: "length (filter is_write ?TT) \<le> maxRetries"
      using n B by (simp add: T no_writes_filter)
    show ?thesis
    proof (cases "left = Returned")
      case True
      let ?resp = "resp1\<lparr>Diagnostics := rs_Diagnostics stf\<rparr>"
      from True loop(3) have up: "Create env r req resp0 s = (?resp, rs_run stf)" by simp
      from True dg obtain detail where
        "rs_Diagnostics stf = AddError (Diagnostics resp1) ''File Already Exists'' detail"
        by auto
      then have "ErrorDiagnostic ''File Already Exists'' detail \<in> set (Diagnostics ?resp)"
        by (simp add: in_AddError)
      then have diag: "\<exists>detail. ErrorDiagnostic ''File Already Exists'' detail
                                    \<in> set (Diagnostics ?resp)" ..
      have nofail: "\<not> failed_otherwise (last T)"
        using lastfail True Tne by blast
      have gd: "\<forall>pre e post. ?TT = pre @ e # post \<and> failed_otherwise e \<longrightarrow>
            post = [] \<and> (\<exists>detail. ErrorDiagnostic ''Error creating file'' detail
                                    \<in> set (Diagnostics ?resp))"
        using d nofail by blast
      have ge: "\<forall>cl err. filter is_write ?TT \<noteq> []
            \<and> last (filter is_write ?TT) = Called cl (Reply_error err) \<longrightarrow>
            (\<exists>detail. ErrorDiagnostic ''Error creating file'' detail \<in> set (Diagnostics ?resp))
            \<or> (\<exists>detail. ErrorDiagnostic ''File Already Exists'' detail
                   \<in> set (Diagnostics ?resp))"
        using diag by blast
      show ?thesis
        unfolding up by (intro exI conjI) (rule refl ga disc gd ge)+
    next
      case notret: False
      show ?thesis
      proof (cases "rs_err stf")
        case (Some err)
        let ?resp = "resp1\<lparr>Diagnostics := AddError (rs_Diagnostics stf) ''Error creating file''
                       (''Unable to create file '' @ filePath @ '' in repository '' @ owner @ ''/''
                         @ repoName @ '' after '' @ format_d (int maxRetries) @ '' attempts: ''
                         @ Error err)\<rparr>"
        from notret Some loop(3) have up: "Create env r req resp0 s = (?resp, rs_run stf)"
          by simp
        have diag: "\<exists>detail. ErrorDiagnostic ''Error creating file'' detail
                                    \<in> set (Diagnostics ?resp)"
          using in_AddError by auto
        have gd: "\<forall>pre e post. ?TT = pre @ e # post \<and> failed_otherwise e \<longrightarrow>
            post = [] \<and> (\<exists>detail. ErrorDiagnostic ''Error creating file'' detail
                                    \<in> set (Diagnostics ?resp))"
          using d diag by blast
        have ge: "\<forall>cl err. filter is_write ?TT \<noteq> []
            \<and> last (filter is_write ?TT) = Called cl (Reply_error err) \<longrightarrow>
            (\<exists>detail. ErrorDiagnostic ''Error creating file'' detail \<in> set (Diagnostics ?resp))
            \<or> (\<exists>detail. ErrorDiagnostic ''File Already Exists'' detail
                   \<in> set (Diagnostics ?resp))"
          using diag by blast
        show ?thesis
          unfolding up by (intro exI conjI) (rule refl ga disc gd ge)+
      next
        case None
        with succ obtain opts' create where
          lastT: "last T = Called (Call_Repositories_CreateFile owner repoName filePath opts')
                                 (Reply_ContentResponse create)" by blast
        from notret None loop(3) obtain resp s' where
          up: "Create env r req resp0 s = (resp, s')" and q: "quiet (rs_run stf) s'" by auto
        from q obtain R where R: "transcript s' = ?TT @ R" "no_writes R"
          by (auto simp: quiet_def)
        then have tr: "transcript s' = transcript s3 @ T @ R" by (simp add: T)
        have nolast: "\<not> failed_otherwise (last T)" by (simp add: lastT)
        have inT: "\<not> failed_otherwise e" if "e \<in> set T" for e
        proof (cases "e = last T")
          case True
          with nolast show ?thesis by simp
        next
          case False
          from Tne have "T = butlast T @ [last T]" by simp
          then have "set T = insert (last T) (set (butlast T))"
            by (metis Un_insert_right list.set(1) list.set(2) set_append sup_bot.right_neutral)
          with that False have "e \<in> set (butlast T)" by simp
          with bl show ?thesis by blast
        qed
        have nofail: "\<not> failed_otherwise e" if "e \<in> set (transcript s')" for e
          using that inT B R(2) by (auto simp: tr dest: no_writes_not_failed)
        have "filter is_write (transcript s') = filter is_write T"
          using B R(2) by (simp add: tr no_writes_filter)
        moreover have "last (filter is_write T) = last T"
          using Tne lastT by (intro last_filter_last) simp_all
        ultimately have lw: "last (filter is_write (transcript s')) = last T" by simp
        have disc': "retries_disciplined False (transcript s')"
          unfolding R(1) using disc R(2) by (rule disciplined_append_quiet)
        have ga': "length (filter is_write (transcript s')) \<le> maxRetries"
          using n B R(2) by (simp add: tr no_writes_filter)
        have gd: "\<forall>pre e post. transcript s' = pre @ e # post \<and> failed_otherwise e \<longrightarrow>
            post = [] \<and> (\<exists>detail. ErrorDiagnostic ''Error creating file'' detail
                                    \<in> set (Diagnostics resp))"
          using nofail by auto
        have ge: "\<forall>cl err. filter is_write (transcript s') \<noteq> []
            \<and> last (filter is_write (transcript s')) = Called cl (Reply_error err) \<longrightarrow>
            (\<exists>detail. ErrorDiagnostic ''Error creating file'' detail \<in> set (Diagnostics resp))
            \<or> (\<exists>detail. ErrorDiagnostic ''File Already Exists'' detail
                   \<in> set (Diagnostics resp))"
          using lw lastT by auto
        show ?thesis
          unfolding up by (intro exI conjI) (rule refl ga' disc' gd ge)+
      qed
    qed
  qed
qed

section \<open>The claims about the retry loops\<close>





text \<open>
  C6. In Create, Update and Delete of the file resource a write request answered by an
  error that is not HTTP 409 is the last request of the run, and the response then holds
  the error diagnostic of the operation (for Delete: unless the answer was HTTP 404).
\<close>

theorem write_error_ends_run:
  assumes fresh: "no_writes (transcript s)"
  shows "(\<exists>resp s'. Create env r create_req resp0 s = (resp, s')
            \<and> (\<forall>pre e post. transcript s' = pre @ e # post \<and> failed_otherwise e \<longrightarrow>
                  post = [] \<and> (\<exists>detail. ErrorDiagnostic ''Error creating file'' detail
                                          \<in> set (Diagnostics resp))))
       \<and> (\<exists>resp s'. Update env r update_req resp0 s = Returns (resp, s')
            \<and> (\<forall>pre e post. transcript s' = pre @ e # post \<and> failed_otherwise e \<longrightarrow>
                  post = [] \<and> (\<exists>detail. ErrorDiagnostic ''Error updating file'' detail
                                          \<in> set (Diagnostics resp))))
       \<and> (\<exists>resp s'. Delete r delete_req resp0 s = (resp, s')
            \<and> (\<forall>pre e post. transcript s' = pre @ e # post \<and> failed_otherwise e \<longrightarrow>
                  post = [] \<and> (\<not> answered_not_found e \<longrightarrow>
                                 (\<exists>detail. ErrorDiagnostic ''Error deleting file'' detail
                                            \<in> set (Diagnostics resp)))))"
proof (intro conjI)
  from Create_run [OF fresh, of env r create_req resp0]
  show "\<exists>resp s'. Create env r create_req resp0 s = (resp, s')
            \<and> (\<forall>pre e post. transcript s' = pre @ e # post \<and> failed_otherwise e \<longrightarrow>
                  post = [] \<and> (\<exists>detail. ErrorDiagnostic ''Error creating file'' detail
                                          \<in> set (Diagnostics resp)))"
    by blast
next
  have "update_State update_req = (fst (update_State update_req), snd (update_State update_req))"
    by simp
  from Update_run [OF this fresh, of env r resp0]
  show "\<exists>resp s'. Update env r update_req resp0 s = Returns (resp, s')
            \<and> (\<forall>pre e post. transcript s' = pre @ e # post \<and> failed_otherwise e \<longrightarrow>
                  post = [] \<and> (\<exists>detail. ErrorDiagnostic ''Error updating file'' detail
                                          \<in> set (Diagnostics resp)))"
    by blast
next
  have "delete_State delete_req = (fst (delete_State delete_req), snd (delete_State delete_req))"
    by simp
  from Delete_run [OF this fresh, of r resp0]
  show "\<exists>resp s'. Delete r delete_req resp0 s = (resp, s')
            \<and> (\<forall>pre e post. transcript s' = pre @ e # post \<and> failed_otherwise e \<longrightarrow>
                  post = [] \<and> (\<not> answered_not_found e \<longrightarrow>
                                 (\<exists>detail. ErrorDiagnostic ''Error deleting file'' detail
                                            \<in> set (Diagnostics resp))))"
    by blast
qed

text \<open>
  In Update a second write answered by HTTP 500 is the last request, and the error is
  reported.
\<close>

theorem write_error_ends_run_witness:
  "no_writes (transcript (start
      [answer_status 409, answer_file ''new'' ''theirs'', answer_status 500, answer_written ''c1'']))
   \<and> Update (example_environment [] None None) example_file_resource
       \<lparr>update_Plan = ([], example_file), update_State = ([], example_file)\<rparr> new_Response
       (start [answer_status 409, answer_file ''new'' ''theirs'', answer_status 500, answer_written ''c1''])
     = Returns
         (\<lparr>Diagnostics =
             [ErrorDiagnostic ''Error updating file''
                ''Unable to update file README.md in repository tfstack/repo after 5 attempts: refused''],
           State = None\<rparr>,
          \<lparr>world = [answer_written ''c1''],
           transcript =
             [update_request (Some ''old'') (answer_status 409),
              contents_request (answer_file ''new'' ''theirs''),
              update_request (Some ''new'') (answer_status 500)]\<rparr>)
   \<and> failed_otherwise (update_request (Some ''new'') (answer_status 500))
   \<and> (\<exists>detail. ErrorDiagnostic ''Error updating file'' detail
          \<in> set [ErrorDiagnostic ''Error updating file''
                   ''Unable to update file README.md in repository tfstack/repo after 5 attempts: refused''])"
proof -
  let ?script = "[answer_status 409, answer_file ''new'' ''theirs'', answer_status 500, answer_written ''c1'']"
  let ?diags = "[ErrorDiagnostic ''Error updating file''
                ''Unable to update file README.md in repository tfstack/repo after 5 attempts: refused'']"
  let ?e = "update_request (Some ''new'') (answer_status 500)"
  let ?pre = "[update_request (Some ''old'') (answer_status 409),
              contents_request (answer_file ''new'' ''theirs'')]"
  have fresh: "no_writes (transcript (start ?script))"
    by (simp add: start_def)
  have run: "Update (example_environment [] None None) example_file_resource
       \<lparr>update_Plan = ([], example_file), update_State = ([], example_file)\<rparr> new_Response
       (start ?script)
     = Returns (\<lparr>Diagnostics = ?diags, State = None\<rparr>,
                \<lparr>world = [answer_written ''c1''], transcript = ?pre @ ?e # []\<rparr>)"
    by code_simp
  have failed: "failed_otherwise ?e"
    by code_simp
  from write_error_ends_run [OF fresh, where r = example_file_resource
      and env = "example_environment [] None None"
      and update_req = "\<lparr>update_Plan = ([], example_file), update_State = ([], example_file)\<rparr>"
      and ?resp0.0 = new_Response, THEN conjunct2, THEN conjunct1]
  obtain resp s' where a: "Update (example_environment [] None None) example_file_resource
       \<lparr>update_Plan = ([], example_file), update_State = ([], example_file)\<rparr> new_Response
       (start ?script) = Returns (resp, s')"
    and b: "\<And>pre e post. transcript s' = pre @ e # post \<Longrightarrow> failed_otherwise e \<Longrightarrow>
          \<exists>detail. ErrorDiagnostic ''Error updating file'' detail \<in> set (Diagnostics resp)"
    by blast
  from a run have "Diagnostics resp = ?diags" "transcript s' = ?pre @ ?e # []" by auto
  with b [of ?pre ?e "[]"] failed
  have "\<exists>detail. ErrorDiagnostic ''Error updating file'' detail \<in> set ?diags"
    by simp
  with fresh run failed show ?thesis by simp
qed

text \<open>
  C6 does not hold for the requests for the contents of the file inside
  the retry loop: in Create, after a write answered by HTTP 409, a request for the
  contents answered by HTTP 500 is followed by another write, and when that one succeeds
  no diagnostic at all is reported.
\<close>

theorem Create_failed_fetch_retried:
  "Create (example_environment [] None None) example_file_resource
     \<lparr>create_Plan = ([], example_file\<lparr>m_SHA := Unknown, m_ID := Unknown\<rparr>)\<rparr>
     new_Response
     (start [answer_status 409, answer_status 500, answer_written ''c1'', answer_file ''mine'' ''hello''])
   = (\<lparr>Diagnostics = [],
       State = Some (example_file\<lparr>m_CommitSHA := Known ''c1'',
                                  m_CommitMessage := Known ''Add README.md'',
                                  m_SHA := Known ''mine''\<rparr>)\<rparr>,
      \<lparr>world = [],
       transcript =
         [create_request None (answer_status 409), contents_request (answer_status 500),
          create_request None (answer_written ''c1''),
          contents_request (answer_file ''mine'' ''hello'')]\<rparr>)"
  by code_simp





section \<open>The claim about the rate limit\<close>




section \<open>The claim about HTTP 404\<close>





end
